theory Spec2Isabelle
  imports Complex_Main "HOL-Library.Word"
begin

section \<open>JavaScript values\<close>

text \<open>
  The response class of \<^verbatim>\<open>lib/response-class.js\<close> is embedded with explicit state
  passing: its methods \<^verbatim>\<open>status\<close>, \<^verbatim>\<open>set\<close>, \<^verbatim>\<open>get\<close>, \<^verbatim>\<open>append\<close>, \<^verbatim>\<open>type\<close>, \<^verbatim>\<open>send\<close>,
  \<^verbatim>\<open>json\<close>, \<^verbatim>\<open>jsonp\<close>, \<^verbatim>\<open>sendStatus\<close>, \<^verbatim>\<open>sendFile\<close>, \<^verbatim>\<open>format\<close>, \<^verbatim>\<open>cookie\<close> and
  \<^verbatim>\<open>clearCookie\<close>, and the functions \<^verbatim>\<open>sendfile\<close> and \<^verbatim>\<open>stringify\<close> of the module.
  A JavaScript string is a sequence of 16-bit code units, a byte buffer a sequence of
  octets. Header field names and the property names of option objects are identifiers of
  the program and are kept as HOL strings.
\<close>

type_synonym jsstring = "16 word list"
type_synonym bytes = "8 word list"

definition lit :: "string \<Rightarrow> jsstring" where
  "lit s = map of_char s"

text \<open>
  A JavaScript number is NaN, an infinity or a finite value. Finite values are taken from
  the rationals, which contain every finite double; the two zeros are not told apart.
\<close>

datatype jsnum = NaN | PosInf | NegInf | Fin rat

text \<open>
  \<open>JBuffer\<close> is a Node \<^verbatim>\<open>Buffer\<close>; \<open>JView n bs\<close> is any other typed array, with
  its \<^verbatim>\<open>length\<close> \<open>n\<close> and its bytes; \<open>JDate t\<close> is a \<^verbatim>\<open>Date\<close> with time value \<open>t\<close>.
\<close>

datatype jsval =
    JUndefined
  | JNull
  | JBool bool
  | JNum jsnum
  | JStr jsstring
  | JBuffer bytes
  | JView nat bytes
  | JDate jsnum
  | JArr "jsval list"
  | JObj "(jsstring \<times> jsval) list"

text \<open>\<^verbatim>\<open>Number.isInteger\<close>: a finite number without fractional part.\<close>

fun Number_isInteger :: "jsval \<Rightarrow> bool" where
  "Number_isInteger (JNum (Fin q)) = (of_int \<lfloor>q\<rfloor> = q)"
| "Number_isInteger _ = False"

text \<open>The value of a number that passed \<^verbatim>\<open>Number.isInteger\<close>.\<close>

fun integer_value :: "jsval \<Rightarrow> int" where
  "integer_value (JNum (Fin q)) = \<lfloor>q\<rfloor>"
| "integer_value _ = 0"

section \<open>Errors\<close>

text \<open>
  An error object has its class, its message and the properties the program reads
  (\<^verbatim>\<open>code\<close>, \<^verbatim>\<open>syscall\<close>) or writes (\<^verbatim>\<open>types\<close> of the 406 error made by
  \<^verbatim>\<open>createError\<close>). A message is kept as the parts of its template: \<open>JsonOf v\<close> stands for
  \<^verbatim>\<open>JSON.stringify(v)\<close> interpolated at that place.
\<close>

datatype error_class = TypeError | RangeError | Error | HttpError int

datatype msg_part = Txt string | JsonOf jsval

record js_error =
  err_class :: error_class
  err_message :: "msg_part list"
  err_code :: "jsstring option"
  err_syscall :: "jsstring option"
  err_types :: "jsstring list option"

definition new_error :: "error_class \<Rightarrow> msg_part list \<Rightarrow> js_error" where
  "new_error cls msg =
     \<lparr>err_class = cls, err_message = msg, err_code = None, err_syscall = None,
      err_types = None\<rparr>"

section \<open>The response context\<close>

datatype encoding = Utf8

text \<open>
  The body as \<^verbatim>\<open>send\<close> holds it in \<^verbatim>\<open>chunk\<close> once the \<^verbatim>\<open>switch\<close> on its type is
  over: undefined, a string, a \<^verbatim>\<open>Buffer\<close>, or another typed array (its \<^verbatim>\<open>length\<close> and its
  bytes). Booleans, numbers and the other objects never get there: they leave through
  \<^verbatim>\<open>json\<close>.
\<close>

datatype chunk = CUndefined | CStr jsstring | CBuffer bytes | CView nat bytes

text \<open>A call of \<^verbatim>\<open>this.end\<close>: without arguments, or with a chunk and an encoding.\<close>

datatype end_call = End | End_with chunk "encoding option"

text \<open>
  The state of the response: the status code, the header store of the underlying outgoing
  message (keyed by the lower-cased field name), and the calls of \<^verbatim>\<open>end\<close> made so far.
\<close>

record response =
  statusCode :: int
  headers :: "string \<Rightarrow> jsval option"
  ended :: "end_call list"

text \<open>
  A piece of code either completes or throws. \<open>Returned x r\<close> carries a result and the
  context after the code ran; a method that ends in \<^verbatim>\<open>return this\<close> has the result
  \<open>()\<close>, the context returned being \<open>r\<close> itself. \<open>Thrown e r\<close> carries the error and
  the context as it was when the error was thrown.
\<close>

datatype 'a outcome = Returned 'a response | Thrown js_error response

fun and_then :: "'a outcome \<Rightarrow> ('a \<Rightarrow> response \<Rightarrow> 'b outcome) \<Rightarrow> 'b outcome" where
  "and_then (Returned x r) f = f x r"
| "and_then (Thrown e r) f = Thrown e r"

section \<open>Builtins of the language\<close>

text \<open>Conversion to boolean, as \<^verbatim>\<open>!x\<close>, \<^verbatim>\<open>x || y\<close> and \<^verbatim>\<open>if (x)\<close> apply it.\<close>

fun truthy :: "jsval \<Rightarrow> bool" where
  "truthy JUndefined = False"
| "truthy JNull = False"
| "truthy (JBool b) = b"
| "truthy (JNum NaN) = False"
| "truthy (JNum (Fin q)) = (q \<noteq> 0)"
| "truthy (JNum PosInf) = True"
| "truthy (JNum NegInf) = True"
| "truthy (JStr s) = (s \<noteq> [])"
| "truthy (JBuffer b) = True"
| "truthy (JView n b) = True"
| "truthy (JDate t) = True"
| "truthy (JArr vs) = True"
| "truthy (JObj ps) = True"

text \<open>The decimal digits of a natural number.\<close>

fun decimal :: "nat \<Rightarrow> jsstring" where
  "decimal n =
     (if n < 10 then [of_nat (48 + n)]
      else decimal (n div 10) @ [of_nat (48 + n mod 10)])"

declare decimal.simps [simp del]

definition toLowerCase :: "string \<Rightarrow> string" where
  "toLowerCase s =
     map (\<lambda>c. let n = (of_char c :: nat) in
                if 65 \<le> n \<and> n \<le> 90 then char_of (n + 32) else c) s"

section \<open>Collaborators\<close>

text \<open>
  A handler is a function of the caller's; the model knows it by a number and records
  when it is called.
\<close>

datatype handler = Handler nat

text \<open>
  What the response class consumes and does not define is a parameter of the model, each
  a function of its arguments: the builtins of the platform
  (\<^verbatim>\<open>JSON.stringify\<close>, \<^verbatim>\<open>Buffer.byteLength\<close>, \<^verbatim>\<open>Buffer.from\<close>, \<^verbatim>\<open>String\<close> and the
  conversion to number on the values not given below, \<^verbatim>\<open>Date.now\<close>, \<^verbatim>\<open>path.isAbsolute\<close>,
  \<^verbatim>\<open>encodeURI\<close>), the libraries
  (\<^verbatim>\<open>mime.contentType\<close> with \<open>None\<close> for \<^verbatim>\<open>false\<close>, \<^verbatim>\<open>statuses.message\<close>,
  \<^verbatim>\<open>cookie.serialize\<close>, \<^verbatim>\<open>sign\<close>, the header value \<^verbatim>\<open>vary\<close> computes), the helpers of
  \<^verbatim>\<open>./utils\<close> (\<^verbatim>\<open>setCharset\<close>, and the \<^verbatim>\<open>value\<close> fields of what \<^verbatim>\<open>normalizeType\<close> and
  \<^verbatim>\<open>normalizeTypes\<close> return), the settings of the application (\<open>etag_fn\<close> is \<open>None\<close>
  when the setting \<^verbatim>\<open>etag fn\<close> is not a function), and the request. \<open>req_fresh\<close> is the
  value the getter \<^verbatim>\<open>req.fresh\<close> gives when \<^verbatim>\<open>send\<close> reads it, which it does once.
  \<^verbatim>\<open>cookie.serialize\<close> and \<^verbatim>\<open>sign\<close> check their arguments and throw on those they
  refuse (a name, a value or an option that is not valid in a cookie, a secret that is
  not a key): their result is the error thrown or the string returned.
\<close>

record env =
  JSON_stringify :: "jsval \<Rightarrow> jsval \<Rightarrow> jsval \<Rightarrow> jsstring option"
  Buffer_byteLength :: "chunk \<Rightarrow> encoding option \<Rightarrow> nat"
  Buffer_from :: "chunk \<Rightarrow> encoding option \<Rightarrow> bytes"
  String_other :: "jsval \<Rightarrow> jsstring"
  Number_other :: "jsval \<Rightarrow> jsnum"
  Date_now :: int
  path_isAbsolute :: "jsstring \<Rightarrow> bool"
  encodeURI :: "jsstring \<Rightarrow> jsstring"
  mime_contentType :: "jsstring \<Rightarrow> jsstring option"
  statuses_message :: "jsval \<Rightarrow> jsstring option"
  cookie_serialize :: "jsstring \<Rightarrow> jsstring \<Rightarrow> (string \<Rightarrow> jsval option) \<Rightarrow> js_error + jsstring"
  cookie_sign :: "jsstring \<Rightarrow> jsval \<Rightarrow> js_error + jsstring"
  vary_append :: "jsval \<Rightarrow> jsstring \<Rightarrow> jsstring"
  setCharset :: "jsstring \<Rightarrow> jsstring \<Rightarrow> jsstring"
  normalizeType :: "jsstring \<Rightarrow> jsstring"
  normalizeTypes :: "jsstring list \<Rightarrow> jsstring list"
  etag_fn :: "(chunk \<Rightarrow> encoding option \<Rightarrow> jsval) option"
  etag_enabled :: bool
  json_escape :: jsval
  json_replacer :: jsval
  json_spaces :: jsval
  jsonp_callback_name :: jsstring
  req_fresh :: bool
  req_method :: jsstring
  req_query :: "jsstring \<Rightarrow> jsval"
  req_secret :: jsval
  req_accepts :: "jsstring list \<Rightarrow> jsstring option"

text \<open>
  \<^verbatim>\<open>String(v)\<close>. An integer below \<open>10\<^sup>2\<^sup>1\<close> in absolute value is written in decimal digits.
\<close>

fun js_String :: "env \<Rightarrow> jsval \<Rightarrow> jsstring" where
  "js_String E (JStr s) = s"
| "js_String E JUndefined = lit ''undefined''"
| "js_String E JNull = lit ''null''"
| "js_String E (JBool b) = (if b then lit ''true'' else lit ''false'')"
| "js_String E (JNum NaN) = lit ''NaN''"
| "js_String E (JNum PosInf) = lit ''Infinity''"
| "js_String E (JNum NegInf) = lit ''-Infinity''"
| "js_String E (JNum (Fin q)) =
     (if of_int \<lfloor>q\<rfloor> = q \<and> \<bar>q\<bar> < 10 ^ 21 then
        (if q < 0 then lit ''-'' @ decimal (nat (- \<lfloor>q\<rfloor>)) else decimal (nat \<lfloor>q\<rfloor>))
      else String_other E (JNum (Fin q)))"
| "js_String E (JBuffer b) = String_other E (JBuffer b)"
| "js_String E (JView n b) = String_other E (JView n b)"
| "js_String E (JDate t) = String_other E (JDate t)"
| "js_String E (JArr vs) = String_other E (JArr vs)"
| "js_String E (JObj ps) = String_other E (JObj ps)"

section \<open>Headers\<close>

text \<open>
  The header store is the one of the outgoing message of the platform: \<^verbatim>\<open>setHeader\<close>,
  \<^verbatim>\<open>getHeader\<close> and \<^verbatim>\<open>removeHeader\<close> find a field by its lower-cased name, and
  \<^verbatim>\<open>getHeader\<close> gives undefined for a field that is not there.
\<close>

definition setHeader :: "response \<Rightarrow> string \<Rightarrow> jsval \<Rightarrow> response" where
  "setHeader r field v = r\<lparr>headers := (headers r)(toLowerCase field \<mapsto> v)\<rparr>"

definition removeHeader :: "response \<Rightarrow> string \<Rightarrow> response" where
  "removeHeader r field = r\<lparr>headers := (headers r)(toLowerCase field := None)\<rparr>"

definition get :: "response \<Rightarrow> string \<Rightarrow> jsval" where
  "get r field = (case headers r (toLowerCase field) of None \<Rightarrow> JUndefined | Some v \<Rightarrow> v)"

text \<open>
  The value \<^verbatim>\<open>header\<close> stores for the field Content-Type: what \<^verbatim>\<open>mime.contentType\<close>
  makes of the string, which may be \<^verbatim>\<open>false\<close>.
\<close>

definition content_type_value :: "env \<Rightarrow> jsstring \<Rightarrow> jsval" where
  "content_type_value E s =
     (case mime_contentType E s of None \<Rightarrow> JBool False | Some m \<Rightarrow> JStr m)"

text \<open>
  \<^verbatim>\<open>set(field, val)\<close>, that is \<^verbatim>\<open>header\<close> called with two arguments. \<open>coerce\<close> is
  \<^verbatim>\<open>Array.isArray(val) ? val.map(String) : String(val)\<close>, and \<open>stored\<close> the value as
  the header store holds it.
\<close>

datatype header_value = Single jsstring | Multiple "jsstring list"

definition coerce :: "env \<Rightarrow> jsval \<Rightarrow> header_value" where
  "coerce E val =
     (case val of JArr vs \<Rightarrow> Multiple (map (js_String E) vs) | _ \<Rightarrow> Single (js_String E val))"

fun stored :: "header_value \<Rightarrow> jsval" where
  "stored (Single s) = JStr s"
| "stored (Multiple ss) = JArr (map JStr ss)"

definition header :: "env \<Rightarrow> response \<Rightarrow> string \<Rightarrow> jsval \<Rightarrow> unit outcome" where
  "header E r field val =
     (let value = coerce E val
      in if toLowerCase field = ''content-type'' then
           (case value of
              Multiple ss \<Rightarrow>
                Thrown (new_error TypeError [Txt ''Content-Type cannot be an array'']) r
            | Single s \<Rightarrow> Returned () (setHeader r field (content_type_value E s)))
         else Returned () (setHeader r field (stored value)))"

definition set_header :: "env \<Rightarrow> response \<Rightarrow> string \<Rightarrow> jsval \<Rightarrow> unit outcome" where
  "set_header E r field val = header E r field val"

text \<open>\<^verbatim>\<open>type(t)\<close>; \<open>0x2F\<close> is the slash.\<close>

definition type :: "env \<Rightarrow> response \<Rightarrow> jsstring \<Rightarrow> unit outcome" where
  "type E r t =
     (let ct = (if 0x2F \<notin> set t then
                  (case mime_contentType E t of
                     None \<Rightarrow> lit ''application/octet-stream''
                   | Some m \<Rightarrow> if m \<noteq> [] then m else lit ''application/octet-stream'')
                else t)
      in set_header E r ''Content-Type'' (JStr ct))"

text \<open>\<^verbatim>\<open>append(field, val)\<close>.\<close>

definition append_header :: "env \<Rightarrow> response \<Rightarrow> string \<Rightarrow> jsval \<Rightarrow> unit outcome" where
  "append_header E r field val =
     (let prev = get r field;
          value = (if truthy prev then
                     (case prev of
                        JArr ps \<Rightarrow> (case val of JArr vs \<Rightarrow> JArr (ps @ vs) | _ \<Rightarrow> JArr (ps @ [val]))
                      | _ \<Rightarrow> (case val of JArr vs \<Rightarrow> JArr (prev # vs) | _ \<Rightarrow> JArr [prev, val]))
                   else val)
      in set_header E r field value)"

section \<open>The methods\<close>

subsection \<open>\<^verbatim>\<open>status\<close>\<close>

definition status :: "response \<Rightarrow> jsval \<Rightarrow> unit outcome" where
  "status r code =
     (if \<not> Number_isInteger code then
        Thrown (new_error TypeError
          [Txt ''Invalid status code: '', JsonOf code, Txt ''. Must be integer.'']) r
      else if integer_value code < 100 \<or> integer_value code > 999 then
        Thrown (new_error RangeError
          [Txt ''Invalid status code: '', JsonOf code, Txt ''. Must be 100-999.'']) r
      else Returned () (r\<lparr>statusCode := integer_value code\<rparr>))"

subsection \<open>\<^verbatim>\<open>stringify\<close>\<close>

text \<open>
  The replacement of \<^verbatim>\<open><\<close>, \<^verbatim>\<open>>\<close> and \<^verbatim>\<open>&\<close> by their escapes; \<open>0x5C\<close> is the
  backslash.
\<close>

definition escape_html_chars :: "jsstring \<Rightarrow> jsstring" where
  "escape_html_chars s =
     concat (map (\<lambda>c. if c = 0x3C then 0x5C # lit ''u003c''
                        else if c = 0x3E then 0x5C # lit ''u003e''
                        else if c = 0x26 then 0x5C # lit ''u0026''
                        else [c]) s)"

text \<open>
  \<^verbatim>\<open>JSON.stringify(value)\<close> is \<^verbatim>\<open>JSON.stringify\<close> with the replacer and the indentation
  undefined. The result is a string or undefined (\<open>None\<close>).
\<close>

definition stringify :: "env \<Rightarrow> jsval \<Rightarrow> jsval \<Rightarrow> jsval \<Rightarrow> jsval \<Rightarrow> jsstring option" where
  "stringify E v replacer spaces escape =
     (let json = (if truthy replacer \<or> truthy spaces then JSON_stringify E v replacer spaces
                  else JSON_stringify E v JUndefined JUndefined)
      in (case json of
            Some j \<Rightarrow> if truthy escape then Some (escape_html_chars j) else Some j
          | None \<Rightarrow> None))"

definition string_or_undefined :: "jsstring option \<Rightarrow> jsval" where
  "string_or_undefined b = (case b of None \<Rightarrow> JUndefined | Some s \<Rightarrow> JStr s)"

subsection \<open>\<^verbatim>\<open>send\<close>\<close>

text \<open>
  The part ``encode strings as utf-8'': the result is the variable \<^verbatim>\<open>enc\<close>.
\<close>

definition send_encode :: "env \<Rightarrow> response \<Rightarrow> chunk \<Rightarrow> (encoding option) outcome" where
  "send_encode E r chunk =
     (case chunk of
        CStr s \<Rightarrow>
          (case get r ''Content-Type'' of
             JStr t \<Rightarrow>
               and_then (set_header E r ''Content-Type'' (JStr (setCharset E t (lit ''utf-8''))))
                 (\<lambda>_ r1. Returned (Some Utf8) r1)
           | _ \<Rightarrow> Returned (Some Utf8) r)
      | _ \<Rightarrow> Returned None r)"

text \<open>\<^verbatim>\<open>chunk.length\<close>, read of a string or a typed array only.\<close>

fun chunk_length :: "chunk \<Rightarrow> nat" where
  "chunk_length (CStr s) = length s"
| "chunk_length (CBuffer b) = length b"
| "chunk_length (CView n b) = n"
| "chunk_length CUndefined = 0"

fun Buffer_isBuffer :: "chunk \<Rightarrow> bool" where
  "Buffer_isBuffer (CBuffer b) = True"
| "Buffer_isBuffer _ = False"

definition genETag :: "env \<Rightarrow> response \<Rightarrow> bool" where
  "genETag E r = (\<not> truthy (get r ''ETag'') \<and> etag_fn E \<noteq> None)"

text \<open>
  The part ``compute Content-Length / ETag''. \<open>send_measure\<close> gives the variables
  \<^verbatim>\<open>chunk\<close>, \<^verbatim>\<open>enc\<close> and \<^verbatim>\<open>len\<close> as the first \<^verbatim>\<open>if\<close> leaves them (\<open>None\<close> for a
  \<^verbatim>\<open>len\<close> that stays undefined); \<open>send_length_etag\<close> is the whole part and results in
  \<^verbatim>\<open>chunk\<close> and \<^verbatim>\<open>enc\<close>.
\<close>

definition send_measure ::
  "env \<Rightarrow> response \<Rightarrow> chunk \<Rightarrow> encoding option \<Rightarrow> chunk \<times> encoding option \<times> nat option" where
  "send_measure E r chunk enc =
     (if chunk \<noteq> CUndefined then
        (if Buffer_isBuffer chunk then (chunk, enc, Some (chunk_length chunk))
         else if \<not> genETag E r \<and> chunk_length chunk < 1000 then
           (chunk, enc, Some (Buffer_byteLength E chunk enc))
         else (CBuffer (Buffer_from E chunk enc), None,
               Some (length (Buffer_from E chunk enc))))
      else (chunk, enc, None))"

definition send_length_etag ::
  "env \<Rightarrow> response \<Rightarrow> chunk \<Rightarrow> encoding option \<Rightarrow> (chunk \<times> encoding option) outcome" where
  "send_length_etag E r chunk0 enc0 =
     (case send_measure E r chunk0 enc0 of (chunk, enc, len) \<Rightarrow>
        and_then
          (case len of
             Some n \<Rightarrow> set_header E r ''Content-Length'' (JNum (Fin (of_nat n)))
           | None \<Rightarrow> Returned () r)
          (\<lambda>_ r1.
             (case etag_fn E of
                Some etagFn \<Rightarrow>
                  if genETag E r \<and> len \<noteq> None then
                    (if truthy (etagFn chunk enc) then
                       and_then (set_header E r1 ''ETag'' (etagFn chunk enc))
                         (\<lambda>_ r2. Returned (chunk, enc) r2)
                     else Returned (chunk, enc) r1)
                  else Returned (chunk, enc) r1
              | None \<Rightarrow> Returned (chunk, enc) r1)))"

text \<open>The part ``freshness / 304 / 204 handling'': the result is \<^verbatim>\<open>chunk\<close>.\<close>

definition send_status :: "env \<Rightarrow> response \<Rightarrow> chunk \<Rightarrow> chunk outcome" where
  "send_status E r chunk =
     and_then (if req_fresh E then status r (JNum (Fin 304)) else Returned () r)
       (\<lambda>_ r1.
          and_then
            (if statusCode r1 = 204 \<or> statusCode r1 = 304 then
               Returned (CStr [])
                 (removeHeader
                    (removeHeader (removeHeader r1 ''Content-Type'') ''Content-Length'')
                    ''Transfer-Encoding'')
             else Returned chunk r1)
            (\<lambda>chunk1 r2.
               if statusCode r2 = 205 then
                 and_then (set_header E r2 ''Content-Length'' (JStr (lit ''0'')))
                   (\<lambda>_ r3. Returned (CStr []) (removeHeader r3 ''Transfer-Encoding''))
               else Returned chunk1 r2))"

text \<open>The part ``HEAD shortcut''.\<close>

definition send_end :: "env \<Rightarrow> response \<Rightarrow> chunk \<Rightarrow> encoding option \<Rightarrow> unit outcome" where
  "send_end E r chunk enc =
     (if req_method E = lit ''HEAD'' then Returned () (r\<lparr>ended := ended r @ [End]\<rparr>)
      else Returned () (r\<lparr>ended := ended r @ [End_with chunk enc]\<rparr>))"

text \<open>What \<^verbatim>\<open>send\<close> does once the \<^verbatim>\<open>switch\<close> on the type of the body is over.\<close>

definition send_chunk :: "env \<Rightarrow> response \<Rightarrow> chunk \<Rightarrow> unit outcome" where
  "send_chunk E r chunk0 =
     and_then (send_encode E r chunk0)
       (\<lambda>enc0 r1.
          and_then (send_length_etag E r1 chunk0 enc0)
            (\<lambda>ce r2.
               and_then (send_status E r2 (fst ce))
                 (\<lambda>chunk r3. send_end E r3 chunk (snd ce))))"

text \<open>The default of the Content-Type that the \<^verbatim>\<open>switch\<close> sets for a string or a view.\<close>

definition default_type :: "env \<Rightarrow> response \<Rightarrow> jsstring \<Rightarrow> unit outcome" where
  "default_type E r t =
     (if \<not> truthy (get r ''Content-Type'') then type E r t else Returned () r)"

text \<open>
  The bodies that the \<^verbatim>\<open>switch\<close> hands to \<^verbatim>\<open>json\<close>: a boolean, a number, or an object
  that is neither null nor a typed array.
\<close>

fun goes_to_json :: "jsval \<Rightarrow> bool" where
  "goes_to_json (JBool b) = True"
| "goes_to_json (JNum n) = True"
| "goes_to_json (JDate t) = True"
| "goes_to_json (JArr vs) = True"
| "goes_to_json (JObj ps) = True"
| "goes_to_json _ = False"

text \<open>
  \<^verbatim>\<open>send\<close> and \<^verbatim>\<open>json\<close>. \<^verbatim>\<open>json\<close> calls \<^verbatim>\<open>send\<close> with a string or undefined, so the
  recursion ends there.
\<close>

function (sequential) send :: "env \<Rightarrow> response \<Rightarrow> jsval \<Rightarrow> unit outcome"
  and json :: "env \<Rightarrow> response \<Rightarrow> jsval \<Rightarrow> unit outcome" where
  "send E r (JStr s) =
     and_then (default_type E r (lit ''html'')) (\<lambda>_ r1. send_chunk E r1 (CStr s))"
| "send E r JNull = send_chunk E r (CStr [])"
| "send E r (JBuffer b) =
     and_then (default_type E r (lit ''bin'')) (\<lambda>_ r1. send_chunk E r1 (CBuffer b))"
| "send E r (JView n b) =
     and_then (default_type E r (lit ''bin'')) (\<lambda>_ r1. send_chunk E r1 (CView n b))"
| "send E r JUndefined = send_chunk E r CUndefined"
| "send E r body = json E r body"
| "json E r obj =
     (let body = stringify E obj (json_replacer E) (json_spaces E) (json_escape E)
      in and_then
           (if \<not> truthy (get r ''Content-Type'')
            then set_header E r ''Content-Type'' (JStr (lit ''application/json''))
            else Returned () r)
           (\<lambda>_ r1. send E r1 (string_or_undefined body)))"
  by pat_completeness auto

termination
  by (relation "measure (\<lambda>x. case x of
        Inl (E, r, body) \<Rightarrow> (if goes_to_json body then 2 else 0)
      | Inr (E, r, obj) \<Rightarrow> 1)")
    (auto simp: string_or_undefined_def split: option.splits)

declare json.simps [simp del]

subsection \<open>\<^verbatim>\<open>jsonp\<close>\<close>

text \<open>
  The characters that \<^verbatim>\<open>/[^\[\]\w$.]/g\<close> leaves in the name of the callback: the
  brackets, the letters, digits and underscore of \<^verbatim>\<open>\w\<close>, the dollar and the dot.
\<close>

definition callback_char :: "16 word \<Rightarrow> bool" where
  "callback_char c =
     (c = 0x5B \<or> c = 0x5D
      \<or> (0x41 \<le> c \<and> c \<le> 0x5A) \<or> (0x61 \<le> c \<and> c \<le> 0x7A)
      \<or> (0x30 \<le> c \<and> c \<le> 0x39) \<or> c = 0x5F
      \<or> c = 0x24 \<or> c = 0x2E)"

definition escape_line_separators :: "jsstring \<Rightarrow> jsstring" where
  "escape_line_separators s =
     concat (map (\<lambda>c. if c = 0x2028 then 0x5C # lit ''u2028''
                        else if c = 0x2029 then 0x5C # lit ''u2029''
                        else [c]) s)"

text \<open>
  The template \<^verbatim>\<open>/**/ typeof ${cb}==='function'&&${cb}(${body});\<close>; \<open>0x27\<close> is the
  single quote.
\<close>

definition jsonp_body :: "jsstring \<Rightarrow> jsstring \<Rightarrow> jsstring" where
  "jsonp_body cb body =
     lit ''/**/ typeof '' @ cb @ lit ''==='' @ [0x27] @ lit ''function'' @ [0x27]
       @ lit ''&&'' @ cb @ lit ''('' @ body @ lit '');''"

definition jsonp :: "env \<Rightarrow> response \<Rightarrow> jsval \<Rightarrow> unit outcome" where
  "jsonp E r obj =
     (let body = stringify E obj (json_replacer E) (json_spaces E) (json_escape E);
          cb0 = req_query E (jsonp_callback_name E)
      in and_then
           (if \<not> truthy (get r ''Content-Type'') then
              and_then (set_header E r ''X-Content-Type-Options'' (JStr (lit ''nosniff'')))
                (\<lambda>_ r1. set_header E r1 ''Content-Type'' (JStr (lit ''application/json'')))
            else Returned () r)
           (\<lambda>_ r1.
              let cb = (case cb0 of
                          JArr vs \<Rightarrow> (case vs of [] \<Rightarrow> JUndefined | v # _ \<Rightarrow> v)
                        | _ \<Rightarrow> cb0)
              in (case cb of
                    JStr name \<Rightarrow>
                      if name \<noteq> [] then
                        and_then
                          (set_header E r1 ''X-Content-Type-Options'' (JStr (lit ''nosniff'')))
                          (\<lambda>_ r2.
                             and_then
                               (set_header E r2 ''Content-Type'' (JStr (lit ''text/javascript'')))
                               (\<lambda>_ r3.
                                  send E r3
                                    (JStr (jsonp_body (filter callback_char name)
                                       (case body of
                                          None \<Rightarrow> []
                                        | Some b \<Rightarrow> escape_line_separators b)))))
                      else send E r1 (string_or_undefined body)
                  | _ \<Rightarrow> send E r1 (string_or_undefined body))))"

subsection \<open>\<^verbatim>\<open>sendStatus\<close>\<close>

definition sendStatus :: "env \<Rightarrow> response \<Rightarrow> jsval \<Rightarrow> unit outcome" where
  "sendStatus E r code =
     (let body = (case statuses_message E code of
                    Some m \<Rightarrow> if m \<noteq> [] then m else js_String E code
                  | None \<Rightarrow> js_String E code)
      in and_then (status r code)
           (\<lambda>_ r1. and_then (type E r1 (lit ''txt'')) (\<lambda>_ r2. send E r2 (JStr body))))"

subsection \<open>\<^verbatim>\<open>sendfile\<close> and \<^verbatim>\<open>sendFile\<close>\<close>

text \<open>
  The state of one call of \<^verbatim>\<open>sendfile\<close>: its variables \<^verbatim>\<open>done\<close> and \<^verbatim>\<open>streaming\<close>
  (\<open>None\<close> while undefined), the number of functions given to \<^verbatim>\<open>setImmediate\<close> that
  have not run yet, and the calls of \<^verbatim>\<open>callback\<close> made so far, each with its argument
  (\<open>None\<close> for a call without an error).
\<close>

record session =
  done_flag :: bool
  streaming :: "bool option"
  pending :: nat
  calls :: "js_error option list"

definition new_session :: session where
  "new_session = \<lparr>done_flag = False, streaming = None, pending = 0, calls = []\<rparr>"

definition error_with_code :: "string \<Rightarrow> string \<Rightarrow> js_error" where
  "error_with_code msg c = (new_error Error [Txt msg])\<lparr>err_code := Some (lit c)\<rparr>"

definition onaborted :: "session \<Rightarrow> session" where
  "onaborted s =
     (if done_flag s then s
      else s\<lparr>done_flag := True,
             calls := calls s @ [Some (error_with_code ''Request aborted'' ''ECONNABORTED'')]\<rparr>)"

definition ondirectory :: "session \<Rightarrow> session" where
  "ondirectory s =
     (if done_flag s then s
      else s\<lparr>done_flag := True,
             calls := calls s @ [Some (error_with_code ''EISDIR, read'' ''EISDIR'')]\<rparr>)"

definition onerror :: "js_error option \<Rightarrow> session \<Rightarrow> session" where
  "onerror err s =
     (if done_flag s then s else s\<lparr>done_flag := True, calls := calls s @ [err]\<rparr>)"

definition onend :: "session \<Rightarrow> session" where
  "onend s = (if done_flag s then s else s\<lparr>done_flag := True, calls := calls s @ [None]\<rparr>)"

definition onfile :: "session \<Rightarrow> session" where
  "onfile s = s\<lparr>streaming := Some False\<rparr>"

definition onstream :: "session \<Rightarrow> session" where
  "onstream s = s\<lparr>streaming := Some True\<rparr>"

text \<open>The function that \<^verbatim>\<open>onfinish\<close> gives to \<^verbatim>\<open>setImmediate\<close>.\<close>

definition deferred_check :: "session \<Rightarrow> session" where
  "deferred_check s =
     (if streaming s \<noteq> Some False \<and> \<not> done_flag s then onaborted s
      else if \<not> done_flag s then s\<lparr>done_flag := True, calls := calls s @ [None]\<rparr>
      else s)"

definition onfinish :: "js_error option \<Rightarrow> session \<Rightarrow> session" where
  "onfinish err s =
     (case err of
        Some e \<Rightarrow>
          if err_code e = Some (lit ''ECONNRESET'') then onaborted s else onerror (Some e) s
      | None \<Rightarrow> if done_flag s then s else s\<lparr>pending := Suc (pending s)\<rparr>)"

text \<open>
  What can happen to a session: the events of the streamer, the finish of the
  connection, and the run of a deferred check, which does nothing when none is pending.
\<close>

datatype event =
    Directory
  | End_of_stream
  | Stream_error "js_error option"
  | File
  | Stream
  | Finish "js_error option"
  | Immediate

fun step :: "event \<Rightarrow> session \<Rightarrow> session" where
  "step Directory s = ondirectory s"
| "step End_of_stream s = onend s"
| "step (Stream_error err) s = onerror err s"
| "step File s = onfile s"
| "step Stream s = onstream s"
| "step (Finish err) s = onfinish err s"
| "step Immediate s =
     (if pending s = 0 then s else deferred_check (s\<lparr>pending := pending s - 1\<rparr>))"

definition run :: "event list \<Rightarrow> session \<Rightarrow> session" where
  "run evs s = fold step evs s"

text \<open>
  What a callback does to the outside: it calls a handler of the caller's (with the
  error it got, if any), or \<^verbatim>\<open>next\<close>, without argument or with an error.
\<close>

datatype effect = Call handler "js_error option" | Next "js_error option"

text \<open>
  The function \<^verbatim>\<open>sendFile\<close> gives to \<^verbatim>\<open>sendfile\<close> as \<^verbatim>\<open>callback\<close>; \<open>done\<close> is the
  callback of the caller, if there is one.
\<close>

definition sendFile_callback :: "handler option \<Rightarrow> js_error option \<Rightarrow> effect list" where
  "sendFile_callback done err =
     (case done of
        Some d \<Rightarrow> [Call d err]
      | None \<Rightarrow>
          (case err of
             Some e \<Rightarrow>
               if err_code e = Some (lit ''EISDIR'') then [Next None]
               else if err_code e \<noteq> Some (lit ''ECONNABORTED'')
                       \<and> err_syscall e \<noteq> Some (lit ''write'') then [Next (Some e)]
               else []
           | None \<Rightarrow> []))"

text \<open>
  The second argument of \<^verbatim>\<open>sendFile\<close>: nothing, an object of options, or a function.
\<close>

datatype options_arg = No_options | Options "string \<Rightarrow> jsval option" | Function handler

text \<open>
  A call of \<^verbatim>\<open>sendFile\<close> that does not throw starts a delivery: the streamer is made from
  the encoded path and the options, and \<^verbatim>\<open>sendfile\<close> starts a session that reports to
  \<open>sendFile_callback\<close>.
\<close>

record delivery =
  dl_pathname :: jsstring
  dl_options :: "string \<Rightarrow> jsval option"
  dl_done :: "handler option"
  dl_session :: session

definition option_value :: "(string \<Rightarrow> jsval option) \<Rightarrow> string \<Rightarrow> jsval" where
  "option_value os k = (case os k of None \<Rightarrow> JUndefined | Some v \<Rightarrow> v)"

definition sendFile ::
  "env \<Rightarrow> jsval \<Rightarrow> options_arg \<Rightarrow> handler option \<Rightarrow> js_error + delivery" where
  "sendFile E filePath options cb =
     (if \<not> truthy filePath then
        Inl (new_error TypeError [Txt ''path argument is required to res.sendFile''])
      else
        (case filePath of
           JStr p \<Rightarrow>
             (let done = (case options of Function f \<Rightarrow> Some f | _ \<Rightarrow> cb);
                  os = (case options of Options m \<Rightarrow> m | _ \<Rightarrow> Map.empty)
              in if \<not> truthy (option_value os ''root'') \<and> \<not> path_isAbsolute E p then
                   Inl (new_error TypeError
                     [Txt ''path must be absolute or specify root to res.sendFile''])
                 else
                   Inr \<lparr>dl_pathname = encodeURI E p,
                        dl_options = os(''etag'' \<mapsto> JBool (etag_enabled E)),
                        dl_done = done,
                        dl_session = new_session\<rparr>)
         | _ \<Rightarrow> Inl (new_error TypeError [Txt ''path must be a string to res.sendFile''])))"

text \<open>What a delivery does to the outside when its session gets the events \<open>evs\<close>.\<close>

definition effects :: "delivery \<Rightarrow> event list \<Rightarrow> effect list" where
  "effects d evs =
     concat (map (sendFile_callback (dl_done d)) (calls (run evs (dl_session d))))"

subsection \<open>\<^verbatim>\<open>format\<close>\<close>

text \<open>
  \<^verbatim>\<open>vary(this, field)\<close> of the library: the header Vary is set to the value the library
  computes from the present one and the field, unless that value is empty.
\<close>

definition vary :: "env \<Rightarrow> response \<Rightarrow> jsstring \<Rightarrow> response" where
  "vary E r field =
     (let val = vary_append E (get r ''Vary'') field
      in if val \<noteq> [] then setHeader r ''Vary'' (JStr val) else r)"

text \<open>
  \<^verbatim>\<open>createError(406, {types: ...})\<close>: an error with status 406 that carries the types; its
  message, which the library chooses, is left empty.
\<close>

definition createError :: "int \<Rightarrow> jsstring list \<Rightarrow> js_error" where
  "createError code types = (new_error (HttpError code) [])\<lparr>err_types := Some types\<rparr>"

text \<open>
  The table of \<^verbatim>\<open>format\<close> is the list of its keys, in the order of \<^verbatim>\<open>Object.keys\<close>, each
  with its handler. The result is what \<^verbatim>\<open>format\<close> calls: a handler with the request, the
  context and \<^verbatim>\<open>next\<close>, or \<^verbatim>\<open>next\<close> with the error. \<^verbatim>\<open>req.accepts\<close> gives a key or
  \<^verbatim>\<open>false\<close> (\<open>None\<close>); looking up a key that the table does not have gives undefined,
  and calling that throws a TypeError.
\<close>

definition format :: "env \<Rightarrow> response \<Rightarrow> (jsstring \<times> handler) list \<Rightarrow> effect outcome" where
  "format E r obj =
     (let keys = filter (\<lambda>v. v \<noteq> lit ''default'') (map fst obj);
          key = (if keys \<noteq> [] then req_accepts E keys else None);
          r1 = vary E r (lit ''Accept'')
      in if key \<noteq> None \<and> key \<noteq> Some [] then
           and_then (set_header E r1 ''Content-Type'' (JStr (normalizeType E (the key))))
             (\<lambda>_ r2.
                (case map_of obj (the key) of
                   Some h \<Rightarrow> Returned (Call h None) r2
                 | None \<Rightarrow> Thrown (new_error TypeError [Txt ''obj[key] is not a function'']) r2))
         else
           (case map_of obj (lit ''default'') of
              Some h \<Rightarrow> Returned (Call h None) r1
            | None \<Rightarrow> Returned (Next (Some (createError 406 (normalizeTypes E keys)))) r1))"

subsection \<open>\<^verbatim>\<open>cookie\<close> and \<^verbatim>\<open>clearCookie\<close>\<close>

text \<open>
  Numbers as \<^verbatim>\<open>cookie\<close> computes with them, in exact arithmetic: the conversion of a value
  to a number, the sum, the quotient by 1000, \<^verbatim>\<open>Math.floor\<close>, and the time value of
  \<^verbatim>\<open>new Date(t)\<close>, which is NaN beyond \<open>8.64 \<times> 10\<^sup>1\<^sup>5\<close> and the integral part of \<open>t\<close>
  otherwise.
\<close>

fun to_number :: "env \<Rightarrow> jsval \<Rightarrow> jsnum" where
  "to_number E (JNum n) = n"
| "to_number E JUndefined = NaN"
| "to_number E JNull = Fin 0"
| "to_number E (JBool b) = Fin (if b then 1 else 0)"
| "to_number E (JDate t) = t"
| "to_number E v = Number_other E v"

fun num_add :: "jsnum \<Rightarrow> jsnum \<Rightarrow> jsnum" where
  "num_add (Fin a) (Fin b) = Fin (a + b)"
| "num_add NaN _ = NaN"
| "num_add _ NaN = NaN"
| "num_add PosInf NegInf = NaN"
| "num_add NegInf PosInf = NaN"
| "num_add PosInf _ = PosInf"
| "num_add NegInf _ = NegInf"
| "num_add _ PosInf = PosInf"
| "num_add _ NegInf = NegInf"

fun floor_div_1000 :: "jsnum \<Rightarrow> jsnum" where
  "floor_div_1000 (Fin q) = Fin (of_int \<lfloor>q / 1000\<rfloor>)"
| "floor_div_1000 n = n"

fun new_Date :: "jsnum \<Rightarrow> jsval" where
  "new_Date (Fin q) =
     (if \<bar>q\<bar> > 8640000000000000 then JDate NaN
      else JDate (Fin (of_int (if q < 0 then \<lceil>q\<rceil> else \<lfloor>q\<rfloor>))))"
| "new_Date n = JDate NaN"

text \<open>\<^verbatim>\<open>typeof value === 'object'\<close>.\<close>

fun is_object :: "jsval \<Rightarrow> bool" where
  "is_object JNull = True"
| "is_object (JBuffer b) = True"
| "is_object (JView n b) = True"
| "is_object (JDate t) = True"
| "is_object (JArr vs) = True"
| "is_object (JObj ps) = True"
| "is_object _ = False"

text \<open>\<^verbatim>\<open>x != null\<close>.\<close>

fun not_nullish :: "jsval \<Rightarrow> bool" where
  "not_nullish JUndefined = False"
| "not_nullish JNull = False"
| "not_nullish _ = True"

text \<open>
  The options of a cookie are the properties of the object, by name; \<open>CHR 0x22\<close> is the
  double quote of the message. What \<^verbatim>\<open>sign\<close> or \<^verbatim>\<open>cookie.serialize\<close> throws leaves
  \<^verbatim>\<open>cookie\<close> before anything is appended: \<^verbatim>\<open>opts\<close> is a copy of the caller's options.
\<close>

definition cookie ::
  "env \<Rightarrow> response \<Rightarrow> jsstring \<Rightarrow> jsval \<Rightarrow> (string \<Rightarrow> jsval option) \<Rightarrow> unit outcome" where
  "cookie E r name value options =
     (let secret = req_secret E;
          signed = option_value options ''signed''
      in if truthy signed \<and> \<not> truthy secret then
           Thrown (new_error Error
             [Txt ''cookieParser('', Txt [CHR 0x22], Txt ''secret'', Txt [CHR 0x22],
              Txt '') required for signed cookies'']) r
         else
           (let val0 = (if is_object value then
                          lit ''j:'' @ (case JSON_stringify E value JUndefined JUndefined of
                                         Some j \<Rightarrow> j
                                       | None \<Rightarrow> lit ''undefined'')
                        else js_String E value);
                signed_val = (if truthy signed then
                                (case cookie_sign E val0 secret of
                                   Inl e \<Rightarrow> Inl e
                                 | Inr s \<Rightarrow> Inr (lit ''s:'' @ s))
                              else Inr val0)
            in (case signed_val of
                  Inl e \<Rightarrow> Thrown e r
                | Inr val \<Rightarrow>
                    (let maxAge = to_number E (option_value options ''maxAge'');
                         opts1 = (if not_nullish (option_value options ''maxAge'') \<and> maxAge \<noteq> NaN
                                  then options(''expires'' \<mapsto>
                                                 new_Date (num_add (Fin (of_int (Date_now E))) maxAge),
                                               ''maxAge'' \<mapsto> JNum (floor_div_1000 maxAge))
                                  else options);
                         opts2 = (if \<not> not_nullish (option_value opts1 ''path'')
                                  then opts1(''path'' \<mapsto> JStr (lit ''/'')) else opts1)
                     in (case cookie_serialize E name val opts2 of
                           Inl e \<Rightarrow> Thrown e r
                         | Inr entry \<Rightarrow> append_header E r ''Set-Cookie'' (JStr entry))))))"

text \<open>
  \<^verbatim>\<open>{ path: '/', ...options, expires: new Date(1) }\<close>, then \<^verbatim>\<open>delete opts.maxAge\<close>.
\<close>

definition clearCookie ::
  "env \<Rightarrow> response \<Rightarrow> jsstring \<Rightarrow> (string \<Rightarrow> jsval option) \<Rightarrow> unit outcome" where
  "clearCookie E r name options =
     (let opts = (([''path'' \<mapsto> JStr (lit ''/'')] ++ options)
                    (''expires'' \<mapsto> new_Date (Fin 1)))(''maxAge'' := None)
      in cookie E r name (JStr []) opts)"

section \<open>Examples\<close>

text \<open>
  A small instance of the collaborators, to run the methods on concrete inputs: a resolver
  of a few media types, UTF-8 for the code units below \<open>0x800\<close> and three bytes for each
  of the others, reason phrases of a few status codes, a \<^verbatim>\<open>setCharset\<close> that adds the
  charset to a type without parameters (\<open>0x3B\<close> is the semicolon), a \<^verbatim>\<open>sign\<close> that
  throws a TypeError for a secret that is not a string, and a serializer of cookies that
  throws a TypeError for a name that is empty or has a code unit that is not a visible
  ASCII character, a semicolon or an equals sign (\<open>0x3D\<close>), and otherwise writes the name,
  the value and the attributes path, expires (its time value) and maxAge.
\<close>

definition example_mime :: "jsstring \<Rightarrow> jsstring option" where
  "example_mime t =
     (if t = lit ''html'' \<or> t = lit ''text/html'' then Some (lit ''text/html; charset=utf-8'')
      else if t = lit ''txt'' \<or> t = lit ''text/plain'' then
        Some (lit ''text/plain; charset=utf-8'')
      else if t = lit ''json'' \<or> t = lit ''application/json'' then
        Some (lit ''application/json; charset=utf-8'')
      else if t = lit ''text/javascript'' then Some (lit ''text/javascript; charset=utf-8'')
      else if t = lit ''bin'' then Some (lit ''application/octet-stream'')
      else if 0x2F \<in> set t then Some t
      else None)"

fun example_utf8 :: "jsstring \<Rightarrow> bytes" where
  "example_utf8 [] = []"
| "example_utf8 (c # cs) =
     (if c < 0x80 then [ucast c]
      else if c < 0x800 then [0xC0 + ucast (drop_bit 6 c), 0x80 + ucast (take_bit 6 c)]
      else [0xE0 + ucast (drop_bit 12 c), 0x80 + ucast (take_bit 6 (drop_bit 6 c)),
            0x80 + ucast (take_bit 6 c)])
     @ example_utf8 cs"

fun example_bytes :: "chunk \<Rightarrow> bytes" where
  "example_bytes (CStr s) = example_utf8 s"
| "example_bytes (CBuffer b) = b"
| "example_bytes (CView n b) = b"
| "example_bytes CUndefined = []"

definition example_statuses :: "jsval \<Rightarrow> jsstring option" where
  "example_statuses code =
     (if code = JNum (Fin 200) then Some (lit ''OK'')
      else if code = JNum (Fin 204) then Some (lit ''No Content'')
      else if code = JNum (Fin 304) then Some (lit ''Not Modified'')
      else if code = JNum (Fin 404) then Some (lit ''Not Found'')
      else None)"

definition example_attribute :: "env \<Rightarrow> string \<Rightarrow> (string \<Rightarrow> jsval option) \<Rightarrow> jsstring" where
  "example_attribute E k opts =
     (case opts k of
        None \<Rightarrow> []
      | Some (JDate t) \<Rightarrow> lit ''; '' @ lit k @ lit ''='' @ js_String E (JNum t)
      | Some v \<Rightarrow> lit ''; '' @ lit k @ lit ''='' @ js_String E v)"

definition example_name_char :: "16 word \<Rightarrow> bool" where
  "example_name_char c = (0x21 \<le> c \<and> c \<le> 0x7E \<and> c \<noteq> 0x3B \<and> c \<noteq> 0x3D)"

definition example_serialize ::
  "env \<Rightarrow> jsstring \<Rightarrow> jsstring \<Rightarrow> (string \<Rightarrow> jsval option) \<Rightarrow> js_error + jsstring" where
  "example_serialize E name val opts =
     (if name = [] \<or> filter (\<lambda>c. \<not> example_name_char c) name \<noteq> [] then
        Inl (new_error TypeError [Txt ''argument name is invalid''])
      else
        Inr (name @ lit ''='' @ val @ example_attribute E ''path'' opts
               @ example_attribute E ''expires'' opts @ example_attribute E ''maxAge'' opts))"

definition example_sign :: "jsstring \<Rightarrow> jsval \<Rightarrow> js_error + jsstring" where
  "example_sign val secret =
     (case secret of
        JStr k \<Rightarrow> Inr (val @ lit ''.signature'')
      | _ \<Rightarrow> Inl (new_error TypeError [Txt ''The key argument must be of type string'']))"

definition example_builtins :: env where
  "example_builtins =
     \<lparr>JSON_stringify = (\<lambda>v replacer spaces. None),
      Buffer_byteLength = (\<lambda>c enc. length (example_bytes c)),
      Buffer_from = (\<lambda>c enc. example_bytes c),
      String_other = (\<lambda>v. lit ''[object Object]''),
      Number_other = (\<lambda>v. NaN),
      Date_now = 1700000000000,
      path_isAbsolute = (\<lambda>p. case p of [] \<Rightarrow> False | c # _ \<Rightarrow> c = 0x2F),
      encodeURI = (\<lambda>p. p),
      mime_contentType = example_mime,
      statuses_message = example_statuses,
      cookie_serialize = (\<lambda>name val opts. Inr (name @ lit ''='' @ val)),
      cookie_sign = example_sign,
      vary_append = (\<lambda>prev field. field),
      setCharset = (\<lambda>t charset. if 0x3B \<in> set t then t else t @ lit ''; charset='' @ charset),
      normalizeType = (\<lambda>t. case example_mime t of None \<Rightarrow> lit ''application/octet-stream''
                                | Some m \<Rightarrow> takeWhile (\<lambda>c. c \<noteq> 0x3B) m),
      normalizeTypes = map (\<lambda>t. case example_mime t of None \<Rightarrow> lit ''application/octet-stream''
                                | Some m \<Rightarrow> takeWhile (\<lambda>c. c \<noteq> 0x3B) m),
      etag_fn = None,
      etag_enabled = True,
      json_escape = JUndefined,
      json_replacer = JUndefined,
      json_spaces = JUndefined,
      jsonp_callback_name = lit ''callback'',
      req_fresh = False,
      req_method = lit ''GET'',
      req_query = (\<lambda>k. JUndefined),
      req_secret = JUndefined,
      req_accepts = (\<lambda>types. None)\<rparr>"

text \<open>
  The text the example's \<^verbatim>\<open>JSON.stringify\<close> gives for the object \<^verbatim>\<open>{"x":1}\<close>; \<open>0x22\<close> is
  the double quote.
\<close>

definition example_object :: jsval where
  "example_object = JObj [(lit ''x'', JNum (Fin 1))]"

definition example_json :: jsstring where
  "example_json = lit ''{'' @ [0x22] @ lit ''x'' @ [0x22] @ lit '':1}''"

definition example_env :: env where
  "example_env =
     example_builtins
       \<lparr>JSON_stringify := (\<lambda>v replacer spaces.
            if v = example_object then Some example_json else None),
        cookie_serialize := example_serialize example_builtins\<rparr>"

definition new_response :: response where
  "new_response = \<lparr>statusCode = 200, headers = (\<lambda>_. None), ended = []\<rparr>"

section \<open>Properties\<close>

lemma integer_value_of_int: "integer_value (JNum (Fin (of_int c))) = c"
  by simp

lemma Number_isInteger_of_int: "Number_isInteger (JNum (Fin (of_int c)))"
  by simp

lemma Number_isInteger_Fin: "Number_isInteger (JNum (Fin q)) \<longleftrightarrow> q \<in> \<int>"
proof
  assume "Number_isInteger (JNum (Fin q))"
  then have "of_int \<lfloor>q\<rfloor> = q" by simp
  then show "q \<in> \<int>" by (metis Ints_of_int)
next
  assume "q \<in> \<int>"
  then show "Number_isInteger (JNum (Fin q))" by (auto elim: Ints_cases)
qed

text \<open>
  C4. For every integer \<open>c\<close> with \<open>100 \<le> c \<le> 999\<close>, \<^verbatim>\<open>status(c)\<close> returns the context
  with \<open>c\<close> stored as its status code. For every argument that is not an integer
  (every string, every number with a fractional part, every boolean, NaN, both
  infinities, every object and array, undefined and null are such arguments) it throws a
  TypeError, and for every integer below 100 or above 999 it throws a RangeError; in
  both cases the context, and so its status code, is as it was.
\<close>

theorem status_contract:
  "(100 \<le> c \<and> c \<le> 999 \<longrightarrow>
      status r (JNum (Fin (of_int c))) = Returned () (r\<lparr>statusCode := c\<rparr>))
   \<and> (\<not> Number_isInteger v \<longrightarrow>
      (\<exists>e. status r v = Thrown e r \<and> err_class e = TypeError))
   \<and> (d < 100 \<or> 999 < d \<longrightarrow>
      (\<exists>e. status r (JNum (Fin (of_int d))) = Thrown e r \<and> err_class e = RangeError))
   \<and> \<not> Number_isInteger (JStr s)
   \<and> (q \<notin> \<int> \<longrightarrow> \<not> Number_isInteger (JNum (Fin q)))
   \<and> \<not> Number_isInteger (JBool b)
   \<and> \<not> Number_isInteger (JNum NaN)
   \<and> \<not> Number_isInteger (JNum PosInf)
   \<and> \<not> Number_isInteger (JNum NegInf)
   \<and> \<not> Number_isInteger (JObj ps)
   \<and> \<not> Number_isInteger (JArr vs)
   \<and> \<not> Number_isInteger JUndefined
   \<and> \<not> Number_isInteger JNull"
proof -
  have ok: "100 \<le> c \<and> c \<le> 999 \<longrightarrow>
      status r (JNum (Fin (of_int c))) = Returned () (r\<lparr>statusCode := c\<rparr>)"
    by (simp add: status_def)
  have ty: "\<not> Number_isInteger v \<longrightarrow>
      (\<exists>e. status r v = Thrown e r \<and> err_class e = TypeError)"
    by (simp add: status_def new_error_def)
  have rg: "d < 100 \<or> 999 < d \<longrightarrow>
      (\<exists>e. status r (JNum (Fin (of_int d))) = Thrown e r \<and> err_class e = RangeError)"
    by (auto simp add: status_def new_error_def)
  have fr: "q \<notin> \<int> \<longrightarrow> \<not> Number_isInteger (JNum (Fin q))"
    by (simp only: Number_isInteger_Fin) simp
  from ok ty rg fr show ?thesis by simp
qed

theorem status_contract_witness:
  "status new_response (JNum (Fin 200)) = Returned () (new_response\<lparr>statusCode := 200\<rparr>)
   \<and> (\<exists>e. status new_response (JStr (lit ''200'')) = Thrown e new_response
          \<and> err_class e = TypeError)
   \<and> (\<exists>e. status new_response (JNum (Fin 1000)) = Thrown e new_response
          \<and> err_class e = RangeError)
   \<and> \<not> Number_isInteger (JNum (Fin (2001 / 10)))"
proof -
  have fr: "(2001 / 10 :: rat) \<notin> \<int>"
  proof
    assume "(2001 / 10 :: rat) \<in> \<int>"
    then have "of_int \<lfloor>2001 / 10 :: rat\<rfloor> = (2001 / 10 :: rat)"
      by (auto elim: Ints_cases)
    moreover have "of_int \<lfloor>2001 / 10 :: rat\<rfloor> \<noteq> (2001 / 10 :: rat)"
      by code_simp
    ultimately show False by simp
  qed
  show ?thesis
    using status_contract [of 200 new_response "JStr (lit ''200'')" 1000 "lit ''200''"
        "2001 / 10" True "[]" "[]"] fr
    by simp
qed

subsection \<open>Headers\<close>

lemma lower_names:
  "toLowerCase ''Content-Type'' = ''content-type''"
  "toLowerCase ''Content-Length'' = ''content-length''"
  "toLowerCase ''Transfer-Encoding'' = ''transfer-encoding''"
  "toLowerCase ''ETag'' = ''etag''"
  "toLowerCase ''X-Content-Type-Options'' = ''x-content-type-options''"
  "toLowerCase ''Set-Cookie'' = ''set-cookie''"
  "toLowerCase ''Vary'' = ''vary''"
  by code_simp+

lemma coerce_simps [simp]:
  "coerce E (JStr s) = Single s"
  "coerce E (JNum n) = Single (js_String E (JNum n))"
  by (simp_all add: coerce_def)

lemma set_header_content_type:
  "set_header E r ''Content-Type'' (JStr s) =
     Returned () (setHeader r ''Content-Type'' (content_type_value E s))"
  by (simp add: set_header_def header_def lower_names)

lemma set_header_other_field:
  "toLowerCase f \<noteq> ''content-type'' \<Longrightarrow>
     set_header E r f v = Returned () (setHeader r f (stored (coerce E v)))"
  by (simp add: set_header_def header_def)

lemma status_304: "status r (JNum (Fin 304)) = Returned () (r\<lparr>statusCode := 304\<rparr>)"
proof -
  have "status r (JNum (Fin (of_int 304))) = Returned () (r\<lparr>statusCode := 304\<rparr>)"
    by (simp only: status_def Number_isInteger_of_int integer_value_of_int) simp
  then show ?thesis by simp
qed

lemma type_returns:
  "\<exists>v. type E r t = Returned () (setHeader r ''Content-Type'' v)"
  by (auto simp add: type_def Let_def set_header_content_type)

lemma default_type_returns:
  "\<exists>r1. default_type E r t = Returned () r1 \<and> statusCode r1 = statusCode r
      \<and> ended r1 = ended r
      \<and> (\<forall>h. h \<noteq> ''content-type'' \<longrightarrow> headers r1 h = headers r h)"
proof (cases "truthy (get r ''Content-Type'')")
  case True
  then show ?thesis by (simp add: default_type_def)
next
  case False
  obtain v where "type E r t = Returned () (setHeader r ''Content-Type'' v)"
    using type_returns by blast
  with False show ?thesis
    by (simp add: default_type_def setHeader_def lower_names)
qed



lemma send_measure_cases:
  "send_measure E r c enc =
     (if c = CUndefined then (c, enc, None)
      else if Buffer_isBuffer c then (c, enc, Some (chunk_length c))
      else if genETag E r \<or> 1000 \<le> chunk_length c then
        (CBuffer (Buffer_from E c enc), None, Some (length (Buffer_from E c enc)))
      else (c, enc, Some (Buffer_byteLength E c enc)))"
  by (auto simp add: send_measure_def)


lemma send_status_eq:
  "send_status E r chunk =
     (let r1 = (if req_fresh E then r\<lparr>statusCode := 304\<rparr> else r)
      in if statusCode r1 = 204 \<or> statusCode r1 = 304 then
           Returned (CStr [])
             (r1\<lparr>headers := (headers r1)(''content-type'' := None, ''content-length'' := None,
                                       ''transfer-encoding'' := None)\<rparr>)
         else if statusCode r1 = 205 then
           Returned (CStr [])
             (r1\<lparr>headers := (headers r1)(''content-length'' \<mapsto> JStr (lit ''0''),
                                       ''transfer-encoding'' := None)\<rparr>)
         else Returned chunk r1)"
proof -
  have cl: "toLowerCase ''Content-Length'' \<noteq> ''content-type''"
    by (simp add: lower_names)
  show ?thesis
    by (simp add: send_status_def status_304 set_header_other_field [OF cl] coerce_def
        removeHeader_def setHeader_def lower_names Let_def)
qed

subsection \<open>The parts of \<^verbatim>\<open>send\<close>\<close>









lemma send_hello:
  "send example_env new_response (JStr (lit ''hello'')) =
     Returned () (new_response\<lparr>headers := [''content-type'' \<mapsto> JStr (lit ''text/html; charset=utf-8''),
         ''content-length'' \<mapsto> JStr (lit ''5'')], ended := [End_with (CStr (lit ''hello'')) (Some Utf8)]\<rparr>)"
  by (simp add: default_type_def get_def lower_names new_response_def type_def example_env_def
     example_builtins_def example_mime_def lit_def set_header_def header_def coerce_def send_chunk_def
     send_encode_def send_length_etag_def send_measure_def genETag_def content_type_value_def setHeader_def
     send_status_def send_end_def decimal.simps fun_upd_twist)

lemma send_length_etag_eq:
  "send_length_etag E r chunk enc =
     (case send_measure E r chunk enc of (c, e, len) \<Rightarrow>
        Returned (c, e)
          (let r1 = (case len of
                       Some n \<Rightarrow> setHeader r ''Content-Length''
                                  (JStr (js_String E (JNum (Fin (of_nat n)))))
                     | None \<Rightarrow> r)
           in case etag_fn E of
                Some f \<Rightarrow> if genETag E r \<and> len \<noteq> None \<and> truthy (f c e)
                          then setHeader r1 ''ETag'' (stored (coerce E (f c e))) else r1
              | None \<Rightarrow> r1))"
proof -
  obtain c1 e1 len where m: "send_measure E r chunk enc = (c1, e1, len)"
    by (cases "send_measure E r chunk enc") auto
  have cl: "toLowerCase ''Content-Length'' \<noteq> ''content-type''"
    and et: "toLowerCase ''ETag'' \<noteq> ''content-type''"
    by (simp_all add: lower_names)
  show ?thesis
    by (cases len; cases "etag_fn E")
       (simp_all add: send_length_etag_def m set_header_other_field [OF cl]
          set_header_other_field [OF et] Let_def)
qed

lemma String_of_length: "n < 10 ^ 21 \<Longrightarrow> js_String E (JNum (Fin (of_nat n))) = decimal n"
proof -
  assume n: "n < 10 ^ 21"
  have "of_int \<lfloor>rat_of_nat n\<rfloor> = rat_of_nat n" by simp
  moreover have "\<bar>rat_of_nat n\<bar> < 10 ^ 21"
  proof -
    have "rat_of_nat n < rat_of_nat (10 ^ 21)" using n by (simp only: of_nat_less_iff)
    then show ?thesis by simp
  qed
  moreover have "\<not> rat_of_nat n < 0" by simp
  ultimately show ?thesis by simp
qed

lemma send_length_etag_effect:
  "\<exists>chunk' enc' r'. send_length_etag E r chunk enc = Returned (chunk', enc') r'
     \<and> (chunk = CUndefined \<longrightarrow> r' = r \<and> chunk' = CUndefined \<and> enc' = enc)
     \<and> (\<forall>b. chunk = CBuffer b \<longrightarrow>
           chunk' = CBuffer b \<and> enc' = enc
           \<and> headers r' ''content-length''
               = Some (JStr (js_String E (JNum (Fin (of_nat (length b)))))))
     \<and> (chunk \<noteq> CUndefined \<and> \<not> Buffer_isBuffer chunk
          \<and> (genETag E r \<or> 1000 \<le> chunk_length chunk) \<longrightarrow>
           chunk' = CBuffer (Buffer_from E chunk enc) \<and> enc' = None
           \<and> headers r' ''content-length''
               = Some (JStr (js_String E (JNum (Fin (of_nat (length (Buffer_from E chunk enc))))))))
     \<and> (chunk \<noteq> CUndefined \<and> \<not> Buffer_isBuffer chunk
          \<and> \<not> genETag E r \<and> chunk_length chunk < 1000 \<longrightarrow>
           chunk' = chunk \<and> enc' = enc
           \<and> headers r' ''content-length''
               = Some (JStr (js_String E (JNum (Fin (of_nat (Buffer_byteLength E chunk enc)))))))
     \<and> (genETag E r \<and> chunk \<noteq> CUndefined \<longrightarrow>
           (\<exists>etagFn. etag_fn E = Some etagFn
              \<and> headers r' ''etag''
                  = (if truthy (etagFn chunk' enc')
                     then Some (stored (coerce E (etagFn chunk' enc')))
                     else headers r ''etag'')))
     \<and> (\<not> (genETag E r \<and> chunk \<noteq> CUndefined) \<longrightarrow> headers r' ''etag'' = headers r ''etag'')
     \<and> (\<forall>n. n < 10 ^ 21 \<longrightarrow> js_String E (JNum (Fin (of_nat n))) = decimal n)"
proof -
  obtain c1 e1 len where m: "send_measure E r chunk enc = (c1, e1, len)"
    by (cases "send_measure E r chunk enc") auto
  define r' where "r' =
     (let r1 = (case len of
                  Some n \<Rightarrow> setHeader r ''Content-Length''
                             (JStr (js_String E (JNum (Fin (of_nat n)))))
                | None \<Rightarrow> r)
      in case etag_fn E of
           Some f \<Rightarrow> if genETag E r \<and> len \<noteq> None \<and> truthy (f c1 e1)
                     then setHeader r1 ''ETag'' (stored (coerce E (f c1 e1))) else r1
         | None \<Rightarrow> r1)"
  have ret: "send_length_etag E r chunk enc = Returned (c1, e1) r'"
    by (simp add: send_length_etag_eq m r'_def)
  have a: "chunk = CUndefined \<longrightarrow> r' = r \<and> c1 = CUndefined \<and> e1 = enc"
    using m by (auto simp add: send_measure_cases r'_def Let_def split: option.split)
  have b: "\<forall>b. chunk = CBuffer b \<longrightarrow>
           c1 = CBuffer b \<and> e1 = enc
           \<and> headers r' ''content-length''
               = Some (JStr (js_String E (JNum (Fin (of_nat (length b))))))"
    using m by (auto simp add: send_measure_cases r'_def setHeader_def lower_names Let_def
        simp del: js_String.simps split: option.split)
  have c: "chunk \<noteq> CUndefined \<and> \<not> Buffer_isBuffer chunk
          \<and> (genETag E r \<or> 1000 \<le> chunk_length chunk) \<longrightarrow>
           c1 = CBuffer (Buffer_from E chunk enc) \<and> e1 = None
           \<and> headers r' ''content-length''
               = Some (JStr (js_String E (JNum (Fin (of_nat (length (Buffer_from E chunk enc)))))))"
    using m by (auto simp add: send_measure_cases r'_def setHeader_def lower_names Let_def
        simp del: js_String.simps split: option.split)
  have d: "chunk \<noteq> CUndefined \<and> \<not> Buffer_isBuffer chunk
          \<and> \<not> genETag E r \<and> chunk_length chunk < 1000 \<longrightarrow>
           c1 = chunk \<and> e1 = enc
           \<and> headers r' ''content-length''
               = Some (JStr (js_String E (JNum (Fin (of_nat (Buffer_byteLength E chunk enc))))))"
    using m by (auto simp add: send_measure_cases r'_def setHeader_def lower_names Let_def
        simp del: js_String.simps split: option.split)
  have len: "len \<noteq> None \<longleftrightarrow> chunk \<noteq> CUndefined"
    using m by (auto simp add: send_measure_cases split: if_splits)
  have e: "genETag E r \<and> chunk \<noteq> CUndefined \<longrightarrow>
           (\<exists>etagFn. etag_fn E = Some etagFn
              \<and> headers r' ''etag''
                  = (if truthy (etagFn c1 e1)
                     then Some (stored (coerce E (etagFn c1 e1)))
                     else headers r ''etag''))"
    using len by (auto simp add: genETag_def r'_def setHeader_def lower_names Let_def
        simp del: js_String.simps split: option.split)
  have f: "\<not> (genETag E r \<and> chunk \<noteq> CUndefined) \<longrightarrow> headers r' ''etag'' = headers r ''etag''"
    using len by (auto simp add: r'_def setHeader_def lower_names Let_def
        simp del: js_String.simps split: option.split)
  have g: "\<forall>n. n < 10 ^ 21 \<longrightarrow> js_String E (JNum (Fin (of_nat n))) = decimal n"
    using String_of_length by blast
  show ?thesis
    using ret a b c d e f g by (intro exI [of _ c1] exI [of _ e1] exI [of _ r']) blast
qed

lemma send_encode_eq:
  "send_encode E r c =
     Returned (case c of CStr s \<Rightarrow> Some Utf8 | _ \<Rightarrow> None)
       (case c of
          CStr s \<Rightarrow>
            (case get r ''Content-Type'' of
               JStr t \<Rightarrow> setHeader r ''Content-Type''
                          (content_type_value E (setCharset E t (lit ''utf-8'')))
             | _ \<Rightarrow> r)
        | _ \<Rightarrow> r)"
  by (cases c; cases "get r ''Content-Type''")
     (simp_all add: send_encode_def set_header_content_type)

lemma send_measure_same_etag:
  "headers r1 ''etag'' = headers r ''etag'' \<Longrightarrow> send_measure E r1 c enc = send_measure E r c enc"
  by (simp add: send_measure_def genETag_def get_def lower_names)

lemma genETag_same_etag:
  "headers r1 ''etag'' = headers r ''etag'' \<Longrightarrow> genETag E r1 = genETag E r"
  by (simp add: genETag_def get_def lower_names)

lemma send_chunk_final:
  assumes enc: "enc = (case c of CStr s \<Rightarrow> Some Utf8 | _ \<Rightarrow> None)"
    and m: "send_measure E r c enc = (c1, e1, len)"
    and st: "st = (if req_fresh E then 304 else statusCode r)"
  shows "\<exists>r'. send_chunk E r c = Returned () r'
     \<and> statusCode r' = st
     \<and> ended r' = ended r @ [if req_method E = lit ''HEAD'' then End
                             else End_with (if st = 204 \<or> st = 205 \<or> st = 304 then CStr [] else c1) e1]
     \<and> headers r' ''content-type''
         = (if st = 204 \<or> st = 304 then None
            else (case c of
                    CStr s \<Rightarrow>
                      (case get r ''Content-Type'' of
                         JStr t \<Rightarrow> Some (content_type_value E (setCharset E t (lit ''utf-8'')))
                       | _ \<Rightarrow> headers r ''content-type'')
                  | _ \<Rightarrow> headers r ''content-type''))
     \<and> headers r' ''content-length''
         = (if st = 204 \<or> st = 304 then None
            else if st = 205 then Some (JStr (lit ''0''))
            else (case len of
                    Some n \<Rightarrow> Some (JStr (js_String E (JNum (Fin (of_nat n)))))
                  | None \<Rightarrow> headers r ''content-length''))
     \<and> headers r' ''transfer-encoding''
         = (if st = 204 \<or> st = 205 \<or> st = 304 then None else headers r ''transfer-encoding'')
     \<and> headers r' ''etag''
         = (case etag_fn E of
              Some f \<Rightarrow> if genETag E r \<and> len \<noteq> None \<and> truthy (f c1 e1)
                        then Some (stored (coerce E (f c1 e1))) else headers r ''etag''
            | None \<Rightarrow> headers r ''etag'')
     \<and> (\<forall>h. h \<noteq> ''content-type'' \<and> h \<noteq> ''content-length'' \<and> h \<noteq> ''transfer-encoding''
              \<and> h \<noteq> ''etag'' \<longrightarrow> headers r' h = headers r h)"
proof -
  define r1 where "r1 = (case c of
          CStr s \<Rightarrow>
            (case get r ''Content-Type'' of
               JStr t \<Rightarrow> setHeader r ''Content-Type''
                          (content_type_value E (setCharset E t (lit ''utf-8'')))
             | _ \<Rightarrow> r)
        | _ \<Rightarrow> r)"
  have r1: "statusCode r1 = statusCode r" "ended r1 = ended r"
    "\<forall>h. h \<noteq> ''content-type'' \<longrightarrow> headers r1 h = headers r h"
    "headers r1 ''content-type''
       = (case c of
            CStr s \<Rightarrow>
              (case get r ''Content-Type'' of
                 JStr t \<Rightarrow> Some (content_type_value E (setCharset E t (lit ''utf-8'')))
               | _ \<Rightarrow> headers r ''content-type'')
          | _ \<Rightarrow> headers r ''content-type'')"
    by (simp_all add: r1_def setHeader_def lower_names split: chunk.split jsval.split)
  have e: "send_encode E r c = Returned enc r1"
    by (simp add: send_encode_eq enc r1_def)
  have et: "headers r1 ''etag'' = headers r ''etag''" using r1(3) by simp
  have m1: "send_measure E r1 c enc = (c1, e1, len)"
    using m send_measure_same_etag [OF et] by simp
  have g: "genETag E r1 = genETag E r" using et by (rule genETag_same_etag)
  define r2 where "r2 =
     (let ra = (case len of
                  Some n \<Rightarrow> setHeader r1 ''Content-Length''
                             (JStr (js_String E (JNum (Fin (of_nat n)))))
                | None \<Rightarrow> r1)
      in case etag_fn E of
           Some f \<Rightarrow> if genETag E r \<and> len \<noteq> None \<and> truthy (f c1 e1)
                     then setHeader ra ''ETag'' (stored (coerce E (f c1 e1))) else ra
         | None \<Rightarrow> ra)"
  have l: "send_length_etag E r1 c enc = Returned (c1, e1) r2"
    by (simp add: send_length_etag_eq m1 g r2_def Let_def del: js_String.simps
        cong: option.case_cong)
  have r2: "statusCode r2 = statusCode r" "ended r2 = ended r"
    "headers r2 ''content-type'' = headers r1 ''content-type''"
    "headers r2 ''content-length''
       = (case len of
            Some n \<Rightarrow> Some (JStr (js_String E (JNum (Fin (of_nat n)))))
          | None \<Rightarrow> headers r ''content-length'')"
    "headers r2 ''transfer-encoding'' = headers r ''transfer-encoding''"
    "headers r2 ''etag''
         = (case etag_fn E of
              Some f \<Rightarrow> if genETag E r \<and> len \<noteq> None \<and> truthy (f c1 e1)
                        then Some (stored (coerce E (f c1 e1))) else headers r ''etag''
            | None \<Rightarrow> headers r ''etag'')"
    "\<forall>h. h \<noteq> ''content-type'' \<and> h \<noteq> ''content-length'' \<and> h \<noteq> ''transfer-encoding''
              \<and> h \<noteq> ''etag'' \<longrightarrow> headers r2 h = headers r h"
    using r1(1-3)
    by (simp_all add: r2_def Let_def setHeader_def lower_names split: option.split
        del: js_String.simps)
  show ?thesis
    using r2 r1(4)
    by (simp add: send_chunk_def e l send_status_eq send_end_def Let_def st
        del: js_String.simps)
qed

lemma default_type_truthy:
  "truthy (get r ''Content-Type'') \<Longrightarrow> default_type E r t = Returned () r"
  by (simp add: default_type_def)

lemma send_reaches:
  assumes "body = JStr s \<and> chunk = CStr s \<or> body = JNull \<and> chunk = CStr []
           \<or> body = JBuffer b \<and> chunk = CBuffer b \<or> body = JView n v \<and> chunk = CView n v
           \<or> body = JUndefined \<and> chunk = CUndefined
           \<or> goes_to_json body
              \<and> chunk = (case stringify E body (json_replacer E) (json_spaces E) (json_escape E) of
                           None \<Rightarrow> CUndefined | Some j \<Rightarrow> CStr j)"
  shows "\<exists>r1. send E r body = send_chunk E r1 chunk \<and> statusCode r1 = statusCode r
           \<and> ended r1 = ended r
           \<and> (\<forall>h. h \<noteq> ''content-type'' \<longrightarrow> headers r1 h = headers r h)"
proof -
  have typed: "\<And>(r0::response) t c. statusCode r0 = statusCode r \<Longrightarrow> ended r0 = ended r \<Longrightarrow>
      \<forall>h. h \<noteq> ''content-type'' \<longrightarrow> headers r0 h = headers r h \<Longrightarrow>
      \<exists>r1. and_then (default_type E r0 t) (\<lambda>_ r1. send_chunk E r1 c) = send_chunk E r1 c
           \<and> statusCode r1 = statusCode r \<and> ended r1 = ended r
           \<and> (\<forall>h. h \<noteq> ''content-type'' \<longrightarrow> headers r1 h = headers r h)"
  proof -
    fix r0 :: response and t c
    assume a: "statusCode r0 = statusCode r" "ended r0 = ended r"
      "\<forall>h. h \<noteq> ''content-type'' \<longrightarrow> headers r0 h = headers r h"
    obtain r1 where 1: "default_type E r0 t = Returned () r1" "statusCode r1 = statusCode r0"
      "ended r1 = ended r0" "\<forall>h. h \<noteq> ''content-type'' \<longrightarrow> headers r1 h = headers r0 h"
      using default_type_returns by blast
    show "\<exists>r1. and_then (default_type E r0 t) (\<lambda>_ r1. send_chunk E r1 c) = send_chunk E r1 c
           \<and> statusCode r1 = statusCode r \<and> ended r1 = ended r
           \<and> (\<forall>h. h \<noteq> ''content-type'' \<longrightarrow> headers r1 h = headers r h)"
      using 1 a by (intro exI [of _ r1]) simp
  qed
  have same: "statusCode r = statusCode r" "ended r = ended r"
    "\<forall>h. h \<noteq> ''content-type'' \<longrightarrow> headers r h = headers r h"
    by simp_all
  from assms show ?thesis
  proof (elim disjE conjE)
    assume "body = JStr s" "chunk = CStr s"
    then show ?thesis using typed [OF same, of "lit ''html''" "CStr s"] by simp
  next
    assume "body = JNull" "chunk = CStr []"
    then show ?thesis by (intro exI [of _ r]) simp
  next
    assume "body = JBuffer b" "chunk = CBuffer b"
    then show ?thesis using typed [OF same, of "lit ''bin''" "CBuffer b"] by simp
  next
    assume "body = JView n v" "chunk = CView n v"
    then show ?thesis using typed [OF same, of "lit ''bin''" "CView n v"] by simp
  next
    assume "body = JUndefined" "chunk = CUndefined"
    then show ?thesis by (intro exI [of _ r]) simp
  next
    assume j: "goes_to_json body"
      and c: "chunk = (case stringify E body (json_replacer E) (json_spaces E) (json_escape E) of
                           None \<Rightarrow> CUndefined | Some j \<Rightarrow> CStr j)"
    have sj: "send E r body = json E r body" using j by (cases body) simp_all
    define r0 where "r0 = (if \<not> truthy (get r ''Content-Type'')
        then setHeader r ''Content-Type'' (content_type_value E (lit ''application/json''))
        else r)"
    have r0: "statusCode r0 = statusCode r" "ended r0 = ended r"
      "\<forall>h. h \<noteq> ''content-type'' \<longrightarrow> headers r0 h = headers r h"
      by (simp_all add: r0_def setHeader_def lower_names)
    have js: "json E r body = send E r0 (string_or_undefined
        (stringify E body (json_replacer E) (json_spaces E) (json_escape E)))"
      by (simp add: json.simps Let_def r0_def set_header_content_type)
    show ?thesis
    proof (cases "stringify E body (json_replacer E) (json_spaces E) (json_escape E)")
      case None
      then have "send E r body = send_chunk E r0 chunk"
        by (simp add: sj js c string_or_undefined_def)
      with r0 show ?thesis by blast
    next
      case (Some js)
      then have "send E r body
          = and_then (default_type E r0 (lit ''html'')) (\<lambda>_ r1. send_chunk E r1 chunk)"
        by (simp add: sj js c string_or_undefined_def)
      then show ?thesis using typed [OF r0, of "lit ''html''" chunk] by simp
    qed
  qed
qed

text \<open>
  C2, as amended. Let \<open>chunk\<close> be the body as it reaches the computation of the
  Content-Length: the body itself when it is a string, a buffer, another typed array or
  undefined, the empty string for null, and for every other body the text \<^verbatim>\<open>json\<close>
  serializes it to, undefined when the serialization is. Every call of \<^verbatim>\<open>send\<close> returns.
  When it ends with status 204 or 304 the response has no Content-Length, and with 205 it
  has the Content-Length \<^verbatim>\<open>0\<close>. With any other status: for an undefined chunk
  Content-Length is as it was; for a buffer it is the length of the buffer; for any other
  chunk, when an ETag is to be generated (\<open>genETag\<close>: the setting \<^verbatim>\<open>etag fn\<close> is a function
  and no ETag header is set) or the length of the chunk is at least 1000, it is the
  length of the buffer \<^verbatim>\<open>Buffer.from\<close> makes of the chunk, and that buffer is what is
  written; otherwise it is what \<^verbatim>\<open>Buffer.byteLength\<close> gives for the chunk, and the chunk
  is what is written. Content-Length is stored as \<^verbatim>\<open>String(len)\<close>, which below \<open>10\<^sup>2\<^sup>1\<close> is
  the decimal number. With any status, when an ETag is to be generated and the chunk is
  defined, the ETag header is the result of the generator if that is truthy and is as it
  was if not; in every other case the ETag header is as it was.
\<close>

theorem send_content_length:
  assumes "body = JStr s \<and> chunk = CStr s \<or> body = JNull \<and> chunk = CStr []
           \<or> body = JBuffer b \<and> chunk = CBuffer b \<or> body = JView n v \<and> chunk = CView n v
           \<or> body = JUndefined \<and> chunk = CUndefined
           \<or> goes_to_json body
              \<and> chunk = (case stringify E body (json_replacer E) (json_spaces E) (json_escape E) of
                           None \<Rightarrow> CUndefined | Some j \<Rightarrow> CStr j)"
    and "enc = (case chunk of CStr s \<Rightarrow> Some Utf8 | _ \<Rightarrow> None)"
  shows "\<exists>r'. send E r body = Returned () r'
     \<and> statusCode r' = (if req_fresh E then 304 else statusCode r)
     \<and> (statusCode r' = 204 \<or> statusCode r' = 304 \<longrightarrow> headers r' ''content-length'' = None)
     \<and> (statusCode r' = 205 \<longrightarrow> headers r' ''content-length'' = Some (JStr (lit ''0'')))
     \<and> (statusCode r' \<noteq> 204 \<and> statusCode r' \<noteq> 205 \<and> statusCode r' \<noteq> 304 \<longrightarrow>
          (chunk = CUndefined \<longrightarrow>
             headers r' ''content-length'' = headers r ''content-length''
             \<and> ended r' = ended r @ [if req_method E = lit ''HEAD'' then End
                                     else End_with CUndefined None])
          \<and> (\<forall>bs. chunk = CBuffer bs \<longrightarrow>
               headers r' ''content-length''
                 = Some (JStr (js_String E (JNum (Fin (of_nat (length bs))))))
               \<and> ended r' = ended r @ [if req_method E = lit ''HEAD'' then End
                                       else End_with (CBuffer bs) None])
          \<and> (chunk \<noteq> CUndefined \<and> \<not> Buffer_isBuffer chunk
               \<and> (genETag E r \<or> 1000 \<le> chunk_length chunk) \<longrightarrow>
               headers r' ''content-length''
                 = Some (JStr (js_String E
                      (JNum (Fin (of_nat (length (Buffer_from E chunk enc)))))))
               \<and> ended r' = ended r @ [if req_method E = lit ''HEAD'' then End
                                       else End_with (CBuffer (Buffer_from E chunk enc)) None])
          \<and> (chunk \<noteq> CUndefined \<and> \<not> Buffer_isBuffer chunk
               \<and> \<not> genETag E r \<and> chunk_length chunk < 1000 \<longrightarrow>
               headers r' ''content-length''
                 = Some (JStr (js_String E (JNum (Fin (of_nat (Buffer_byteLength E chunk enc))))))
               \<and> ended r' = ended r @ [if req_method E = lit ''HEAD'' then End
                                       else End_with chunk enc]))
     \<and> (genETag E r \<and> chunk \<noteq> CUndefined \<longrightarrow>
          (\<exists>etagFn. etag_fn E = Some etagFn
             \<and> headers r' ''etag''
                 = (if truthy (etagFn (if Buffer_isBuffer chunk then chunk
                                       else CBuffer (Buffer_from E chunk enc)) None)
                    then Some (stored (coerce E
                           (etagFn (if Buffer_isBuffer chunk then chunk
                                    else CBuffer (Buffer_from E chunk enc)) None)))
                    else headers r ''etag'')))
     \<and> (\<not> (genETag E r \<and> chunk \<noteq> CUndefined) \<longrightarrow> headers r' ''etag'' = headers r ''etag'')
     \<and> (\<forall>k. k < 10 ^ 21 \<longrightarrow> js_String E (JNum (Fin (of_nat k))) = decimal k)"
proof -
  obtain r1 where r1: "send E r body = send_chunk E r1 chunk" "statusCode r1 = statusCode r"
    "ended r1 = ended r" "\<forall>h. h \<noteq> ''content-type'' \<longrightarrow> headers r1 h = headers r h"
    using send_reaches [OF assms(1), of r] by blast
  have et: "headers r1 ''etag'' = headers r ''etag''" using r1(4) by simp
  have g: "genETag E r1 = genETag E r" using et by (rule genETag_same_etag)
  obtain c1 e1 len where m: "send_measure E r chunk enc = (c1, e1, len)"
    by (cases "send_measure E r chunk enc") auto
  have m1: "send_measure E r1 chunk enc = (c1, e1, len)"
    using m send_measure_same_etag [OF et] by simp
  define st where "st = (if req_fresh E then 304 else statusCode r)"
  have st1: "st = (if req_fresh E then 304 else statusCode r1)"
    by (simp add: st_def r1(2))
  obtain r' where r': "send_chunk E r1 chunk = Returned () r'"
    "statusCode r' = st"
    "ended r' = ended r1 @ [if req_method E = lit ''HEAD'' then End
                             else End_with (if st = 204 \<or> st = 205 \<or> st = 304 then CStr [] else c1) e1]"
    "headers r' ''content-length''
         = (if st = 204 \<or> st = 304 then None
            else if st = 205 then Some (JStr (lit ''0''))
            else (case len of
                    Some n \<Rightarrow> Some (JStr (js_String E (JNum (Fin (of_nat n)))))
                  | None \<Rightarrow> headers r1 ''content-length''))"
    "headers r' ''etag''
         = (case etag_fn E of
              Some f \<Rightarrow> if genETag E r1 \<and> len \<noteq> None \<and> truthy (f c1 e1)
                        then Some (stored (coerce E (f c1 e1))) else headers r1 ''etag''
            | None \<Rightarrow> headers r1 ''etag'')"
    using send_chunk_final [OF assms(2) m1 st1] by blast
  have mc: "(c1, e1, len) =
     (if chunk = CUndefined then (chunk, enc, None)
      else if Buffer_isBuffer chunk then (chunk, enc, Some (chunk_length chunk))
      else if genETag E r \<or> 1000 \<le> chunk_length chunk then
        (CBuffer (Buffer_from E chunk enc), None, Some (length (Buffer_from E chunk enc)))
      else (chunk, enc, Some (Buffer_byteLength E chunk enc)))"
    using m by (simp only: send_measure_cases)
  have cl: "headers r1 ''content-length'' = headers r ''content-length''"
    using r1(4) by simp
  have a: "statusCode r' = (if req_fresh E then 304 else statusCode r)"
    using r'(2) by (simp add: st_def)
  have b: "statusCode r' = 204 \<or> statusCode r' = 304 \<longrightarrow> headers r' ''content-length'' = None"
    using r'(2,4) by simp
  have c: "statusCode r' = 205 \<longrightarrow> headers r' ''content-length'' = Some (JStr (lit ''0''))"
    using r'(2,4) by simp
  have d1: "statusCode r' \<noteq> 204 \<and> statusCode r' \<noteq> 205 \<and> statusCode r' \<noteq> 304 \<longrightarrow>
          (chunk = CUndefined \<longrightarrow>
             headers r' ''content-length'' = headers r ''content-length''
             \<and> ended r' = ended r @ [if req_method E = lit ''HEAD'' then End
                                     else End_with CUndefined None])"
    using r'(2,3,4) mc cl r1(3) assms(2) by (auto split: if_splits)
  have d2: "statusCode r' \<noteq> 204 \<and> statusCode r' \<noteq> 205 \<and> statusCode r' \<noteq> 304 \<longrightarrow>
          (\<forall>bs. chunk = CBuffer bs \<longrightarrow>
               headers r' ''content-length''
                 = Some (JStr (js_String E (JNum (Fin (of_nat (length bs))))))
               \<and> ended r' = ended r @ [if req_method E = lit ''HEAD'' then End
                                       else End_with (CBuffer bs) None])"
    using r'(2,3,4) mc r1(3) assms(2) by (auto simp del: js_String.simps split: if_splits)
  have d3: "statusCode r' \<noteq> 204 \<and> statusCode r' \<noteq> 205 \<and> statusCode r' \<noteq> 304 \<longrightarrow>
          (chunk \<noteq> CUndefined \<and> \<not> Buffer_isBuffer chunk
               \<and> (genETag E r \<or> 1000 \<le> chunk_length chunk) \<longrightarrow>
               headers r' ''content-length''
                 = Some (JStr (js_String E
                      (JNum (Fin (of_nat (length (Buffer_from E chunk enc)))))))
               \<and> ended r' = ended r @ [if req_method E = lit ''HEAD'' then End
                                       else End_with (CBuffer (Buffer_from E chunk enc)) None])"
    using r'(2,3,4) mc r1(3) by (auto simp del: js_String.simps split: if_splits)
  have d4: "statusCode r' \<noteq> 204 \<and> statusCode r' \<noteq> 205 \<and> statusCode r' \<noteq> 304 \<longrightarrow>
          (chunk \<noteq> CUndefined \<and> \<not> Buffer_isBuffer chunk
               \<and> \<not> genETag E r \<and> chunk_length chunk < 1000 \<longrightarrow>
               headers r' ''content-length''
                 = Some (JStr (js_String E (JNum (Fin (of_nat (Buffer_byteLength E chunk enc))))))
               \<and> ended r' = ended r @ [if req_method E = lit ''HEAD'' then End
                                       else End_with chunk enc])"
    using r'(2,3,4) mc r1(3) by (auto simp del: js_String.simps split: if_splits)
  have encb: "Buffer_isBuffer chunk \<longrightarrow> enc = None"
    using assms(2) by (cases chunk) simp_all
  have e: "genETag E r \<and> chunk \<noteq> CUndefined \<longrightarrow>
          (\<exists>etagFn. etag_fn E = Some etagFn
             \<and> headers r' ''etag''
                 = (if truthy (etagFn (if Buffer_isBuffer chunk then chunk
                                       else CBuffer (Buffer_from E chunk enc)) None)
                    then Some (stored (coerce E
                           (etagFn (if Buffer_isBuffer chunk then chunk
                                    else CBuffer (Buffer_from E chunk enc)) None)))
                    else headers r ''etag''))"
  proof
    assume h: "genETag E r \<and> chunk \<noteq> CUndefined"
    then obtain f where f: "etag_fn E = Some f" by (auto simp add: genETag_def)
    have v: "c1 = (if Buffer_isBuffer chunk then chunk else CBuffer (Buffer_from E chunk enc))"
      "e1 = None" "len \<noteq> None"
      using mc h encb by (auto split: if_splits)
    show "\<exists>etagFn. etag_fn E = Some etagFn
             \<and> headers r' ''etag''
                 = (if truthy (etagFn (if Buffer_isBuffer chunk then chunk
                                       else CBuffer (Buffer_from E chunk enc)) None)
                    then Some (stored (coerce E
                           (etagFn (if Buffer_isBuffer chunk then chunk
                                    else CBuffer (Buffer_from E chunk enc)) None)))
                    else headers r ''etag'')"
      using r'(5) h by (intro exI [of _ f]) (simp add: f g et v)
  qed
  have f: "\<not> (genETag E r \<and> chunk \<noteq> CUndefined) \<longrightarrow> headers r' ''etag'' = headers r ''etag''"
  proof
    assume h: "\<not> (genETag E r \<and> chunk \<noteq> CUndefined)"
    then have "\<not> (genETag E r \<and> len \<noteq> None)" using mc by (auto split: if_splits)
    then show "headers r' ''etag'' = headers r ''etag''"
      using r'(5) by (auto simp add: g et split: option.split)
  qed
  have k: "\<forall>k. k < 10 ^ 21 \<longrightarrow> js_String E (JNum (Fin (of_nat k))) = decimal k"
    using String_of_length by blast
  have ret: "send E r body = Returned () r'" using r1(1) r'(1) by simp
  show ?thesis
    using ret a b c d1 d2 d3 d4 e f k by (intro exI [of _ r']) blast
qed


theorem send_content_length_witness:
  "(\<exists>r'. send example_env new_response (JStr (lit ''hi'')) = Returned () r'
       \<and> statusCode r' = 200
       \<and> headers r' ''content-length'' = Some (JStr (lit ''2''))
       \<and> ended r' = [End_with (CStr (lit ''hi'')) (Some Utf8)]
       \<and> headers r' ''etag'' = None)
   \<and> (\<exists>r'. send (example_env\<lparr>etag_fn := Some (\<lambda>c e. JStr (lit ''W/tag''))\<rparr>) new_response
             (JStr (lit ''hi'')) = Returned () r'
       \<and> headers r' ''content-length'' = Some (JStr (lit ''2''))
       \<and> ended r' = [End_with (CBuffer [0x68, 0x69]) None]
       \<and> headers r' ''etag'' = Some (JStr (lit ''W/tag'')))
   \<and> (\<exists>r'. send example_env new_response example_object = Returned () r'
       \<and> headers r' ''content-length'' = Some (JStr (lit ''7''))
       \<and> ended r' = [End_with (CStr example_json) (Some Utf8)])
   \<and> (\<exists>r'. send example_env new_response (JBuffer [1, 2, 3]) = Returned () r'
       \<and> headers r' ''content-length'' = Some (JStr (lit ''3''))
       \<and> ended r' = [End_with (CBuffer [1, 2, 3]) None])
   \<and> (\<exists>r'. send example_env new_response JUndefined = Returned () r'
       \<and> headers r' ''content-length'' = None)
   \<and> (\<exists>r'. send example_env (new_response\<lparr>statusCode := 205\<rparr>) (JStr (lit ''hi''))
             = Returned () r'
       \<and> headers r' ''content-length'' = Some (JStr (lit ''0'')))
   \<and> (\<exists>r'. send (example_env\<lparr>req_fresh := True\<rparr>) new_response (JStr (lit ''hi''))
             = Returned () r'
       \<and> statusCode r' = 304 \<and> headers r' ''content-length'' = None)"
proof -
  let ?Et = "example_env\<lparr>etag_fn := Some (\<lambda>c e. JStr (lit ''W/tag''))\<rparr>"
  let ?Ef = "example_env\<lparr>req_fresh := True\<rparr>"
  have hi: "JStr (lit ''hi'') = JStr (lit ''hi'') \<and> CStr (lit ''hi'') = CStr (lit ''hi'')
           \<or> JStr (lit ''hi'') = JNull \<and> CStr (lit ''hi'') = CStr []
           \<or> JStr (lit ''hi'') = JBuffer [] \<and> CStr (lit ''hi'') = CBuffer []
           \<or> JStr (lit ''hi'') = JView 0 [] \<and> CStr (lit ''hi'') = CView 0 []
           \<or> JStr (lit ''hi'') = JUndefined \<and> CStr (lit ''hi'') = CUndefined
           \<or> goes_to_json (JStr (lit ''hi''))
              \<and> CStr (lit ''hi'') = (case stringify E (JStr (lit ''hi'')) (json_replacer E)
                     (json_spaces E) (json_escape E) of
                           None \<Rightarrow> CUndefined | Some j \<Rightarrow> CStr j)" for E
    by simp
  have ob: "example_object = JStr [] \<and> CStr example_json = CStr []
           \<or> example_object = JNull \<and> CStr example_json = CStr []
           \<or> example_object = JBuffer [] \<and> CStr example_json = CBuffer []
           \<or> example_object = JView 0 [] \<and> CStr example_json = CView 0 []
           \<or> example_object = JUndefined \<and> CStr example_json = CUndefined
           \<or> goes_to_json example_object
              \<and> CStr example_json = (case stringify example_env example_object
                     (json_replacer example_env) (json_spaces example_env)
                     (json_escape example_env) of
                           None \<Rightarrow> CUndefined | Some j \<Rightarrow> CStr j)"
    by (simp add: example_object_def stringify_def example_env_def example_builtins_def)
  have bu: "JBuffer [1, 2, 3] = JStr [] \<and> CBuffer [1, 2, 3] = CStr []
           \<or> JBuffer [1, 2, 3] = JNull \<and> CBuffer [1, 2, 3] = CStr []
           \<or> JBuffer [1, 2, 3] = JBuffer [1, 2, 3] \<and> CBuffer [1, 2, 3] = CBuffer [1, 2, 3]
           \<or> JBuffer [1, 2, 3] = JView 0 [] \<and> CBuffer [1, 2, 3] = CView 0 []
           \<or> JBuffer [1, 2, 3] = JUndefined \<and> CBuffer [1, 2, 3] = CUndefined
           \<or> goes_to_json (JBuffer [1, 2, 3])
              \<and> CBuffer [1, 2, 3] = (case stringify example_env (JBuffer [1, 2, 3])
                     (json_replacer example_env) (json_spaces example_env)
                     (json_escape example_env) of
                           None \<Rightarrow> CUndefined | Some j \<Rightarrow> CStr j)"
    by simp
  have un: "JUndefined = JStr [] \<and> CUndefined = CStr []
           \<or> JUndefined = JNull \<and> CUndefined = CStr []
           \<or> JUndefined = JBuffer [] \<and> CUndefined = CBuffer []
           \<or> JUndefined = JView 0 [] \<and> CUndefined = CView 0 []
           \<or> JUndefined = JUndefined \<and> CUndefined = CUndefined
           \<or> goes_to_json JUndefined
              \<and> CUndefined = (case stringify example_env JUndefined
                     (json_replacer example_env) (json_spaces example_env)
                     (json_escape example_env) of
                           None \<Rightarrow> CUndefined | Some j \<Rightarrow> CStr j)"
    by simp
  have es: "Some Utf8 = (case CStr s of CStr s \<Rightarrow> Some Utf8 | _ \<Rightarrow> None)" for s
    by simp
  have eb: "None = (case CBuffer [1, 2, 3] of CStr s \<Rightarrow> Some Utf8 | _ \<Rightarrow> None)"
    "None = (case CUndefined of CStr s \<Rightarrow> Some Utf8 | _ \<Rightarrow> None)"
    by simp_all
  have ev: "genETag example_env r = False" "genETag ?Ef r = False"
    "genETag ?Et new_response = True" "etag_fn ?Et = Some (\<lambda>c e. JStr (lit ''W/tag''))"
    "req_fresh example_env = False" "req_fresh ?Et = False" "req_fresh ?Ef = True"
    "req_method example_env = lit ''GET''" "req_method ?Et = lit ''GET''"
    "lit ''GET'' \<noteq> lit ''HEAD''" "lit ''W/tag'' \<noteq> []"
    "Buffer_byteLength example_env (CStr (lit ''hi'')) (Some Utf8) = 2"
    "Buffer_from example_env (CStr (lit ''hi'')) (Some Utf8) = [0x68, 0x69]"
    "Buffer_byteLength example_env (CStr example_json) (Some Utf8) = 7"
    "length example_json = 7" "length (lit ''hi'') = 2"
    "statusCode new_response = 200" "ended new_response = []"
    "headers new_response h = None"
    "js_String E (JNum (Fin 2)) = lit ''2''" "js_String E (JNum (Fin 3)) = lit ''3''"
    "js_String E (JNum (Fin 7)) = lit ''7''"
    for r h E
    by (simp_all add: genETag_def example_env_def example_builtins_def get_def lower_names
        new_response_def lit_def example_json_def decimal.simps)
  have 1: "\<exists>r'. send example_env new_response (JStr (lit ''hi'')) = Returned () r'
       \<and> statusCode r' = 200
       \<and> headers r' ''content-length'' = Some (JStr (lit ''2''))
       \<and> ended r' = [End_with (CStr (lit ''hi'')) (Some Utf8)]
       \<and> headers r' ''etag'' = None"
    using send_content_length [OF hi es, of example_env new_response]
    by (auto simp add: ev simp del: js_String.simps send.simps)
  have 2: "\<exists>r'. send ?Et new_response (JStr (lit ''hi'')) = Returned () r'
       \<and> headers r' ''content-length'' = Some (JStr (lit ''2''))
       \<and> ended r' = [End_with (CBuffer [0x68, 0x69]) None]
       \<and> headers r' ''etag'' = Some (JStr (lit ''W/tag''))"
    using send_content_length [OF hi es, of ?Et new_response]
    by (auto simp add: ev simp del: js_String.simps send.simps)
  have 3: "\<exists>r'. send example_env new_response example_object = Returned () r'
       \<and> headers r' ''content-length'' = Some (JStr (lit ''7''))
       \<and> ended r' = [End_with (CStr example_json) (Some Utf8)]"
    using send_content_length [OF ob es, of new_response]
    by (auto simp add: ev simp del: js_String.simps send.simps)
  have 4: "\<exists>r'. send example_env new_response (JBuffer [1, 2, 3]) = Returned () r'
       \<and> headers r' ''content-length'' = Some (JStr (lit ''3''))
       \<and> ended r' = [End_with (CBuffer [1, 2, 3]) None]"
    using send_content_length [OF bu eb(1), of new_response]
    by (auto simp add: ev simp del: js_String.simps send.simps)
  have 5: "\<exists>r'. send example_env new_response JUndefined = Returned () r'
       \<and> headers r' ''content-length'' = None"
    using send_content_length [OF un eb(2), of new_response]
    by (auto simp add: ev simp del: js_String.simps send.simps)
  have 6: "\<exists>r'. send example_env (new_response\<lparr>statusCode := 205\<rparr>) (JStr (lit ''hi''))
             = Returned () r'
       \<and> headers r' ''content-length'' = Some (JStr (lit ''0''))"
    using send_content_length [OF hi es, of example_env "new_response\<lparr>statusCode := 205\<rparr>"]
    by (auto simp add: ev simp del: js_String.simps send.simps)
  have 7: "\<exists>r'. send ?Ef new_response (JStr (lit ''hi'')) = Returned () r'
       \<and> statusCode r' = 304 \<and> headers r' ''content-length'' = None"
    using send_content_length [OF hi es, of ?Ef new_response]
    by (auto simp add: ev simp del: js_String.simps send.simps)
  from 1 2 3 4 5 6 7 show ?thesis by blast
qed


text \<open>
  The claim C2 as it stands fails on a response with the status 204: \<^verbatim>\<open>send\<close> of the
  string \<^verbatim>\<open>hello\<close> ends without any header, so without Content-Length.
\<close>

theorem send_content_length_counterexample:
  "send example_env (new_response\<lparr>statusCode := 204\<rparr>) (JStr (lit ''hello''))
     = Returned ()
         \<lparr>statusCode = 204, headers = (\<lambda>_. None), ended = [End_with (CStr []) (Some Utf8)]\<rparr>"
  by (simp add: default_type_def get_def lower_names new_response_def type_def example_env_def
      example_builtins_def example_mime_def lit_def set_header_def header_def coerce_def
      send_chunk_def send_encode_def send_length_etag_def send_measure_def genETag_def
      content_type_value_def setHeader_def removeHeader_def send_status_def send_end_def
      decimal.simps fun_upd_twist fun_eq_iff)

subsection \<open>\<^verbatim>\<open>jsonp\<close>\<close>

lemma escape_line_separators_free:
  "0x2028 \<notin> set (escape_line_separators j) \<and> 0x2029 \<notin> set (escape_line_separators j)"
  by (induction j) (simp_all add: escape_line_separators_def lit_def)

lemma escape_line_separators_id:
  "0x2028 \<notin> set j \<Longrightarrow> 0x2029 \<notin> set j \<Longrightarrow> escape_line_separators j = j"
  by (induction j) (simp_all add: escape_line_separators_def)

lemma set_nosniff:
  "set_header E r ''X-Content-Type-Options'' (JStr (lit ''nosniff''))
     = Returned () (setHeader r ''X-Content-Type-Options'' (JStr (lit ''nosniff'')))"
proof -
  have "toLowerCase ''X-Content-Type-Options'' \<noteq> ''content-type''"
    by (simp add: lower_names)
  then show ?thesis by (simp add: set_header_other_field)
qed

lemma jsonp_callback_step:
  assumes "cb0 = JStr name \<or> (\<exists>rest. cb0 = JArr (JStr name # rest))" and "name \<noteq> []"
  shows "(case (case cb0 of JArr vs \<Rightarrow> (case vs of [] \<Rightarrow> JUndefined | v # _ \<Rightarrow> v) | _ \<Rightarrow> cb0) of
            JStr n \<Rightarrow> if n \<noteq> [] then f n else g
          | _ \<Rightarrow> g) = f name"
  using assms by auto

lemma jsonp_callback_handoff:
  assumes "req_query E (jsonp_callback_name E) = JStr name
           \<or> (\<exists>rest. req_query E (jsonp_callback_name E) = JArr (JStr name # rest))"
    and "name \<noteq> []"
  shows "\<exists>r'. jsonp E r obj =
           send E r'
             (JStr (lit ''/**/ typeof '' @ filter callback_char name @ lit ''==='' @ [0x27]
                    @ lit ''function'' @ [0x27] @ lit ''&&'' @ filter callback_char name
                    @ lit ''(''
                    @ (case stringify E obj (json_replacer E) (json_spaces E) (json_escape E) of
                         None \<Rightarrow> []
                       | Some j \<Rightarrow> escape_line_separators j)
                    @ lit '');''))
         \<and> headers r' ''content-type'' = Some (content_type_value E (lit ''text/javascript''))
         \<and> headers r' ''x-content-type-options'' = Some (JStr (lit ''nosniff''))
         \<and> (\<forall>h. h \<noteq> ''content-type'' \<and> h \<noteq> ''x-content-type-options'' \<longrightarrow>
                headers r' h = headers r h)
         \<and> statusCode r' = statusCode r \<and> ended r' = ended r
         \<and> (\<forall>c. c \<in> set (filter callback_char name) \<longleftrightarrow> c \<in> set name \<and> callback_char c)
         \<and> (\<forall>j. 0x2028 \<notin> set (escape_line_separators j)
                \<and> 0x2029 \<notin> set (escape_line_separators j)
                \<and> (0x2028 \<notin> set j \<and> 0x2029 \<notin> set j \<longrightarrow> escape_line_separators j = j))"
proof -
  define body where "body = stringify E obj (json_replacer E) (json_spaces E) (json_escape E)"
  define r1 where "r1 =
    (if \<not> truthy (get r ''Content-Type'') then
       setHeader (setHeader r ''X-Content-Type-Options'' (JStr (lit ''nosniff'')))
         ''Content-Type'' (content_type_value E (lit ''application/json''))
     else r)"
  define r' where "r' =
    setHeader (setHeader r1 ''X-Content-Type-Options'' (JStr (lit ''nosniff'')))
      ''Content-Type'' (content_type_value E (lit ''text/javascript''))"
  have pre: "(if \<not> truthy (get r ''Content-Type'') then
              and_then (set_header E r ''X-Content-Type-Options'' (JStr (lit ''nosniff'')))
                (\<lambda>_ r1. set_header E r1 ''Content-Type'' (JStr (lit ''application/json'')))
            else Returned () r) = Returned () r1"
    by (simp add: r1_def set_nosniff set_header_content_type)
  have "jsonp E r obj =
      and_then (set_header E r1 ''X-Content-Type-Options'' (JStr (lit ''nosniff'')))
        (\<lambda>_ r2. and_then (set_header E r2 ''Content-Type'' (JStr (lit ''text/javascript'')))
           (\<lambda>_ r3. send E r3
              (JStr (jsonp_body (filter callback_char name)
                 (case body of None \<Rightarrow> [] | Some b \<Rightarrow> escape_line_separators b)))))"
    unfolding jsonp_def Let_def pre body_def [symmetric]
    by (simp only: and_then.simps jsonp_callback_step [OF assms])
  then have run: "jsonp E r obj =
      send E r' (JStr (jsonp_body (filter callback_char name)
                 (case body of None \<Rightarrow> [] | Some b \<Rightarrow> escape_line_separators b)))"
    by (simp add: set_nosniff set_header_content_type r'_def)
  have hs: "headers r' ''content-type'' = Some (content_type_value E (lit ''text/javascript''))"
    "headers r' ''x-content-type-options'' = Some (JStr (lit ''nosniff''))"
    "\<forall>h. h \<noteq> ''content-type'' \<and> h \<noteq> ''x-content-type-options'' \<longrightarrow>
                headers r' h = headers r h"
    "statusCode r' = statusCode r" "ended r' = ended r"
    by (simp_all add: r'_def r1_def setHeader_def lower_names)
  have esc: "\<forall>j. 0x2028 \<notin> set (escape_line_separators j)
                \<and> 0x2029 \<notin> set (escape_line_separators j)
                \<and> (0x2028 \<notin> set j \<and> 0x2029 \<notin> set j \<longrightarrow> escape_line_separators j = j)"
    using escape_line_separators_free escape_line_separators_id by blast
  show ?thesis
    using run hs esc
    by (intro exI [of _ r']) (simp add: jsonp_body_def body_def)
qed

lemma jsonp_no_callback_step:
  assumes "\<forall>name rest. name \<noteq> [] \<longrightarrow> cb0 \<noteq> JStr name \<and> cb0 \<noteq> JArr (JStr name # rest)"
  shows "(case (case cb0 of JArr vs \<Rightarrow> (case vs of [] \<Rightarrow> JUndefined | v # _ \<Rightarrow> v) | _ \<Rightarrow> cb0) of
            JStr n \<Rightarrow> if n \<noteq> [] then f n else g
          | _ \<Rightarrow> g) = g"
proof (cases cb0)
  case (JArr vs)
  show ?thesis
  proof (cases vs)
    case Nil
    with JArr show ?thesis by simp
  next
    case (Cons v rest)
    with JArr assms have "\<forall>name. name \<noteq> [] \<longrightarrow> v \<noteq> JStr name" by auto
    with JArr Cons show ?thesis by (cases v) auto
  qed
next
  case (JStr n)
  with assms show ?thesis by auto
qed simp_all

lemma jsonp_no_callback_handoff:
  assumes "\<forall>name rest. name \<noteq> [] \<longrightarrow>
             req_query E (jsonp_callback_name E) \<noteq> JStr name
             \<and> req_query E (jsonp_callback_name E) \<noteq> JArr (JStr name # rest)"
  shows "(\<not> truthy (get r ''Content-Type'') \<longrightarrow>
            (\<exists>r'. jsonp E r obj =
                send E r' (string_or_undefined
                  (stringify E obj (json_replacer E) (json_spaces E) (json_escape E)))
              \<and> headers r' ''content-type'' = Some (content_type_value E (lit ''application/json''))
              \<and> headers r' ''x-content-type-options'' = Some (JStr (lit ''nosniff''))
              \<and> (\<forall>h. h \<noteq> ''content-type'' \<and> h \<noteq> ''x-content-type-options'' \<longrightarrow>
                     headers r' h = headers r h)
              \<and> statusCode r' = statusCode r \<and> ended r' = ended r))
       \<and> (truthy (get r ''Content-Type'') \<longrightarrow>
            jsonp E r obj =
              send E r (string_or_undefined
                (stringify E obj (json_replacer E) (json_spaces E) (json_escape E))))"
proof -
  define body where "body = stringify E obj (json_replacer E) (json_spaces E) (json_escape E)"
  define r1 where "r1 =
    (if \<not> truthy (get r ''Content-Type'') then
       setHeader (setHeader r ''X-Content-Type-Options'' (JStr (lit ''nosniff'')))
         ''Content-Type'' (content_type_value E (lit ''application/json''))
     else r)"
  have pre: "(if \<not> truthy (get r ''Content-Type'') then
              and_then (set_header E r ''X-Content-Type-Options'' (JStr (lit ''nosniff'')))
                (\<lambda>_ r1. set_header E r1 ''Content-Type'' (JStr (lit ''application/json'')))
            else Returned () r) = Returned () r1"
    by (simp add: r1_def set_nosniff set_header_content_type)
  have run: "jsonp E r obj = send E r1 (string_or_undefined body)"
    unfolding jsonp_def Let_def pre body_def [symmetric]
    by (simp only: and_then.simps jsonp_no_callback_step [OF assms])
  have a: "\<not> truthy (get r ''Content-Type'') \<longrightarrow>
      headers r1 ''content-type'' = Some (content_type_value E (lit ''application/json''))
      \<and> headers r1 ''x-content-type-options'' = Some (JStr (lit ''nosniff''))
      \<and> (\<forall>h. h \<noteq> ''content-type'' \<and> h \<noteq> ''x-content-type-options'' \<longrightarrow>
                     headers r1 h = headers r h)
      \<and> statusCode r1 = statusCode r \<and> ended r1 = ended r"
    by (simp add: r1_def setHeader_def lower_names)
  have b: "truthy (get r ''Content-Type'') \<longrightarrow> r1 = r"
    by (simp add: r1_def)
  show ?thesis
    using run a b unfolding body_def by auto
qed

text \<open>
  \<^verbatim>\<open>send\<close> of a string on a response whose Content-Type is a non-empty string: how the
  response ends.
\<close>

lemma send_string_typed:
  assumes ct: "headers r0 ''content-type'' = Some (JStr t)" "t \<noteq> []"
    and st: "st = (if req_fresh E then 304 else statusCode r0)"
    and big: "big = (genETag E r0 \<or> 1000 \<le> length s)"
  shows "\<exists>r'. send E r0 (JStr s) = Returned () r'
     \<and> statusCode r' = st
     \<and> ended r' = ended r0 @
          [if req_method E = lit ''HEAD'' then End
           else if st = 204 \<or> st = 205 \<or> st = 304
             then End_with (CStr []) (if big then None else Some Utf8)
           else if big then End_with (CBuffer (Buffer_from E (CStr s) (Some Utf8))) None
           else End_with (CStr s) (Some Utf8)]
     \<and> headers r' ''content-type''
         = (if st = 204 \<or> st = 304 then None
            else Some (content_type_value E (setCharset E t (lit ''utf-8''))))
     \<and> headers r' ''content-length''
         = (if st = 204 \<or> st = 304 then None
            else if st = 205 then Some (JStr (lit ''0''))
            else Some (JStr (js_String E (JNum (Fin (of_nat
                   (if big then length (Buffer_from E (CStr s) (Some Utf8))
                    else Buffer_byteLength E (CStr s) (Some Utf8))))))))
     \<and> (\<forall>h. h \<noteq> ''content-type'' \<and> h \<noteq> ''content-length'' \<and> h \<noteq> ''transfer-encoding''
              \<and> h \<noteq> ''etag'' \<longrightarrow> headers r' h = headers r0 h)"
proof -
  have g: "get r0 ''Content-Type'' = JStr t"
    using ct(1) by (simp add: get_def lower_names)
  then have tr: "truthy (get r0 ''Content-Type'')" using ct(2) by simp
  have s0: "send E r0 (JStr s) = send_chunk E r0 (CStr s)"
    by (simp add: default_type_truthy [OF tr])
  have enc: "Some Utf8 = (case CStr s of CStr s \<Rightarrow> Some Utf8 | _ \<Rightarrow> None)" by simp
  define c1 where "c1 = (if big then CBuffer (Buffer_from E (CStr s) (Some Utf8)) else CStr s)"
  define e1 where "e1 = (if big then None else Some Utf8)"
  define n where "n = (if big then length (Buffer_from E (CStr s) (Some Utf8))
               else Buffer_byteLength E (CStr s) (Some Utf8))"
  have m: "send_measure E r0 (CStr s) (Some Utf8) = (c1, e1, Some n)"
    by (simp add: send_measure_cases big c1_def e1_def n_def)
  obtain r' where r': "send_chunk E r0 (CStr s) = Returned () r'"
    "statusCode r' = st"
    "ended r' = ended r0 @ [if req_method E = lit ''HEAD'' then End
                             else End_with (if st = 204 \<or> st = 205 \<or> st = 304 then CStr [] else c1) e1]"
    "headers r' ''content-type''
         = (if st = 204 \<or> st = 304 then None
            else (case CStr s of
                    CStr s \<Rightarrow>
                      (case get r0 ''Content-Type'' of
                         JStr t \<Rightarrow> Some (content_type_value E (setCharset E t (lit ''utf-8'')))
                       | _ \<Rightarrow> headers r0 ''content-type'')
                  | _ \<Rightarrow> headers r0 ''content-type''))"
    "headers r' ''content-length''
         = (if st = 204 \<or> st = 304 then None
            else if st = 205 then Some (JStr (lit ''0''))
            else (case Some n of
                    Some n \<Rightarrow> Some (JStr (js_String E (JNum (Fin (of_nat n)))))
                  | None \<Rightarrow> headers r0 ''content-length''))"
    "\<forall>h. h \<noteq> ''content-type'' \<and> h \<noteq> ''content-length'' \<and> h \<noteq> ''transfer-encoding''
              \<and> h \<noteq> ''etag'' \<longrightarrow> headers r' h = headers r0 h"
    using send_chunk_final [OF enc m st] by blast
  have e: "ended r' = ended r0 @
          [if req_method E = lit ''HEAD'' then End
           else if st = 204 \<or> st = 205 \<or> st = 304
             then End_with (CStr []) (if big then None else Some Utf8)
           else if big then End_with (CBuffer (Buffer_from E (CStr s) (Some Utf8))) None
           else End_with (CStr s) (Some Utf8)]"
    unfolding r'(3) c1_def e1_def by simp
  have t: "headers r' ''content-type''
         = (if st = 204 \<or> st = 304 then None
            else Some (content_type_value E (setCharset E t (lit ''utf-8''))))"
    unfolding r'(4) by (simp add: g)
  have l: "headers r' ''content-length''
         = (if st = 204 \<or> st = 304 then None
            else if st = 205 then Some (JStr (lit ''0''))
            else Some (JStr (js_String E (JNum (Fin (of_nat
                   (if big then length (Buffer_from E (CStr s) (Some Utf8))
                    else Buffer_byteLength E (CStr s) (Some Utf8))))))))"
    unfolding r'(5) n_def by (simp del: js_String.simps)
  have ret: "send E r0 (JStr s) = Returned () r'" by (simp only: s0 r'(1))
  from ret r'(2) e t l r'(6) show ?thesis by blast
qed

text \<open>
  C7, as amended. When the query gives, under the configured parameter name, a non-empty
  string \<open>name\<close>, or an array whose first element is such a string, and the resolver of
  media types knows \<^verbatim>\<open>text/javascript\<close> as \<open>t\<close>, every call of \<^verbatim>\<open>jsonp\<close> returns and
  leaves X-Content-Type-Options at \<^verbatim>\<open>nosniff\<close>. Let \<open>script\<close> be the text
  \<^verbatim>\<open>/**/ typeof <cb>==='function'&&<cb>(<body>);\<close>, where \<^verbatim>\<open><cb>\<close> is \<open>name\<close> without
  the characters outside \<^verbatim>\<open>[A-Za-z0-9_$.[]]\<close> and \<^verbatim>\<open><body>\<close> is the serialized JSON with
  every U+2028 and U+2029 replaced by its escape sequence, or empty when the
  serialization is undefined. Unless the call ends with status 204 or 304 (304 is what a
  fresh request gets), Content-Type is \<open>t\<close> with the charset \<^verbatim>\<open>utf-8\<close> that \<^verbatim>\<open>send\<close> adds;
  with 204 or 304 there is no Content-Type. Unless the method is HEAD (nothing is
  written) or the status is 204, 205 or 304 (the empty string is written), what is written
  is exactly \<open>script\<close>: as a string, or as the buffer \<^verbatim>\<open>Buffer.from\<close> makes of it when an
  ETag is to be generated or \<open>script\<close> has 1000 code units or more.
\<close>

theorem jsonp_with_callback:
  assumes "req_query E (jsonp_callback_name E) = JStr name
           \<or> (\<exists>rest. req_query E (jsonp_callback_name E) = JArr (JStr name # rest))"
    and "name \<noteq> []"
    and "mime_contentType E (lit ''text/javascript'') = Some t" and "t \<noteq> []"
    and "script = lit ''/**/ typeof '' @ filter callback_char name @ lit ''==='' @ [0x27]
                    @ lit ''function'' @ [0x27] @ lit ''&&'' @ filter callback_char name
                    @ lit ''(''
                    @ (case stringify E obj (json_replacer E) (json_spaces E) (json_escape E) of
                         None \<Rightarrow> []
                       | Some j \<Rightarrow> escape_line_separators j)
                    @ lit '');''"
  shows "\<exists>r'. jsonp E r obj = Returned () r'
     \<and> statusCode r' = (if req_fresh E then 304 else statusCode r)
     \<and> headers r' ''x-content-type-options'' = Some (JStr (lit ''nosniff''))
     \<and> (statusCode r' = 204 \<or> statusCode r' = 304 \<longrightarrow> headers r' ''content-type'' = None)
     \<and> (statusCode r' \<noteq> 204 \<and> statusCode r' \<noteq> 304 \<longrightarrow>
          headers r' ''content-type''
            = Some (content_type_value E (setCharset E t (lit ''utf-8''))))
     \<and> (req_method E = lit ''HEAD'' \<longrightarrow> ended r' = ended r @ [End])
     \<and> (req_method E \<noteq> lit ''HEAD''
          \<and> (statusCode r' = 204 \<or> statusCode r' = 205 \<or> statusCode r' = 304) \<longrightarrow>
          (\<exists>enc. ended r' = ended r @ [End_with (CStr []) enc]))
     \<and> (req_method E \<noteq> lit ''HEAD''
          \<and> statusCode r' \<noteq> 204 \<and> statusCode r' \<noteq> 205 \<and> statusCode r' \<noteq> 304 \<longrightarrow>
          ended r' = ended r @
            [if genETag E r \<or> 1000 \<le> length script
             then End_with (CBuffer (Buffer_from E (CStr script) (Some Utf8))) None
             else End_with (CStr script) (Some Utf8)])
     \<and> (\<forall>h. h \<noteq> ''content-type'' \<and> h \<noteq> ''content-length'' \<and> h \<noteq> ''transfer-encoding''
              \<and> h \<noteq> ''etag'' \<and> h \<noteq> ''x-content-type-options'' \<longrightarrow>
              headers r' h = headers r h)
     \<and> (\<forall>c. c \<in> set (filter callback_char name) \<longleftrightarrow> c \<in> set name \<and> callback_char c)
     \<and> (\<forall>j. 0x2028 \<notin> set (escape_line_separators j)
            \<and> 0x2029 \<notin> set (escape_line_separators j)
            \<and> (0x2028 \<notin> set j \<and> 0x2029 \<notin> set j \<longrightarrow> escape_line_separators j = j))"
proof -
  obtain r0 where r0: "jsonp E r obj = send E r0 (JStr script)"
    "headers r0 ''content-type'' = Some (content_type_value E (lit ''text/javascript''))"
    "headers r0 ''x-content-type-options'' = Some (JStr (lit ''nosniff''))"
    "\<forall>h. h \<noteq> ''content-type'' \<and> h \<noteq> ''x-content-type-options'' \<longrightarrow>
                headers r0 h = headers r h"
    "statusCode r0 = statusCode r" "ended r0 = ended r"
    using jsonp_callback_handoff [OF assms(1,2), of r obj] unfolding assms(5) by blast
  have ct: "headers r0 ''content-type'' = Some (JStr t)"
    using r0(2) by (simp add: content_type_value_def assms(3))
  have et: "headers r0 ''etag'' = headers r ''etag''" using r0(4) by simp
  have g: "genETag E r0 = genETag E r" using et by (rule genETag_same_etag)
  define st where "st = (if req_fresh E then 304 else statusCode r0)"
  define big where "big = (genETag E r0 \<or> 1000 \<le> length script)"
  obtain r' where r': "send E r0 (JStr script) = Returned () r'"
    "statusCode r' = st"
    "ended r' = ended r0 @
          [if req_method E = lit ''HEAD'' then End
           else if st = 204 \<or> st = 205 \<or> st = 304
             then End_with (CStr []) (if big then None else Some Utf8)
           else if big then End_with (CBuffer (Buffer_from E (CStr script) (Some Utf8))) None
           else End_with (CStr script) (Some Utf8)]"
    "headers r' ''content-type''
         = (if st = 204 \<or> st = 304 then None
            else Some (content_type_value E (setCharset E t (lit ''utf-8''))))"
    "\<forall>h. h \<noteq> ''content-type'' \<and> h \<noteq> ''content-length'' \<and> h \<noteq> ''transfer-encoding''
              \<and> h \<noteq> ''etag'' \<longrightarrow> headers r' h = headers r0 h"
    using send_string_typed [OF ct assms(4) st_def big_def] by blast
  have esc: "\<forall>j. 0x2028 \<notin> set (escape_line_separators j)
                \<and> 0x2029 \<notin> set (escape_line_separators j)
                \<and> (0x2028 \<notin> set j \<and> 0x2029 \<notin> set j \<longrightarrow> escape_line_separators j = j)"
    using escape_line_separators_free escape_line_separators_id by blast
  have x: "headers r' ''x-content-type-options'' = Some (JStr (lit ''nosniff''))"
    using r'(5) r0(3) by simp
  have fr: "\<forall>h. h \<noteq> ''content-type'' \<and> h \<noteq> ''content-length'' \<and> h \<noteq> ''transfer-encoding''
              \<and> h \<noteq> ''etag'' \<and> h \<noteq> ''x-content-type-options'' \<longrightarrow>
              headers r' h = headers r h"
    using r'(5) r0(4) by simp
  show ?thesis
    using r0(1,5,6) r'(1-4) x fr esc
    by (intro exI [of _ r']) (auto simp add: st_def big_def g)
qed

theorem jsonp_with_callback_witness:
  "(\<exists>r'. jsonp (example_env\<lparr>req_query := (\<lambda>k. if k = lit ''callback'' then JStr (lit ''cb'')
                                                else JUndefined)\<rparr>)
            new_response example_object = Returned () r'
       \<and> statusCode r' = 200
       \<and> headers r' ''x-content-type-options'' = Some (JStr (lit ''nosniff''))
       \<and> headers r' ''content-type'' = Some (JStr (lit ''text/javascript; charset=utf-8''))
       \<and> ended r' = [End_with (CStr (lit ''/**/ typeof cb==='' @ [0x27] @ lit ''function''
                        @ [0x27] @ lit ''&&cb('' @ example_json @ lit '');'')) (Some Utf8)])
   \<and> (\<exists>r'. jsonp (example_env\<lparr>req_query := (\<lambda>k. JArr [JStr (lit ''a b;c''), JStr (lit ''d'')])\<rparr>)
            new_response JUndefined = Returned () r'
       \<and> ended r' = [End_with (CStr (lit ''/**/ typeof abc==='' @ [0x27] @ lit ''function''
                        @ [0x27] @ lit ''&&abc();'')) (Some Utf8)])"
proof -
  let ?E1 = "example_env\<lparr>req_query := (\<lambda>k. if k = lit ''callback'' then JStr (lit ''cb'')
                                                else JUndefined)\<rparr>"
  let ?E2 = "example_env\<lparr>req_query := (\<lambda>k. JArr [JStr (lit ''a b;c''), JStr (lit ''d'')])\<rparr>"
  let ?s1 = "lit ''/**/ typeof cb==='' @ [0x27] @ lit ''function''
                        @ [0x27] @ lit ''&&cb('' @ example_json @ lit '');''"
  let ?s2 = "lit ''/**/ typeof abc==='' @ [0x27] @ lit ''function''
                        @ [0x27] @ lit ''&&abc();''"
  let ?t = "lit ''text/javascript; charset=utf-8''"
  have q1: "req_query ?E1 (jsonp_callback_name ?E1) = JStr (lit ''cb'')
           \<or> (\<exists>rest. req_query ?E1 (jsonp_callback_name ?E1) = JArr (JStr (lit ''cb'') # rest))"
    by (simp add: example_env_def example_builtins_def)
  have n1: "lit ''cb'' \<noteq> []" by (simp add: lit_def)
  have q2: "req_query ?E2 (jsonp_callback_name ?E2) = JStr (lit ''a b;c'')
           \<or> (\<exists>rest. req_query ?E2 (jsonp_callback_name ?E2) = JArr (JStr (lit ''a b;c'') # rest))"
    by simp
  have n2: "lit ''a b;c'' \<noteq> []" by (simp add: lit_def)
  have m: "mime_contentType ?E1 (lit ''text/javascript'') = Some ?t"
    "mime_contentType ?E2 (lit ''text/javascript'') = Some ?t" "?t \<noteq> []"
    by (simp_all add: example_env_def example_builtins_def example_mime_def lit_def)
  have s1: "?s1 = lit ''/**/ typeof '' @ filter callback_char (lit ''cb'') @ lit ''==='' @ [0x27]
                    @ lit ''function'' @ [0x27] @ lit ''&&'' @ filter callback_char (lit ''cb'')
                    @ lit ''(''
                    @ (case stringify ?E1 example_object (json_replacer ?E1) (json_spaces ?E1)
                              (json_escape ?E1) of
                         None \<Rightarrow> []
                       | Some j \<Rightarrow> escape_line_separators j)
                    @ lit '');''"
    by (simp add: stringify_def example_env_def example_builtins_def callback_char_def
        escape_line_separators_def example_json_def lit_def)
  have s2: "?s2 = lit ''/**/ typeof '' @ filter callback_char (lit ''a b;c'') @ lit ''==='' @ [0x27]
                    @ lit ''function'' @ [0x27] @ lit ''&&'' @ filter callback_char (lit ''a b;c'')
                    @ lit ''(''
                    @ (case stringify ?E2 JUndefined (json_replacer ?E2) (json_spaces ?E2)
                              (json_escape ?E2) of
                         None \<Rightarrow> []
                       | Some j \<Rightarrow> escape_line_separators j)
                    @ lit '');''"
    by (simp add: stringify_def example_env_def example_builtins_def callback_char_def
        example_object_def lit_def)
  have ev: "genETag ?E1 new_response = False" "genETag ?E2 new_response = False"
    "req_fresh example_env = False" "req_method example_env = lit ''GET''"
    "lit ''GET'' \<noteq> lit ''HEAD''"
    "\<not> 1000 \<le> length ?s1" "\<not> 1000 \<le> length ?s2"
    "statusCode new_response = 200" "ended new_response = []"
    "content_type_value ?E1 (setCharset ?E1 ?t (lit ''utf-8'')) = JStr ?t"
    by (simp_all add: genETag_def example_env_def example_builtins_def get_def lower_names
        new_response_def lit_def example_json_def content_type_value_def example_mime_def)
  obtain r1 where r1: "jsonp ?E1 new_response example_object = Returned () r1"
    "statusCode r1 = (if req_fresh ?E1 then 304 else statusCode new_response)"
    "headers r1 ''x-content-type-options'' = Some (JStr (lit ''nosniff''))"
    "statusCode r1 \<noteq> 204 \<and> statusCode r1 \<noteq> 304 \<longrightarrow>
          headers r1 ''content-type''
            = Some (content_type_value ?E1 (setCharset ?E1 ?t (lit ''utf-8'')))"
    "req_method ?E1 \<noteq> lit ''HEAD''
          \<and> statusCode r1 \<noteq> 204 \<and> statusCode r1 \<noteq> 205 \<and> statusCode r1 \<noteq> 304 \<longrightarrow>
          ended r1 = ended new_response @
            [if genETag ?E1 new_response \<or> 1000 \<le> length ?s1
             then End_with (CBuffer (Buffer_from ?E1 (CStr ?s1) (Some Utf8))) None
             else End_with (CStr ?s1) (Some Utf8)]"
    using jsonp_with_callback [OF q1 n1 m(1) m(3) s1, of new_response] by blast
  have st1: "statusCode r1 = 200" using r1(2) by (simp add: ev)
  have 1: "\<exists>r'. jsonp ?E1 new_response example_object = Returned () r'
       \<and> statusCode r' = 200
       \<and> headers r' ''x-content-type-options'' = Some (JStr (lit ''nosniff''))
       \<and> headers r' ''content-type'' = Some (JStr ?t)
       \<and> ended r' = [End_with (CStr ?s1) (Some Utf8)]"
    using r1(1,3,4,5) st1 ev(1,5,6,9,10) by (intro exI [of _ r1]) (simp add: ev(4))
  obtain r2 where r2: "jsonp ?E2 new_response JUndefined = Returned () r2"
    "statusCode r2 = (if req_fresh ?E2 then 304 else statusCode new_response)"
    "req_method ?E2 \<noteq> lit ''HEAD''
          \<and> statusCode r2 \<noteq> 204 \<and> statusCode r2 \<noteq> 205 \<and> statusCode r2 \<noteq> 304 \<longrightarrow>
          ended r2 = ended new_response @
            [if genETag ?E2 new_response \<or> 1000 \<le> length ?s2
             then End_with (CBuffer (Buffer_from ?E2 (CStr ?s2) (Some Utf8))) None
             else End_with (CStr ?s2) (Some Utf8)]"
    using jsonp_with_callback [OF q2 n2 m(2) m(3) s2, of new_response] by blast
  have st2: "statusCode r2 = 200" using r2(2) by (simp add: ev)
  have 2: "\<exists>r'. jsonp ?E2 new_response JUndefined = Returned () r'
       \<and> ended r' = [End_with (CStr ?s2) (Some Utf8)]"
    using r2(1,3) st2 ev(2,5,7,9) by (intro exI [of _ r2]) (simp add: ev(4))
  from 1 2 show ?thesis by blast
qed

text \<open>
  The claim C7 as it stands fails on a fresh request: \<^verbatim>\<open>jsonp\<close> of the example object
  with the callback \<^verbatim>\<open>cb\<close> ends with status 304, without Content-Type and with an empty
  body.
\<close>

theorem jsonp_with_callback_counterexample:
  "jsonp (example_env\<lparr>req_fresh := True,
                       req_query := (\<lambda>k. if k = lit ''callback'' then JStr (lit ''cb'')
                                           else JUndefined)\<rparr>)
      new_response example_object
     = Returned ()
         \<lparr>statusCode = 304,
          headers = [''x-content-type-options'' \<mapsto> JStr (lit ''nosniff'')],
          ended = [End_with (CStr []) (Some Utf8)]\<rparr>"
  by (simp add: jsonp_def jsonp_body_def callback_char_def escape_line_separators_def
      stringify_def default_type_def get_def lower_names new_response_def
      type_def example_env_def example_builtins_def example_mime_def lit_def set_header_def
      header_def coerce_def send_chunk_def send_encode_def send_length_etag_def send_measure_def
      genETag_def content_type_value_def setHeader_def removeHeader_def send_status_def
      status_def send_end_def decimal.simps fun_upd_twist string_or_undefined_def
      example_json_def example_object_def fun_eq_iff)

text \<open>
  \<^verbatim>\<open>send\<close> of the serialization (a string or undefined) on a response that has a
  Content-Type: how the response ends.
\<close>

lemma send_serialized:
  assumes tr: "truthy (get r0 ''Content-Type'')"
    and st: "st = (if req_fresh E then 304 else statusCode r0)"
  shows "\<exists>r'. send E r0 (string_or_undefined body) = Returned () r'
     \<and> statusCode r' = st
     \<and> ended r' = ended r0 @
          [if req_method E = lit ''HEAD'' then End
           else (case body of
                   None \<Rightarrow> End_with (if st = 204 \<or> st = 205 \<or> st = 304 then CStr []
                                      else CUndefined) None
                 | Some j \<Rightarrow>
                     if genETag E r0 \<or> 1000 \<le> length j
                     then End_with (if st = 204 \<or> st = 205 \<or> st = 304 then CStr []
                                    else CBuffer (Buffer_from E (CStr j) (Some Utf8))) None
                     else End_with (if st = 204 \<or> st = 205 \<or> st = 304 then CStr []
                                    else CStr j) (Some Utf8))]
     \<and> headers r' ''content-type''
         = (if st = 204 \<or> st = 304 then None
            else (case body of
                    None \<Rightarrow> headers r0 ''content-type''
                  | Some j \<Rightarrow>
                      (case get r0 ''Content-Type'' of
                         JStr u \<Rightarrow> Some (content_type_value E (setCharset E u (lit ''utf-8'')))
                       | _ \<Rightarrow> headers r0 ''content-type'')))
     \<and> (\<forall>h. h \<noteq> ''content-type'' \<and> h \<noteq> ''content-length'' \<and> h \<noteq> ''transfer-encoding''
              \<and> h \<noteq> ''etag'' \<longrightarrow> headers r' h = headers r0 h)"
proof (cases body)
  case None
  have s0: "send E r0 (string_or_undefined None) = send_chunk E r0 CUndefined"
    by (simp add: string_or_undefined_def)
  have enc: "None = (case CUndefined of CStr s \<Rightarrow> Some Utf8 | _ \<Rightarrow> None)" by simp
  have m: "send_measure E r0 CUndefined None = (CUndefined, None, None)"
    by (simp add: send_measure_cases)
  obtain r' where r': "send_chunk E r0 CUndefined = Returned () r'"
    "statusCode r' = st"
    "ended r' = ended r0 @ [if req_method E = lit ''HEAD'' then End
                             else End_with (if st = 204 \<or> st = 205 \<or> st = 304 then CStr []
                                            else CUndefined) None]"
    "headers r' ''content-type''
         = (if st = 204 \<or> st = 304 then None
            else (case CUndefined of
                    CStr s \<Rightarrow>
                      (case get r0 ''Content-Type'' of
                         JStr t \<Rightarrow> Some (content_type_value E (setCharset E t (lit ''utf-8'')))
                       | _ \<Rightarrow> headers r0 ''content-type'')
                  | _ \<Rightarrow> headers r0 ''content-type''))"
    "\<forall>h. h \<noteq> ''content-type'' \<and> h \<noteq> ''content-length'' \<and> h \<noteq> ''transfer-encoding''
              \<and> h \<noteq> ''etag'' \<longrightarrow> headers r' h = headers r0 h"
    using send_chunk_final [OF enc m st] by blast
  have t: "headers r' ''content-type''
         = (if st = 204 \<or> st = 304 then None else headers r0 ''content-type'')"
    unfolding r'(4) by simp
  show ?thesis
    unfolding None s0 using r'(1,2,3,5) t by (intro exI [of _ r']) simp
next
  case (Some j)
  have s0: "send E r0 (string_or_undefined (Some j)) = send_chunk E r0 (CStr j)"
    by (simp add: string_or_undefined_def default_type_truthy [OF tr])
  have enc: "Some Utf8 = (case CStr j of CStr s \<Rightarrow> Some Utf8 | _ \<Rightarrow> None)" by simp
  define big where "big = (genETag E r0 \<or> 1000 \<le> length j)"
  define c1 where "c1 = (if big then CBuffer (Buffer_from E (CStr j) (Some Utf8)) else CStr j)"
  define e1 where "e1 = (if big then None else Some Utf8)"
  define n where "n = (if big then length (Buffer_from E (CStr j) (Some Utf8))
               else Buffer_byteLength E (CStr j) (Some Utf8))"
  have m: "send_measure E r0 (CStr j) (Some Utf8) = (c1, e1, Some n)"
    by (simp add: send_measure_cases big_def c1_def e1_def n_def)
  obtain r' where r': "send_chunk E r0 (CStr j) = Returned () r'"
    "statusCode r' = st"
    "ended r' = ended r0 @ [if req_method E = lit ''HEAD'' then End
                             else End_with (if st = 204 \<or> st = 205 \<or> st = 304 then CStr [] else c1) e1]"
    "headers r' ''content-type''
         = (if st = 204 \<or> st = 304 then None
            else (case CStr j of
                    CStr s \<Rightarrow>
                      (case get r0 ''Content-Type'' of
                         JStr t \<Rightarrow> Some (content_type_value E (setCharset E t (lit ''utf-8'')))
                       | _ \<Rightarrow> headers r0 ''content-type'')
                  | _ \<Rightarrow> headers r0 ''content-type''))"
    "\<forall>h. h \<noteq> ''content-type'' \<and> h \<noteq> ''content-length'' \<and> h \<noteq> ''transfer-encoding''
              \<and> h \<noteq> ''etag'' \<longrightarrow> headers r' h = headers r0 h"
    using send_chunk_final [OF enc m st] by blast
  have e: "ended r' = ended r0 @
          [if req_method E = lit ''HEAD'' then End
           else if genETag E r0 \<or> 1000 \<le> length j
                     then End_with (if st = 204 \<or> st = 205 \<or> st = 304 then CStr []
                                    else CBuffer (Buffer_from E (CStr j) (Some Utf8))) None
                     else End_with (if st = 204 \<or> st = 205 \<or> st = 304 then CStr []
                                    else CStr j) (Some Utf8)]"
    unfolding r'(3) c1_def e1_def big_def by simp
  have t: "headers r' ''content-type''
         = (if st = 204 \<or> st = 304 then None
            else (case get r0 ''Content-Type'' of
                         JStr u \<Rightarrow> Some (content_type_value E (setCharset E u (lit ''utf-8'')))
                       | _ \<Rightarrow> headers r0 ''content-type''))"
    unfolding r'(4) by simp
  show ?thesis
    unfolding Some s0 using r'(1,2,5) e t by (intro exI [of _ r']) simp
qed

text \<open>
  C8, as amended. When the query gives no callback name (under the configured parameter
  name there is neither a non-empty string nor an array that starts with one) and the
  resolver of media types knows \<^verbatim>\<open>application/json\<close> as \<open>t\<close>, every call of \<^verbatim>\<open>jsonp\<close>
  returns, with status 304 for a fresh request and the status of the response otherwise.
  Unless the method is HEAD (nothing is written) or the status is 204, 205 or 304 (the
  empty string is written), what is written is the serialization \<open>body\<close> unmodified: as a
  string, or as the buffer \<^verbatim>\<open>Buffer.from\<close> makes of it when an ETag is to be generated or
  it has 1000 code units or more, and undefined when the serialization is undefined.
  On a response without Content-Type, X-Content-Type-Options ends as \<^verbatim>\<open>nosniff\<close> and
  Content-Type as \<open>t\<close>, with the charset \<^verbatim>\<open>utf-8\<close> that \<^verbatim>\<open>send\<close> adds when the serialization
  is a string. On a response that has a Content-Type, X-Content-Type-Options is left as it
  was and Content-Type is the one the response had, again with the charset \<^verbatim>\<open>utf-8\<close>
  added when it is a string and the serialization is a string. In both cases a final status
  204 or 304 leaves no Content-Type. No header other than Content-Type, Content-Length,
  Transfer-Encoding, ETag and X-Content-Type-Options changes.
\<close>

theorem jsonp_without_callback:
  assumes "\<forall>name rest. name \<noteq> [] \<longrightarrow>
             req_query E (jsonp_callback_name E) \<noteq> JStr name
             \<and> req_query E (jsonp_callback_name E) \<noteq> JArr (JStr name # rest)"
    and "mime_contentType E (lit ''application/json'') = Some t" and "t \<noteq> []"
    and "body = stringify E obj (json_replacer E) (json_spaces E) (json_escape E)"
  shows "\<exists>r'. jsonp E r obj = Returned () r'
     \<and> statusCode r' = (if req_fresh E then 304 else statusCode r)
     \<and> (req_method E = lit ''HEAD'' \<longrightarrow> ended r' = ended r @ [End])
     \<and> (req_method E \<noteq> lit ''HEAD''
          \<and> (statusCode r' = 204 \<or> statusCode r' = 205 \<or> statusCode r' = 304) \<longrightarrow>
          (\<exists>enc. ended r' = ended r @ [End_with (CStr []) enc]))
     \<and> (req_method E \<noteq> lit ''HEAD''
          \<and> statusCode r' \<noteq> 204 \<and> statusCode r' \<noteq> 205 \<and> statusCode r' \<noteq> 304 \<longrightarrow>
          ended r' = ended r @
            [case body of
               None \<Rightarrow> End_with CUndefined None
             | Some j \<Rightarrow>
                 if genETag E r \<or> 1000 \<le> length j
                 then End_with (CBuffer (Buffer_from E (CStr j) (Some Utf8))) None
                 else End_with (CStr j) (Some Utf8)])
     \<and> (statusCode r' = 204 \<or> statusCode r' = 304 \<longrightarrow> headers r' ''content-type'' = None)
     \<and> (\<not> truthy (get r ''Content-Type'') \<longrightarrow>
          headers r' ''x-content-type-options'' = Some (JStr (lit ''nosniff''))
          \<and> (statusCode r' \<noteq> 204 \<and> statusCode r' \<noteq> 304 \<longrightarrow>
               headers r' ''content-type''
                 = (case body of
                      None \<Rightarrow> Some (JStr t)
                    | Some j \<Rightarrow> Some (content_type_value E (setCharset E t (lit ''utf-8''))))))
     \<and> (truthy (get r ''Content-Type'') \<longrightarrow>
          headers r' ''x-content-type-options'' = headers r ''x-content-type-options''
          \<and> (statusCode r' \<noteq> 204 \<and> statusCode r' \<noteq> 304 \<longrightarrow>
               headers r' ''content-type''
                 = (case body of
                      None \<Rightarrow> headers r ''content-type''
                    | Some j \<Rightarrow>
                        (case get r ''Content-Type'' of
                           JStr u \<Rightarrow> Some (content_type_value E (setCharset E u (lit ''utf-8'')))
                         | _ \<Rightarrow> headers r ''content-type''))))
     \<and> (\<forall>h. h \<noteq> ''content-type'' \<and> h \<noteq> ''content-length'' \<and> h \<noteq> ''transfer-encoding''
              \<and> h \<noteq> ''etag'' \<and> h \<noteq> ''x-content-type-options'' \<longrightarrow>
              headers r' h = headers r h)"
proof -
  obtain r0 where r0: "jsonp E r obj = send E r0 (string_or_undefined body)"
    "\<not> truthy (get r ''Content-Type'') \<longrightarrow>
       headers r0 ''content-type'' = Some (content_type_value E (lit ''application/json''))
       \<and> headers r0 ''x-content-type-options'' = Some (JStr (lit ''nosniff''))"
    "truthy (get r ''Content-Type'') \<longrightarrow> r0 = r"
    "\<forall>h. h \<noteq> ''content-type'' \<and> h \<noteq> ''x-content-type-options'' \<longrightarrow>
                headers r0 h = headers r h"
    "statusCode r0 = statusCode r" "ended r0 = ended r"
    using jsonp_no_callback_handoff [OF assms(1), of r obj] unfolding assms(4) [symmetric]
    by (cases "truthy (get r ''Content-Type'')") auto
  have ct: "\<not> truthy (get r ''Content-Type'') \<longrightarrow> headers r0 ''content-type'' = Some (JStr t)"
    using r0(2) by (simp add: content_type_value_def assms(2))
  then have g0: "\<not> truthy (get r ''Content-Type'') \<longrightarrow> get r0 ''Content-Type'' = JStr t"
    by (simp add: get_def lower_names)
  have tr: "truthy (get r0 ''Content-Type'')"
  proof (cases "truthy (get r ''Content-Type'')")
    case True
    with r0(3) show ?thesis by simp
  next
    case False
    with g0 assms(3) show ?thesis by simp
  qed
  have et: "headers r0 ''etag'' = headers r ''etag''" using r0(4) by simp
  have g: "genETag E r0 = genETag E r" using et by (rule genETag_same_etag)
  define st where "st = (if req_fresh E then 304 else statusCode r0)"
  obtain r' where r': "send E r0 (string_or_undefined body) = Returned () r'"
    "statusCode r' = st"
    "ended r' = ended r0 @
          [if req_method E = lit ''HEAD'' then End
           else (case body of
                   None \<Rightarrow> End_with (if st = 204 \<or> st = 205 \<or> st = 304 then CStr []
                                      else CUndefined) None
                 | Some j \<Rightarrow>
                     if genETag E r0 \<or> 1000 \<le> length j
                     then End_with (if st = 204 \<or> st = 205 \<or> st = 304 then CStr []
                                    else CBuffer (Buffer_from E (CStr j) (Some Utf8))) None
                     else End_with (if st = 204 \<or> st = 205 \<or> st = 304 then CStr []
                                    else CStr j) (Some Utf8))]"
    "headers r' ''content-type''
         = (if st = 204 \<or> st = 304 then None
            else (case body of
                    None \<Rightarrow> headers r0 ''content-type''
                  | Some j \<Rightarrow>
                      (case get r0 ''Content-Type'' of
                         JStr u \<Rightarrow> Some (content_type_value E (setCharset E u (lit ''utf-8'')))
                       | _ \<Rightarrow> headers r0 ''content-type'')))"
    "\<forall>h. h \<noteq> ''content-type'' \<and> h \<noteq> ''content-length'' \<and> h \<noteq> ''transfer-encoding''
              \<and> h \<noteq> ''etag'' \<longrightarrow> headers r' h = headers r0 h"
    using send_serialized [OF tr st_def, of body] by blast
  have x: "headers r' ''x-content-type-options'' = headers r0 ''x-content-type-options''"
    using r'(5) by simp
  have fr: "\<forall>h. h \<noteq> ''content-type'' \<and> h \<noteq> ''content-length'' \<and> h \<noteq> ''transfer-encoding''
              \<and> h \<noteq> ''etag'' \<and> h \<noteq> ''x-content-type-options'' \<longrightarrow>
              headers r' h = headers r h"
    using r'(5) r0(4) by simp
  have s: "statusCode r' = (if req_fresh E then 304 else statusCode r)"
    using r'(2) by (simp add: st_def r0(5))
  have e1: "req_method E = lit ''HEAD'' \<longrightarrow> ended r' = ended r @ [End]"
    using r'(3) by (simp add: r0(6))
  have e2: "req_method E \<noteq> lit ''HEAD''
          \<and> (statusCode r' = 204 \<or> statusCode r' = 205 \<or> statusCode r' = 304) \<longrightarrow>
          (\<exists>enc. ended r' = ended r @ [End_with (CStr []) enc])"
    unfolding r'(2,3) r0(6) by (cases body) auto
  have e3: "req_method E \<noteq> lit ''HEAD''
          \<and> statusCode r' \<noteq> 204 \<and> statusCode r' \<noteq> 205 \<and> statusCode r' \<noteq> 304 \<longrightarrow>
          ended r' = ended r @
            [case body of
               None \<Rightarrow> End_with CUndefined None
             | Some j \<Rightarrow>
                 if genETag E r \<or> 1000 \<le> length j
                 then End_with (CBuffer (Buffer_from E (CStr j) (Some Utf8))) None
                 else End_with (CStr j) (Some Utf8)]"
    unfolding r'(2,3) r0(6) g by (cases body) auto
  have t0: "statusCode r' = 204 \<or> statusCode r' = 304 \<longrightarrow> headers r' ''content-type'' = None"
    unfolding r'(2,4) by simp
  have a: "\<not> truthy (get r ''Content-Type'') \<longrightarrow>
          headers r' ''x-content-type-options'' = Some (JStr (lit ''nosniff''))
          \<and> (statusCode r' \<noteq> 204 \<and> statusCode r' \<noteq> 304 \<longrightarrow>
               headers r' ''content-type''
                 = (case body of
                      None \<Rightarrow> Some (JStr t)
                    | Some j \<Rightarrow> Some (content_type_value E (setCharset E t (lit ''utf-8'')))))"
  proof
    assume f: "\<not> truthy (get r ''Content-Type'')"
    have 1: "headers r' ''x-content-type-options'' = Some (JStr (lit ''nosniff''))"
      using x r0(2) f by simp
    have 2: "statusCode r' \<noteq> 204 \<and> statusCode r' \<noteq> 304 \<longrightarrow>
               headers r' ''content-type''
                 = (case body of
                      None \<Rightarrow> Some (JStr t)
                    | Some j \<Rightarrow> Some (content_type_value E (setCharset E t (lit ''utf-8''))))"
      unfolding r'(2,4) using ct g0 f by (cases body) simp_all
    from 1 2 show "headers r' ''x-content-type-options'' = Some (JStr (lit ''nosniff''))
          \<and> (statusCode r' \<noteq> 204 \<and> statusCode r' \<noteq> 304 \<longrightarrow>
               headers r' ''content-type''
                 = (case body of
                      None \<Rightarrow> Some (JStr t)
                    | Some j \<Rightarrow> Some (content_type_value E (setCharset E t (lit ''utf-8'')))))"
      by simp
  qed
  have b: "truthy (get r ''Content-Type'') \<longrightarrow>
          headers r' ''x-content-type-options'' = headers r ''x-content-type-options''
          \<and> (statusCode r' \<noteq> 204 \<and> statusCode r' \<noteq> 304 \<longrightarrow>
               headers r' ''content-type''
                 = (case body of
                      None \<Rightarrow> headers r ''content-type''
                    | Some j \<Rightarrow>
                        (case get r ''Content-Type'' of
                           JStr u \<Rightarrow> Some (content_type_value E (setCharset E u (lit ''utf-8'')))
                         | _ \<Rightarrow> headers r ''content-type'')))"
  proof
    assume f: "truthy (get r ''Content-Type'')"
    then have eq: "r0 = r" using r0(3) by simp
    show "headers r' ''x-content-type-options'' = headers r ''x-content-type-options''
          \<and> (statusCode r' \<noteq> 204 \<and> statusCode r' \<noteq> 304 \<longrightarrow>
               headers r' ''content-type''
                 = (case body of
                      None \<Rightarrow> headers r ''content-type''
                    | Some j \<Rightarrow>
                        (case get r ''Content-Type'' of
                           JStr u \<Rightarrow> Some (content_type_value E (setCharset E u (lit ''utf-8'')))
                         | _ \<Rightarrow> headers r ''content-type'')))"
      using x unfolding r'(2,4) eq by simp
  qed
  show ?thesis
    unfolding r0(1)
    using r'(1) s e1 e2 e3 t0 a b fr by (intro exI [of _ r']) blast
qed

theorem jsonp_without_callback_witness:
  "(\<exists>r'. jsonp example_env new_response example_object = Returned () r'
       \<and> statusCode r' = 200
       \<and> headers r' ''x-content-type-options'' = Some (JStr (lit ''nosniff''))
       \<and> headers r' ''content-type'' = Some (JStr (lit ''application/json; charset=utf-8''))
       \<and> ended r' = [End_with (CStr example_json) (Some Utf8)])
   \<and> (\<exists>r'. jsonp example_env (new_response\<lparr>headers := [''content-type'' \<mapsto> JStr (lit ''text/plain'')]\<rparr>)
              JUndefined = Returned () r'
       \<and> headers r' ''x-content-type-options'' = None
       \<and> headers r' ''content-type'' = Some (JStr (lit ''text/plain''))
       \<and> ended r' = [End_with CUndefined None])"
proof -
  let ?r2 = "new_response\<lparr>headers := [''content-type'' \<mapsto> JStr (lit ''text/plain'')]\<rparr>"
  let ?t = "lit ''application/json; charset=utf-8''"
  have q: "\<forall>name rest. name \<noteq> [] \<longrightarrow>
             req_query example_env (jsonp_callback_name example_env) \<noteq> JStr name
             \<and> req_query example_env (jsonp_callback_name example_env) \<noteq> JArr (JStr name # rest)"
    by (simp add: example_env_def example_builtins_def)
  have m: "mime_contentType example_env (lit ''application/json'') = Some ?t" "?t \<noteq> []"
    by (simp_all add: example_env_def example_builtins_def example_mime_def lit_def)
  have s1: "Some example_json = stringify example_env example_object (json_replacer example_env)
      (json_spaces example_env) (json_escape example_env)"
    by (simp add: stringify_def example_env_def example_builtins_def)
  have s2: "None = stringify example_env JUndefined (json_replacer example_env)
      (json_spaces example_env) (json_escape example_env)"
    by (simp add: stringify_def example_env_def example_builtins_def example_object_def)
  have ev: "genETag example_env new_response = False"
    "req_fresh example_env = False" "req_method example_env = lit ''GET''"
    "lit ''GET'' \<noteq> lit ''HEAD''"
    "\<not> 1000 \<le> length example_json"
    "statusCode new_response = 200" "ended new_response = []"
    "statusCode ?r2 = 200" "ended ?r2 = []"
    "content_type_value example_env (setCharset example_env ?t (lit ''utf-8'')) = JStr ?t"
    "\<not> truthy (get new_response ''Content-Type'')"
    "truthy (get ?r2 ''Content-Type'')"
    "headers ?r2 ''x-content-type-options'' = None"
    "headers ?r2 ''content-type'' = Some (JStr (lit ''text/plain''))"
    by (simp_all add: genETag_def example_env_def example_builtins_def get_def lower_names
        new_response_def lit_def example_json_def content_type_value_def example_mime_def)
  obtain r1 where r1: "jsonp example_env new_response example_object = Returned () r1"
    "statusCode r1 = (if req_fresh example_env then 304 else statusCode new_response)"
    "req_method example_env \<noteq> lit ''HEAD''
          \<and> statusCode r1 \<noteq> 204 \<and> statusCode r1 \<noteq> 205 \<and> statusCode r1 \<noteq> 304 \<longrightarrow>
          ended r1 = ended new_response @
            [case Some example_json of
               None \<Rightarrow> End_with CUndefined None
             | Some j \<Rightarrow>
                 if genETag example_env new_response \<or> 1000 \<le> length j
                 then End_with (CBuffer (Buffer_from example_env (CStr j) (Some Utf8))) None
                 else End_with (CStr j) (Some Utf8)]"
    "\<not> truthy (get new_response ''Content-Type'') \<longrightarrow>
          headers r1 ''x-content-type-options'' = Some (JStr (lit ''nosniff''))
          \<and> (statusCode r1 \<noteq> 204 \<and> statusCode r1 \<noteq> 304 \<longrightarrow>
               headers r1 ''content-type''
                 = (case Some example_json of
                      None \<Rightarrow> Some (JStr ?t)
                    | Some j \<Rightarrow> Some (content_type_value example_env
                                        (setCharset example_env ?t (lit ''utf-8'')))))"
    using jsonp_without_callback [OF q m s1, of new_response] by blast
  have st1: "statusCode r1 = 200" using r1(2) by (simp add: ev)
  have 1: "\<exists>r'. jsonp example_env new_response example_object = Returned () r'
       \<and> statusCode r' = 200
       \<and> headers r' ''x-content-type-options'' = Some (JStr (lit ''nosniff''))
       \<and> headers r' ''content-type'' = Some (JStr ?t)
       \<and> ended r' = [End_with (CStr example_json) (Some Utf8)]"
    using r1(1,3,4) st1 ev(1,4,5,7,10,11) by (intro exI [of _ r1]) (simp add: ev(3))
  define p where "p = new_response\<lparr>headers := [''content-type'' \<mapsto> JStr (lit ''text/plain'')]\<rparr>"
  define none where "none = (None :: jsstring option)"
  have s3: "none = stringify example_env JUndefined (json_replacer example_env)
      (json_spaces example_env) (json_escape example_env)"
    using s2 by (simp add: none_def)
  have evp: "statusCode p = 200" "ended p = []" "truthy (get p ''Content-Type'')"
    "headers p ''x-content-type-options'' = None"
    "headers p ''content-type'' = Some (JStr (lit ''text/plain''))"
    using ev(8,9,12,13,14) by (simp_all add: p_def)
  obtain r2 where r2: "jsonp example_env p JUndefined = Returned () r2"
    "statusCode r2 = (if req_fresh example_env then 304 else statusCode p)"
    "req_method example_env \<noteq> lit ''HEAD''
          \<and> statusCode r2 \<noteq> 204 \<and> statusCode r2 \<noteq> 205 \<and> statusCode r2 \<noteq> 304 \<longrightarrow>
          ended r2 = ended p @
            [case none of
               None \<Rightarrow> End_with CUndefined None
             | Some j \<Rightarrow>
                 if genETag example_env p \<or> 1000 \<le> length j
                 then End_with (CBuffer (Buffer_from example_env (CStr j) (Some Utf8))) None
                 else End_with (CStr j) (Some Utf8)]"
    "truthy (get p ''Content-Type'') \<longrightarrow>
          headers r2 ''x-content-type-options'' = headers p ''x-content-type-options''
          \<and> (statusCode r2 \<noteq> 204 \<and> statusCode r2 \<noteq> 304 \<longrightarrow>
               headers r2 ''content-type''
                 = (case none of
                      None \<Rightarrow> headers p ''content-type''
                    | Some j \<Rightarrow>
                        (case get p ''Content-Type'' of
                           JStr u \<Rightarrow> Some (content_type_value example_env
                                              (setCharset example_env u (lit ''utf-8'')))
                         | _ \<Rightarrow> headers p ''content-type'')))"
    using jsonp_without_callback [OF q m s3, of p] by blast
  have st2: "statusCode r2 = 200" using r2(2) by (simp add: ev(2) evp)
  have 2: "\<exists>r'. jsonp example_env p JUndefined = Returned () r'
       \<and> headers r' ''x-content-type-options'' = None
       \<and> headers r' ''content-type'' = Some (JStr (lit ''text/plain''))
       \<and> ended r' = [End_with CUndefined None]"
    using r2(1,3,4) st2 ev(4) evp by (intro exI [of _ r2]) (simp add: ev(3) none_def)
  from 1 2 show ?thesis unfolding p_def by blast
qed

text \<open>
  The claim C8 as it stands fails on a response whose Content-Type is set: without a
  callback name, \<^verbatim>\<open>jsonp\<close> of the example object on a response with Content-Type
  \<^verbatim>\<open>text/plain\<close> ends with that type, to which \<^verbatim>\<open>send\<close> has added the charset, and
  without X-Content-Type-Options.
\<close>

theorem jsonp_without_callback_counterexample:
  "req_query example_env (jsonp_callback_name example_env) = JUndefined
   \<and> jsonp example_env (new_response\<lparr>headers := [''content-type'' \<mapsto> JStr (lit ''text/plain'')]\<rparr>)
        example_object
      = Returned ()
          \<lparr>statusCode = 200,
           headers = [''content-type'' \<mapsto> JStr (lit ''text/plain; charset=utf-8''),
                      ''content-length'' \<mapsto> JStr (lit ''7'')],
           ended = [End_with (CStr example_json) (Some Utf8)]\<rparr>
   \<and> [''content-type'' \<mapsto> JStr (lit ''text/plain; charset=utf-8''),
       ''content-length'' \<mapsto> JStr (lit ''7'')] ''x-content-type-options'' = None"
  by (simp add: jsonp_def stringify_def default_type_def get_def lower_names new_response_def
      type_def example_env_def example_builtins_def example_mime_def lit_def set_header_def
      header_def coerce_def send_chunk_def send_encode_def send_length_etag_def send_measure_def
      genETag_def content_type_value_def setHeader_def send_status_def send_end_def
      decimal.simps fun_upd_twist string_or_undefined_def example_json_def example_object_def)

subsection \<open>\<^verbatim>\<open>sendStatus\<close>\<close>

lemma String_of_status:
  assumes "100 \<le> c" and "c \<le> 999"
  shows "js_String E (JNum (Fin (of_int c))) = decimal (nat c)"
proof -
  have "nat c < 10 ^ 21" using assms by simp
  then have "js_String E (JNum (Fin (of_nat (nat c)))) = decimal (nat c)"
    by (rule String_of_length)
  moreover have "(of_nat (nat c) :: rat) = of_int c" using assms by simp
  ultimately show ?thesis by simp
qed

lemma status_valid:
  "100 \<le> c \<Longrightarrow> c \<le> 999 \<Longrightarrow>
     status r (JNum (Fin (of_int c))) = Returned () (r\<lparr>statusCode := c\<rparr>)"
  by (simp add: status_def)

lemma sendStatus_handoff:
  "(100 \<le> c \<and> c \<le> 999 \<longrightarrow>
      (\<exists>r'. sendStatus E r (JNum (Fin (of_int c))) =
           send E r'
             (JStr (case statuses_message E (JNum (Fin (of_int c))) of
                      Some m \<Rightarrow> if m \<noteq> [] then m else decimal (nat c)
                    | None \<Rightarrow> decimal (nat c)))
         \<and> statusCode r' = c
         \<and> headers r' ''content-type''
             = Some (content_type_value E
                 (case mime_contentType E (lit ''txt'') of
                    None \<Rightarrow> lit ''application/octet-stream''
                  | Some m \<Rightarrow> if m \<noteq> [] then m else lit ''application/octet-stream''))
         \<and> (\<forall>h. h \<noteq> ''content-type'' \<longrightarrow> headers r' h = headers r h)
         \<and> ended r' = ended r))
   \<and> (\<forall>e. status r code = Thrown e r \<longrightarrow> sendStatus E r code = Thrown e r)"
proof -
  have noslash: "0x2F \<notin> set (lit ''txt'')" by (simp add: lit_def)
  define ct where "ct = (case mime_contentType E (lit ''txt'') of
                    None \<Rightarrow> lit ''application/octet-stream''
                  | Some m \<Rightarrow> if m \<noteq> [] then m else lit ''application/octet-stream'')"
  have ty: "\<And>r1. type E r1 (lit ''txt'')
      = Returned () (setHeader r1 ''Content-Type'' (content_type_value E ct))"
    using noslash by (simp add: type_def ct_def set_header_content_type)
  have ok: "100 \<le> c \<and> c \<le> 999 \<longrightarrow>
      (\<exists>r'. sendStatus E r (JNum (Fin (of_int c))) =
           send E r'
             (JStr (case statuses_message E (JNum (Fin (of_int c))) of
                      Some m \<Rightarrow> if m \<noteq> [] then m else decimal (nat c)
                    | None \<Rightarrow> decimal (nat c)))
         \<and> statusCode r' = c
         \<and> headers r' ''content-type'' = Some (content_type_value E ct)
         \<and> (\<forall>h. h \<noteq> ''content-type'' \<longrightarrow> headers r' h = headers r h)
         \<and> ended r' = ended r)"
  proof
    assume c: "100 \<le> c \<and> c \<le> 999"
    then have s: "js_String E (JNum (Fin (of_int c))) = decimal (nat c)"
      by (simp add: String_of_status)
    let ?r' = "setHeader (r\<lparr>statusCode := c\<rparr>) ''Content-Type'' (content_type_value E ct)"
    have "sendStatus E r (JNum (Fin (of_int c))) =
           send E ?r'
             (JStr (case statuses_message E (JNum (Fin (of_int c))) of
                      Some m \<Rightarrow> if m \<noteq> [] then m else decimal (nat c)
                    | None \<Rightarrow> decimal (nat c)))"
      using c unfolding sendStatus_def Let_def s
      by (simp add: status_valid ty)
    then show "\<exists>r'. sendStatus E r (JNum (Fin (of_int c))) =
           send E r'
             (JStr (case statuses_message E (JNum (Fin (of_int c))) of
                      Some m \<Rightarrow> if m \<noteq> [] then m else decimal (nat c)
                    | None \<Rightarrow> decimal (nat c)))
         \<and> statusCode r' = c
         \<and> headers r' ''content-type'' = Some (content_type_value E ct)
         \<and> (\<forall>h. h \<noteq> ''content-type'' \<longrightarrow> headers r' h = headers r h)
         \<and> ended r' = ended r"
      by (intro exI [of _ ?r']) (simp add: setHeader_def lower_names)
  qed
  have bad: "\<forall>e. status r code = Thrown e r \<longrightarrow> sendStatus E r code = Thrown e r"
    by (simp add: sendStatus_def Let_def)
  from ok bad show ?thesis unfolding ct_def by blast
qed

text \<open>
  C10, as amended. Let \<open>ct\<close> be what \<^verbatim>\<open>type('txt')\<close> passes to \<^verbatim>\<open>set\<close>: the type the resolver
  of media types gives for \<^verbatim>\<open>txt\<close> (\<^verbatim>\<open>application/octet-stream\<close> if it gives none), and let
  the resolver know \<open>ct\<close> as \<open>t\<close>. For every integer \<open>c\<close> with \<open>100 \<le> c \<le> 999\<close>,
  \<^verbatim>\<open>sendStatus(c)\<close> returns; the status code ends as \<open>c\<close>, or as 304 when the request is
  fresh. Unless the final status is 204 or 304, Content-Type ends as \<open>t\<close> with the charset
  \<^verbatim>\<open>utf-8\<close> that \<^verbatim>\<open>send\<close> adds; with 204 or 304 there is no Content-Type. Unless the method
  is HEAD (nothing is written) or the final status is 204, 205 or 304 (the empty string is
  written), what is written is the reason phrase \<^verbatim>\<open>statuses.message[c]\<close>, or, when there is
  no phrase, \<open>c\<close> in decimal digits: as a string, or as the buffer \<^verbatim>\<open>Buffer.from\<close> makes of
  it when an ETag is to be generated or it has 1000 code units or more. No header other
  than Content-Type, Content-Length, Transfer-Encoding and ETag changes. For an argument
  that is not an integer \<^verbatim>\<open>sendStatus\<close> throws the TypeError of \<^verbatim>\<open>status\<close>, for an integer
  outside \<open>100..999\<close> its RangeError, and the context is as it was.
\<close>

theorem sendStatus_contract:
  assumes "100 \<le> c" and "c \<le> 999"
    and "ct = (case mime_contentType E (lit ''txt'') of
                 None \<Rightarrow> lit ''application/octet-stream''
               | Some m \<Rightarrow> if m \<noteq> [] then m else lit ''application/octet-stream'')"
    and "mime_contentType E ct = Some t" and "t \<noteq> []"
    and "phrase = (case statuses_message E (JNum (Fin (of_int c))) of
                     Some m \<Rightarrow> if m \<noteq> [] then m else decimal (nat c)
                   | None \<Rightarrow> decimal (nat c))"
  shows "(\<exists>r'. sendStatus E r (JNum (Fin (of_int c))) = Returned () r'
       \<and> statusCode r' = (if req_fresh E then 304 else c)
       \<and> (statusCode r' = 204 \<or> statusCode r' = 304 \<longrightarrow> headers r' ''content-type'' = None)
       \<and> (statusCode r' \<noteq> 204 \<and> statusCode r' \<noteq> 304 \<longrightarrow>
            headers r' ''content-type''
              = Some (content_type_value E (setCharset E t (lit ''utf-8''))))
       \<and> (req_method E = lit ''HEAD'' \<longrightarrow> ended r' = ended r @ [End])
       \<and> (req_method E \<noteq> lit ''HEAD''
            \<and> (statusCode r' = 204 \<or> statusCode r' = 205 \<or> statusCode r' = 304) \<longrightarrow>
            (\<exists>enc. ended r' = ended r @ [End_with (CStr []) enc]))
       \<and> (req_method E \<noteq> lit ''HEAD''
            \<and> statusCode r' \<noteq> 204 \<and> statusCode r' \<noteq> 205 \<and> statusCode r' \<noteq> 304 \<longrightarrow>
            ended r' = ended r @
              [if genETag E r \<or> 1000 \<le> length phrase
               then End_with (CBuffer (Buffer_from E (CStr phrase) (Some Utf8))) None
               else End_with (CStr phrase) (Some Utf8)])
       \<and> (\<forall>h. h \<noteq> ''content-type'' \<and> h \<noteq> ''content-length'' \<and> h \<noteq> ''transfer-encoding''
                \<and> h \<noteq> ''etag'' \<longrightarrow> headers r' h = headers r h))
   \<and> (\<not> Number_isInteger code \<longrightarrow>
        sendStatus E r code
          = Thrown (new_error TypeError
              [Txt ''Invalid status code: '', JsonOf code, Txt ''. Must be integer.'']) r)
   \<and> (Number_isInteger code \<and> (integer_value code < 100 \<or> integer_value code > 999) \<longrightarrow>
        sendStatus E r code
          = Thrown (new_error RangeError
              [Txt ''Invalid status code: '', JsonOf code, Txt ''. Must be 100-999.'']) r)"
proof -
  have c: "100 \<le> c \<and> c \<le> 999" using assms(1,2) by simp
  obtain r0 where r0: "sendStatus E r (JNum (Fin (of_int c))) = send E r0 (JStr phrase)"
    "statusCode r0 = c"
    "headers r0 ''content-type'' = Some (content_type_value E ct)"
    "\<forall>h. h \<noteq> ''content-type'' \<longrightarrow> headers r0 h = headers r h"
    "ended r0 = ended r"
    using sendStatus_handoff [of c E r code] c unfolding assms(3,6) by blast
  have h0: "headers r0 ''content-type'' = Some (JStr t)"
    using r0(3) by (simp add: content_type_value_def assms(4))
  have et: "headers r0 ''etag'' = headers r ''etag''" using r0(4) by simp
  have g: "genETag E r0 = genETag E r" using et by (rule genETag_same_etag)
  define st where "st = (if req_fresh E then 304 else statusCode r0)"
  define big where "big = (genETag E r0 \<or> 1000 \<le> length phrase)"
  obtain r' where r': "send E r0 (JStr phrase) = Returned () r'"
    "statusCode r' = st"
    "ended r' = ended r0 @
          [if req_method E = lit ''HEAD'' then End
           else if st = 204 \<or> st = 205 \<or> st = 304
             then End_with (CStr []) (if big then None else Some Utf8)
           else if big then End_with (CBuffer (Buffer_from E (CStr phrase) (Some Utf8))) None
           else End_with (CStr phrase) (Some Utf8)]"
    "headers r' ''content-type''
         = (if st = 204 \<or> st = 304 then None
            else Some (content_type_value E (setCharset E t (lit ''utf-8''))))"
    "\<forall>h. h \<noteq> ''content-type'' \<and> h \<noteq> ''content-length'' \<and> h \<noteq> ''transfer-encoding''
              \<and> h \<noteq> ''etag'' \<longrightarrow> headers r' h = headers r0 h"
    using send_string_typed [OF h0 assms(5) st_def big_def] by blast
  have s: "statusCode r' = (if req_fresh E then 304 else c)"
    using r'(2) by (simp add: st_def r0(2))
  have t0: "statusCode r' = 204 \<or> statusCode r' = 304 \<longrightarrow> headers r' ''content-type'' = None"
    unfolding r'(2,4) by simp
  have t1: "statusCode r' \<noteq> 204 \<and> statusCode r' \<noteq> 304 \<longrightarrow>
            headers r' ''content-type''
              = Some (content_type_value E (setCharset E t (lit ''utf-8'')))"
    unfolding r'(2,4) by simp
  have e1: "req_method E = lit ''HEAD'' \<longrightarrow> ended r' = ended r @ [End]"
    using r'(3) by (simp add: r0(5))
  have e2: "req_method E \<noteq> lit ''HEAD''
            \<and> (statusCode r' = 204 \<or> statusCode r' = 205 \<or> statusCode r' = 304) \<longrightarrow>
            (\<exists>enc. ended r' = ended r @ [End_with (CStr []) enc])"
    unfolding r'(2,3) r0(5) by auto
  have e3: "req_method E \<noteq> lit ''HEAD''
            \<and> statusCode r' \<noteq> 204 \<and> statusCode r' \<noteq> 205 \<and> statusCode r' \<noteq> 304 \<longrightarrow>
            ended r' = ended r @
              [if genETag E r \<or> 1000 \<le> length phrase
               then End_with (CBuffer (Buffer_from E (CStr phrase) (Some Utf8))) None
               else End_with (CStr phrase) (Some Utf8)]"
    unfolding r'(2,3) r0(5) big_def g by auto
  have fr: "\<forall>h. h \<noteq> ''content-type'' \<and> h \<noteq> ''content-length'' \<and> h \<noteq> ''transfer-encoding''
                \<and> h \<noteq> ''etag'' \<longrightarrow> headers r' h = headers r h"
    using r'(5) r0(4) by simp
  have ok: "\<exists>r'. sendStatus E r (JNum (Fin (of_int c))) = Returned () r'
       \<and> statusCode r' = (if req_fresh E then 304 else c)
       \<and> (statusCode r' = 204 \<or> statusCode r' = 304 \<longrightarrow> headers r' ''content-type'' = None)
       \<and> (statusCode r' \<noteq> 204 \<and> statusCode r' \<noteq> 304 \<longrightarrow>
            headers r' ''content-type''
              = Some (content_type_value E (setCharset E t (lit ''utf-8''))))
       \<and> (req_method E = lit ''HEAD'' \<longrightarrow> ended r' = ended r @ [End])
       \<and> (req_method E \<noteq> lit ''HEAD''
            \<and> (statusCode r' = 204 \<or> statusCode r' = 205 \<or> statusCode r' = 304) \<longrightarrow>
            (\<exists>enc. ended r' = ended r @ [End_with (CStr []) enc]))
       \<and> (req_method E \<noteq> lit ''HEAD''
            \<and> statusCode r' \<noteq> 204 \<and> statusCode r' \<noteq> 205 \<and> statusCode r' \<noteq> 304 \<longrightarrow>
            ended r' = ended r @
              [if genETag E r \<or> 1000 \<le> length phrase
               then End_with (CBuffer (Buffer_from E (CStr phrase) (Some Utf8))) None
               else End_with (CStr phrase) (Some Utf8)])
       \<and> (\<forall>h. h \<noteq> ''content-type'' \<and> h \<noteq> ''content-length'' \<and> h \<noteq> ''transfer-encoding''
                \<and> h \<noteq> ''etag'' \<longrightarrow> headers r' h = headers r h)"
    unfolding r0(1)
    using r'(1) s t0 t1 e1 e2 e3 fr by (intro exI [of _ r']) blast
  have b1: "\<not> Number_isInteger code \<longrightarrow>
        sendStatus E r code
          = Thrown (new_error TypeError
              [Txt ''Invalid status code: '', JsonOf code, Txt ''. Must be integer.'']) r"
    by (simp add: sendStatus_def Let_def status_def)
  have b2: "Number_isInteger code \<and> (integer_value code < 100 \<or> integer_value code > 999) \<longrightarrow>
        sendStatus E r code
          = Thrown (new_error RangeError
              [Txt ''Invalid status code: '', JsonOf code, Txt ''. Must be 100-999.'']) r"
    by (simp add: sendStatus_def Let_def status_def)
  from ok b1 b2 show ?thesis by blast
qed

theorem sendStatus_contract_witness:
  "(\<exists>r'. sendStatus example_env new_response (JNum (Fin 404)) = Returned () r'
        \<and> statusCode r' = 404
        \<and> headers r' ''content-type'' = Some (JStr (lit ''text/plain; charset=utf-8''))
        \<and> ended r' = [End_with (CStr (lit ''Not Found'')) (Some Utf8)])
   \<and> (\<exists>r'. sendStatus example_env new_response (JNum (Fin 299)) = Returned () r'
        \<and> statusCode r' = 299
        \<and> ended r' = [End_with (CStr (lit ''299'')) (Some Utf8)])
   \<and> sendStatus example_env new_response (JStr (lit ''200''))
       = Thrown (new_error TypeError
           [Txt ''Invalid status code: '', JsonOf (JStr (lit ''200'')), Txt ''. Must be integer.''])
           new_response
   \<and> sendStatus example_env new_response (JNum (Fin 1000))
       = Thrown (new_error RangeError
           [Txt ''Invalid status code: '', JsonOf (JNum (Fin 1000)), Txt ''. Must be 100-999.''])
           new_response"
proof -
  let ?t = "lit ''text/plain; charset=utf-8''"
  have ct: "?t = (case mime_contentType example_env (lit ''txt'') of
                 None \<Rightarrow> lit ''application/octet-stream''
               | Some m \<Rightarrow> if m \<noteq> [] then m else lit ''application/octet-stream'')"
    by (simp add: example_env_def example_builtins_def example_mime_def lit_def)
  have m: "mime_contentType example_env ?t = Some ?t" "?t \<noteq> []"
    by (simp_all add: example_env_def example_builtins_def example_mime_def lit_def)
  have p404: "lit ''Not Found'' = (case statuses_message example_env (JNum (Fin (of_int 404))) of
                     Some m \<Rightarrow> if m \<noteq> [] then m else decimal (nat 404)
                   | None \<Rightarrow> decimal (nat 404))"
    by (simp add: example_env_def example_builtins_def example_statuses_def lit_def)
  have p299: "lit ''299'' = (case statuses_message example_env (JNum (Fin (of_int 299))) of
                     Some m \<Rightarrow> if m \<noteq> [] then m else decimal (nat 299)
                   | None \<Rightarrow> decimal (nat 299))"
    by (simp add: example_env_def example_builtins_def example_statuses_def lit_def decimal.simps)
  have ev: "genETag example_env new_response = False"
    "req_fresh example_env = False" "req_method example_env = lit ''GET''"
    "lit ''GET'' \<noteq> lit ''HEAD''"
    "\<not> 1000 \<le> length (lit ''Not Found'')" "\<not> 1000 \<le> length (lit ''299'')"
    "ended new_response = []"
    "content_type_value example_env (setCharset example_env ?t (lit ''utf-8'')) = JStr ?t"
    by (simp_all add: genETag_def example_env_def example_builtins_def get_def lower_names
        new_response_def lit_def content_type_value_def example_mime_def)
  have n: "\<not> Number_isInteger (JStr (lit ''200''))"
    "Number_isInteger (JNum (Fin 1000))
     \<and> (integer_value (JNum (Fin 1000)) < 100 \<or> integer_value (JNum (Fin 1000)) > 999)"
  proof -
    show "\<not> Number_isInteger (JStr (lit ''200''))" by simp
    have "Number_isInteger (JNum (Fin (of_int 1000)))
     \<and> (integer_value (JNum (Fin (of_int 1000))) < 100
         \<or> integer_value (JNum (Fin (of_int 1000))) > 999)"
      by (simp only: Number_isInteger_of_int integer_value_of_int) simp
    then show "Number_isInteger (JNum (Fin 1000))
     \<and> (integer_value (JNum (Fin 1000)) < 100 \<or> integer_value (JNum (Fin 1000)) > 999)"
      by simp
  qed
  have c4: "(100::int) \<le> 404" "(404::int) \<le> 999" "(100::int) \<le> 299" "(299::int) \<le> 999"
    by simp_all
  obtain r1 where r1: "sendStatus example_env new_response (JNum (Fin (of_int 404))) = Returned () r1"
    "statusCode r1 = (if req_fresh example_env then 304 else 404)"
    "statusCode r1 \<noteq> 204 \<and> statusCode r1 \<noteq> 304 \<longrightarrow>
            headers r1 ''content-type''
              = Some (content_type_value example_env (setCharset example_env ?t (lit ''utf-8'')))"
    "req_method example_env \<noteq> lit ''HEAD''
            \<and> statusCode r1 \<noteq> 204 \<and> statusCode r1 \<noteq> 205 \<and> statusCode r1 \<noteq> 304 \<longrightarrow>
            ended r1 = ended new_response @
              [if genETag example_env new_response \<or> 1000 \<le> length (lit ''Not Found'')
               then End_with (CBuffer (Buffer_from example_env (CStr (lit ''Not Found'')) (Some Utf8))) None
               else End_with (CStr (lit ''Not Found'')) (Some Utf8)]"
    using sendStatus_contract [OF c4(1,2) ct m p404, of new_response JNull] by blast
  have st1: "statusCode r1 = 404" using r1(2) by (simp add: ev(2))
  have 1: "\<exists>r'. sendStatus example_env new_response (JNum (Fin 404)) = Returned () r'
        \<and> statusCode r' = 404
        \<and> headers r' ''content-type'' = Some (JStr ?t)
        \<and> ended r' = [End_with (CStr (lit ''Not Found'')) (Some Utf8)]"
    using r1(1,3,4) st1 ev(1,4,5,7,8) by (intro exI [of _ r1]) (simp add: ev(3))
  obtain r2 where r2: "sendStatus example_env new_response (JNum (Fin (of_int 299))) = Returned () r2"
    "statusCode r2 = (if req_fresh example_env then 304 else 299)"
    "req_method example_env \<noteq> lit ''HEAD''
            \<and> statusCode r2 \<noteq> 204 \<and> statusCode r2 \<noteq> 205 \<and> statusCode r2 \<noteq> 304 \<longrightarrow>
            ended r2 = ended new_response @
              [if genETag example_env new_response \<or> 1000 \<le> length (lit ''299'')
               then End_with (CBuffer (Buffer_from example_env (CStr (lit ''299'')) (Some Utf8))) None
               else End_with (CStr (lit ''299'')) (Some Utf8)]"
    using sendStatus_contract [OF c4(3,4) ct m p299, of new_response JNull] by blast
  have st2: "statusCode r2 = 299" using r2(2) by (simp add: ev(2))
  have 2: "\<exists>r'. sendStatus example_env new_response (JNum (Fin 299)) = Returned () r'
        \<and> statusCode r' = 299
        \<and> ended r' = [End_with (CStr (lit ''299'')) (Some Utf8)]"
    using r2(1,3) st2 ev(1,4,6,7) by (intro exI [of _ r2]) (simp add: ev(3))
  have 3: "sendStatus example_env new_response (JStr (lit ''200''))
       = Thrown (new_error TypeError
           [Txt ''Invalid status code: '', JsonOf (JStr (lit ''200'')), Txt ''. Must be integer.''])
           new_response"
    using sendStatus_contract [OF c4(1,2) ct m p404, of new_response "JStr (lit ''200'')"] n(1)
    by blast
  have 4: "sendStatus example_env new_response (JNum (Fin 1000))
       = Thrown (new_error RangeError
           [Txt ''Invalid status code: '', JsonOf (JNum (Fin 1000)), Txt ''. Must be 100-999.''])
           new_response"
    using sendStatus_contract [OF c4(1,2) ct m p404, of new_response "JNum (Fin 1000)"] n(2)
    by blast
  from 1 2 3 4 show ?thesis by blast
qed

text \<open>
  The claim C10 as it stands fails for the status 204: \<^verbatim>\<open>sendStatus(204)\<close> ends without
  Content-Type and with the empty string as body, not the reason phrase.
\<close>

theorem sendStatus_contract_counterexample:
  "statuses_message example_env (JNum (Fin 204)) = Some (lit ''No Content'')
   \<and> sendStatus example_env new_response (JNum (Fin 204))
     = Returned () \<lparr>statusCode = 204, headers = (\<lambda>_. None), ended = [End_with (CStr []) (Some Utf8)]\<rparr>"
  by (simp add: sendStatus_def status_def example_statuses_def default_type_def get_def
      lower_names new_response_def type_def example_env_def example_builtins_def
      example_mime_def lit_def set_header_def header_def coerce_def send_chunk_def
      send_encode_def send_length_etag_def send_measure_def genETag_def
      content_type_value_def setHeader_def removeHeader_def send_status_def send_end_def
      decimal.simps fun_upd_twist fun_eq_iff)

subsection \<open>\<^verbatim>\<open>sendfile\<close>\<close>

text \<open>
  The invariant of a session: the callback was called once if \<^verbatim>\<open>done\<close> is set, and
  never if it is not.
\<close>

lemma step_invariant:
  assumes "if done_flag s then length (calls s) = 1 else calls s = []"
  shows "if done_flag (step ev s) then length (calls (step ev s)) = 1
         else calls (step ev s) = []"
proof (cases ev)
  case Directory
  with assms show ?thesis by (simp add: ondirectory_def split: if_splits)
next
  case End_of_stream
  with assms show ?thesis by (simp add: onend_def split: if_splits)
next
  case (Stream_error err)
  with assms show ?thesis by (simp add: onerror_def split: if_splits)
next
  case File
  with assms show ?thesis by (simp add: onfile_def split: if_splits)
next
  case Stream
  with assms show ?thesis by (simp add: onstream_def split: if_splits)
next
  case (Finish err)
  with assms show ?thesis
    by (cases err) (simp_all add: onfinish_def onaborted_def onerror_def split: if_splits)
next
  case Immediate
  with assms show ?thesis
    by (simp add: deferred_check_def onaborted_def split: if_splits)
qed

lemma run_invariant:
  assumes "if done_flag s then length (calls s) = 1 else calls s = []"
  shows "if done_flag (run evs s) then length (calls (run evs s)) = 1
         else calls (run evs s) = []"
  using assms
proof (induction evs arbitrary: s)
  case Nil
  then show ?case by (simp add: run_def)
next
  case (Cons ev evs)
  have "run (ev # evs) s = run evs (step ev s)" by (simp add: run_def)
  then show ?case using Cons.IH [OF step_invariant [OF Cons.prems]] by simp
qed

lemma sendFile_callback_length: "length (sendFile_callback done err) \<le> 1"
  by (simp add: sendFile_callback_def split: option.split)

text \<open>
  C3. Whatever events reach a session of \<^verbatim>\<open>sendfile\<close>, in whatever order and however
  often (the events \<^verbatim>\<open>directory\<close>, \<^verbatim>\<open>end\<close>, \<^verbatim>\<open>error\<close>, \<^verbatim>\<open>file\<close> and \<^verbatim>\<open>stream\<close> of
  the streamer, the finish of the connection with or without an error, and the runs of
  the deferred checks), the callback of the session is called at most once; and so the
  function \<^verbatim>\<open>sendFile\<close> gives as that callback calls the callback of the caller, or
  \<^verbatim>\<open>next\<close>, at most once.
\<close>

theorem callback_at_most_once:
  "length (calls (run evs new_session)) \<le> 1
   \<and> length (concat (map (sendFile_callback done) (calls (run evs new_session)))) \<le> 1"
proof -
  have "if done_flag new_session then length (calls new_session) = 1
        else calls new_session = []"
    by (simp add: new_session_def)
  then have "if done_flag (run evs new_session)
             then length (calls (run evs new_session)) = 1
             else calls (run evs new_session) = []"
    by (rule run_invariant)
  then have once: "length (calls (run evs new_session)) \<le> 1"
    by (simp split: if_splits)
  then have "calls (run evs new_session) = []
      \<or> (\<exists>err. calls (run evs new_session) = [err])"
    by (cases "calls (run evs new_session)") auto
  then have "length (concat (map (sendFile_callback done) (calls (run evs new_session)))) \<le> 1"
    using sendFile_callback_length by auto
  with once show ?thesis by simp
qed

lemma sendFile_session:
  "sendFile E filePath options cb = Inr d \<Longrightarrow> dl_session d = new_session"
  by (auto simp add: sendFile_def Let_def split: if_splits jsval.splits)

lemma run_directory:
  "calls (run [Directory] new_session)
     = [Some (error_with_code ''EISDIR, read'' ''EISDIR'')]"
  by (simp add: run_def ondirectory_def new_session_def)

text \<open>
  C6. When \<^verbatim>\<open>sendFile\<close> got no callback, the function it gives to \<^verbatim>\<open>sendfile\<close> does
  nothing when it is called without an error; calls \<^verbatim>\<open>next\<close> without argument for an
  error with the code EISDIR; does nothing for an error that is not an EISDIR and has the
  code ECONNABORTED or the syscall \<^verbatim>\<open>write\<close>; and calls \<^verbatim>\<open>next\<close> with the error for every
  other error. A delivery started without a callback has none, and when its streamer
  reports a directory, all it does is to call \<^verbatim>\<open>next\<close> without argument.
\<close>

theorem sendFile_default_policy:
  "sendFile_callback None None = []
   \<and> (err_code e = Some (lit ''EISDIR'') \<longrightarrow> sendFile_callback None (Some e) = [Next None])
   \<and> (err_code e \<noteq> Some (lit ''EISDIR'')
        \<and> (err_code e = Some (lit ''ECONNABORTED'') \<or> err_syscall e = Some (lit ''write'')) \<longrightarrow>
        sendFile_callback None (Some e) = [])
   \<and> (err_code e \<noteq> Some (lit ''EISDIR'') \<and> err_code e \<noteq> Some (lit ''ECONNABORTED'')
        \<and> err_syscall e \<noteq> Some (lit ''write'') \<longrightarrow>
        sendFile_callback None (Some e) = [Next (Some e)])
   \<and> ((options = No_options \<or> (\<exists>m. options = Options m))
        \<and> sendFile E filePath options None = Inr d \<longrightarrow>
        dl_done d = None \<and> effects d [Directory] = [Next None])"
proof -
  have 1: "sendFile_callback None None = []"
    by (simp add: sendFile_callback_def)
  have 2: "err_code e = Some (lit ''EISDIR'') \<longrightarrow> sendFile_callback None (Some e) = [Next None]"
    by (simp add: sendFile_callback_def)
  have 3: "err_code e \<noteq> Some (lit ''EISDIR'')
        \<and> (err_code e = Some (lit ''ECONNABORTED'') \<or> err_syscall e = Some (lit ''write'')) \<longrightarrow>
        sendFile_callback None (Some e) = []"
    by (auto simp add: sendFile_callback_def)
  have 4: "err_code e \<noteq> Some (lit ''EISDIR'') \<and> err_code e \<noteq> Some (lit ''ECONNABORTED'')
        \<and> err_syscall e \<noteq> Some (lit ''write'') \<longrightarrow>
        sendFile_callback None (Some e) = [Next (Some e)]"
    by (simp add: sendFile_callback_def)
  have 5: "(options = No_options \<or> (\<exists>m. options = Options m))
        \<and> sendFile E filePath options None = Inr d \<longrightarrow>
        dl_done d = None \<and> effects d [Directory] = [Next None]"
  proof
    assume a: "(options = No_options \<or> (\<exists>m. options = Options m))
        \<and> sendFile E filePath options None = Inr d"
    then have s: "dl_session d = new_session" using sendFile_session by blast
    have dn: "dl_done d = None"
      using a by (auto simp add: sendFile_def Let_def split: if_splits jsval.splits)
    have "effects d [Directory] = [Next None]"
      by (simp add: effects_def s dn run_directory sendFile_callback_def error_with_code_def
          new_error_def)
    with dn show "dl_done d = None \<and> effects d [Directory] = [Next None]" by simp
  qed
  from 1 2 3 4 5 show ?thesis by blast
qed

theorem sendFile_default_policy_witness:
  "sendFile_callback None (Some (error_with_code ''EISDIR, read'' ''EISDIR'')) = [Next None]
   \<and> sendFile_callback None (Some (error_with_code ''Request aborted'' ''ECONNABORTED'')) = []
   \<and> sendFile_callback None
        (Some ((error_with_code ''write EPIPE'' ''EPIPE'')\<lparr>err_syscall := Some (lit ''write'')\<rparr>)) = []
   \<and> sendFile_callback None (Some (error_with_code ''no such file'' ''ENOENT''))
        = [Next (Some (error_with_code ''no such file'' ''ENOENT''))]
   \<and> (\<exists>d. sendFile example_env (JStr (lit ''/srv/public'')) No_options None = Inr d
          \<and> dl_done d = None \<and> effects d [Directory] = [Next None])"
proof -
  let ?dir = "error_with_code ''EISDIR, read'' ''EISDIR''"
  let ?abort = "error_with_code ''Request aborted'' ''ECONNABORTED''"
  let ?pipe = "(error_with_code ''write EPIPE'' ''EPIPE'')\<lparr>err_syscall := Some (lit ''write'')\<rparr>"
  let ?noent = "error_with_code ''no such file'' ''ENOENT''"
  let ?d = "\<lparr>dl_pathname = lit ''/srv/public'', dl_options = [''etag'' \<mapsto> JBool True],
            dl_done = None, dl_session = new_session\<rparr>"
  have s: "sendFile example_env (JStr (lit ''/srv/public'')) No_options None = Inr ?d"
    by (simp add: sendFile_def example_env_def example_builtins_def option_value_def lit_def)
  have 1: "sendFile_callback None (Some ?dir) = [Next None]"
    using sendFile_default_policy [where e = ?dir]
    by (simp add: error_with_code_def)
  have 2: "sendFile_callback None (Some ?abort) = []"
    using sendFile_default_policy [where e = ?abort]
    by (simp add: error_with_code_def lit_def)
  have 3: "sendFile_callback None (Some ?pipe) = []"
    using sendFile_default_policy [where e = ?pipe]
    by (simp add: error_with_code_def lit_def)
  have 4: "sendFile_callback None (Some ?noent) = [Next (Some ?noent)]"
    using sendFile_default_policy [where e = ?noent]
    by (simp add: error_with_code_def new_error_def lit_def)
  have 5: "dl_done ?d = None \<and> effects ?d [Directory] = [Next None]"
    using sendFile_default_policy [where options = No_options and E = example_env
        and filePath = "JStr (lit ''/srv/public'')" and d = ?d] s
    by simp
  from 1 2 3 4 5 s show ?thesis by blast
qed

lemma aborted_stream_example:
  "calls (run [Stream, Finish None, Immediate, End_of_stream, Finish None] new_session)
     = [Some (error_with_code ''Request aborted'' ''ECONNABORTED'')]"
  by (simp add: run_def new_session_def onstream_def onfinish_def deferred_check_def
      onaborted_def onend_def)

lemma sent_file_example:
  "calls (run [File, End_of_stream, Finish None, Immediate] new_session) = [None]"
  by (simp add: run_def new_session_def onfile_def onfinish_def deferred_check_def
      onaborted_def onend_def)

subsection \<open>\<^verbatim>\<open>format\<close>\<close>

lemma vary_headers:
  "headers (vary E r field) ''vary''
     = (if vary_append E (get r ''Vary'') field \<noteq> []
        then Some (JStr (vary_append E (get r ''Vary'') field)) else headers r ''vary'')"
  "h \<noteq> ''vary'' \<Longrightarrow> headers (vary E r field) h = headers r h"
  "statusCode (vary E r field) = statusCode r"
  "ended (vary E r field) = ended r"
  by (simp_all add: vary_def Let_def setHeader_def lower_names)

text \<open>
  C5. Let \<open>keys\<close> be the keys of the table other than \<^verbatim>\<open>default\<close>. In each of its three
  outcomes \<^verbatim>\<open>format\<close> has first applied \<^verbatim>\<open>vary\<close> with the field Accept to the context,
  which sets the header Vary to what the library computes from its present value and
  Accept. If \<^verbatim>\<open>req.accepts\<close> gives one of the keys, Content-Type is set to the normalized
  type of that key and the handler of the key is called. If it gives none (or there are
  no keys) and the table has a handler for \<^verbatim>\<open>default\<close>, that handler is called. If it
  has none, \<^verbatim>\<open>format\<close> does not throw: it calls \<^verbatim>\<open>next\<close> with an error of status 406 that
  carries the normalized types of the keys.
\<close>

theorem format_negotiation:
  assumes "keys = filter (\<lambda>v. v \<noteq> lit ''default'') (map fst obj)"
  shows "(req_accepts E keys = Some k \<and> k \<noteq> [] \<and> k \<in> set keys \<longrightarrow>
            (\<exists>h. map_of obj k = Some h
               \<and> format E r obj =
                   Returned (Call h None)
                     (setHeader (vary E r (lit ''Accept'')) ''Content-Type''
                        (content_type_value E (normalizeType E k)))))
       \<and> ((keys = [] \<or> req_accepts E keys = None \<or> req_accepts E keys = Some [])
            \<and> map_of obj (lit ''default'') = Some d \<longrightarrow>
            format E r obj = Returned (Call d None) (vary E r (lit ''Accept'')))
       \<and> ((keys = [] \<or> req_accepts E keys = None \<or> req_accepts E keys = Some [])
            \<and> map_of obj (lit ''default'') = None \<longrightarrow>
            format E r obj =
              Returned (Next (Some (createError 406 (normalizeTypes E keys))))
                (vary E r (lit ''Accept'')))
       \<and> err_class (createError 406 (normalizeTypes E keys)) = HttpError 406
       \<and> err_types (createError 406 (normalizeTypes E keys)) = Some (normalizeTypes E keys)
       \<and> headers (vary E r (lit ''Accept'')) ''vary''
           = (if vary_append E (get r ''Vary'') (lit ''Accept'') \<noteq> []
              then Some (JStr (vary_append E (get r ''Vary'') (lit ''Accept'')))
              else headers r ''vary'')
       \<and> (\<forall>h. h \<noteq> ''vary'' \<longrightarrow> headers (vary E r (lit ''Accept'')) h = headers r h)"
proof -
  have 1: "req_accepts E keys = Some k \<and> k \<noteq> [] \<and> k \<in> set keys \<longrightarrow>
            (\<exists>h. map_of obj k = Some h
               \<and> format E r obj =
                   Returned (Call h None)
                     (setHeader (vary E r (lit ''Accept'')) ''Content-Type''
                        (content_type_value E (normalizeType E k))))"
  proof
    assume a: "req_accepts E keys = Some k \<and> k \<noteq> [] \<and> k \<in> set keys"
    then have "k \<in> fst ` set obj" using assms by auto
    then obtain h where h: "map_of obj k = Some h"
      by (metis map_of_eq_None_iff not_Some_eq)
    have ne: "keys \<noteq> []" using a by auto
    have "format E r obj =
        Returned (Call h None)
          (setHeader (vary E r (lit ''Accept'')) ''Content-Type''
             (content_type_value E (normalizeType E k)))"
      using a ne h
      by (simp add: format_def Let_def assms [symmetric] set_header_content_type)
    with h show "\<exists>h. map_of obj k = Some h
               \<and> format E r obj =
                   Returned (Call h None)
                     (setHeader (vary E r (lit ''Accept'')) ''Content-Type''
                        (content_type_value E (normalizeType E k)))"
      by blast
  qed
  have 2: "(keys = [] \<or> req_accepts E keys = None \<or> req_accepts E keys = Some [])
            \<and> map_of obj (lit ''default'') = Some d \<longrightarrow>
            format E r obj = Returned (Call d None) (vary E r (lit ''Accept''))"
    by (auto simp add: format_def Let_def assms [symmetric])
  have 3: "(keys = [] \<or> req_accepts E keys = None \<or> req_accepts E keys = Some [])
            \<and> map_of obj (lit ''default'') = None \<longrightarrow>
            format E r obj =
              Returned (Next (Some (createError 406 (normalizeTypes E keys))))
                (vary E r (lit ''Accept''))"
    by (auto simp add: format_def Let_def assms [symmetric])
  have 4: "err_class (createError 406 (normalizeTypes E keys)) = HttpError 406
       \<and> err_types (createError 406 (normalizeTypes E keys)) = Some (normalizeTypes E keys)"
    by (simp add: createError_def new_error_def)
  have 5: "\<forall>h. h \<noteq> ''vary'' \<longrightarrow> headers (vary E r (lit ''Accept'')) h = headers r h"
    by (simp add: vary_headers)
  have 6: "headers (vary E r (lit ''Accept'')) ''vary''
           = (if vary_append E (get r ''Vary'') (lit ''Accept'') \<noteq> []
              then Some (JStr (vary_append E (get r ''Vary'') (lit ''Accept'')))
              else headers r ''vary'')"
    by (rule vary_headers(1))
  from 1 2 3 4 5 6 show ?thesis by blast
qed


theorem format_negotiation_witness:
  "format (example_env\<lparr>req_accepts := (\<lambda>types. if lit ''json'' \<in> set types
                                              then Some (lit ''json'') else None)\<rparr>)
      new_response [(lit ''json'', Handler 1), (lit ''default'', Handler 2)]
     = Returned (Call (Handler 1) None)
         (new_response\<lparr>headers := [''vary'' \<mapsto> JStr (lit ''Accept''),
            ''content-type'' \<mapsto> JStr (lit ''application/json; charset=utf-8'')]\<rparr>)
   \<and> format example_env new_response [(lit ''json'', Handler 1), (lit ''default'', Handler 2)]
     = Returned (Call (Handler 2) None)
         (new_response\<lparr>headers := [''vary'' \<mapsto> JStr (lit ''Accept'')]\<rparr>)
   \<and> format example_env new_response [(lit ''json'', Handler 1)]
     = Returned (Next (Some (createError 406 [lit ''application/json''])))
         (new_response\<lparr>headers := [''vary'' \<mapsto> JStr (lit ''Accept'')]\<rparr>)"
proof -
  let ?E = "example_env\<lparr>req_accepts := (\<lambda>types. if lit ''json'' \<in> set types
                                              then Some (lit ''json'') else None)\<rparr>"
  let ?both = "[(lit ''json'', Handler 1), (lit ''default'', Handler 2)]"
  let ?one = "[(lit ''json'', Handler 1)]"
  let ?varied = "new_response\<lparr>headers := [''vary'' \<mapsto> JStr (lit ''Accept'')]\<rparr>"
  have k2: "[lit ''json''] = filter (\<lambda>v. v \<noteq> lit ''default'') (map fst ?both)"
    by (simp add: lit_def)
  have k1: "[lit ''json''] = filter (\<lambda>v. v \<noteq> lit ''default'') (map fst ?one)"
    by (simp add: lit_def)
  have v: "vary ?E new_response (lit ''Accept'') = ?varied"
    "vary example_env new_response (lit ''Accept'') = ?varied"
    by (simp_all add: vary_def example_env_def example_builtins_def setHeader_def lower_names
        new_response_def get_def lit_def)
  have c: "setHeader ?varied ''Content-Type'' (content_type_value ?E (normalizeType ?E (lit ''json'')))
      = new_response\<lparr>headers := [''vary'' \<mapsto> JStr (lit ''Accept''),
            ''content-type'' \<mapsto> JStr (lit ''application/json; charset=utf-8'')]\<rparr>"
    by (simp add: content_type_value_def example_env_def example_builtins_def example_mime_def
        lit_def setHeader_def lower_names new_response_def)
  have n: "normalizeTypes example_env [lit ''json''] = [lit ''application/json'']"
    by (simp add: example_env_def example_builtins_def example_mime_def lit_def)
  have d: "map_of ?both (lit ''default'') = Some (Handler 2)" "map_of ?one (lit ''default'') = None"
    "map_of ?both (lit ''json'') = Some (Handler 1)"
    by (simp_all add: lit_def)
  have p1: "req_accepts ?E [lit ''json''] = Some (lit ''json'') \<and> lit ''json'' \<noteq> []
      \<and> lit ''json'' \<in> set [lit ''json'']"
    by (simp add: lit_def)
  have p2: "([lit ''json''] = [] \<or> req_accepts example_env [lit ''json''] = None
       \<or> req_accepts example_env [lit ''json''] = Some [])
      \<and> map_of ?both (lit ''default'') = Some (Handler 2)"
    using d(1) by (simp add: example_env_def example_builtins_def)
  have p3: "([lit ''json''] = [] \<or> req_accepts example_env [lit ''json''] = None
       \<or> req_accepts example_env [lit ''json''] = Some [])
      \<and> map_of ?one (lit ''default'') = None"
    using d(2) by (simp add: example_env_def example_builtins_def)
  obtain h where "map_of ?both (lit ''json'') = Some h"
    and "format ?E new_response ?both
      = Returned (Call h None)
          (setHeader (vary ?E new_response (lit ''Accept'')) ''Content-Type''
             (content_type_value ?E (normalizeType ?E (lit ''json''))))"
    using format_negotiation [OF k2, where E = ?E and k = "lit ''json''" and d = "Handler 2"
        and r = new_response] p1 by blast
  then have 1: "format ?E new_response ?both
     = Returned (Call (Handler 1) None)
         (new_response\<lparr>headers := [''vary'' \<mapsto> JStr (lit ''Accept''),
            ''content-type'' \<mapsto> JStr (lit ''application/json; charset=utf-8'')]\<rparr>)"
    unfolding v c d(3) by simp
  have 2: "format example_env new_response ?both = Returned (Call (Handler 2) None) ?varied"
    using format_negotiation [OF k2, where E = example_env and k = "lit ''json''"
        and d = "Handler 2" and r = new_response] p2
    unfolding v by blast
  have 3: "format example_env new_response ?one
     = Returned (Next (Some (createError 406 [lit ''application/json'']))) ?varied"
    using format_negotiation [OF k1, where E = example_env and k = "lit ''json''"
        and d = "Handler 2" and r = new_response] p3
    unfolding v n by blast
  from 1 2 3 show ?thesis by blast
qed

subsection \<open>\<^verbatim>\<open>clearCookie\<close>\<close>

text \<open>The options \<^verbatim>\<open>clearCookie\<close> makes of the caller's, as \<^verbatim>\<open>cookie\<close> serializes them.\<close>

lemma append_set_cookie:
  "append_header E r ''Set-Cookie'' (JStr entry) =
     Returned ()
       (setHeader r ''Set-Cookie''
          (if truthy (get r ''Set-Cookie'') then
             (case get r ''Set-Cookie'' of
                JArr ps \<Rightarrow> JArr (map (\<lambda>v. JStr (js_String E v)) ps @ [JStr entry])
              | prev \<Rightarrow> JArr [JStr (js_String E prev), JStr entry])
           else JStr entry))"
proof -
  have sc: "toLowerCase ''Set-Cookie'' \<noteq> ''content-type''"
    by (simp add: lower_names)
  show ?thesis
    by (cases "get r ''Set-Cookie''")
       (simp_all add: append_header_def Let_def set_header_other_field [OF sc] coerce_def
          comp_def)
qed

lemma clearCookie_options:
  assumes "opts = (([''path'' \<mapsto> JStr (lit ''/'')] ++ options)
                    (''expires'' \<mapsto> new_Date (Fin 1)))(''maxAge'' := None)"
  shows "option_value opts ''signed'' = option_value options ''signed''"
    and "\<not> not_nullish (option_value opts ''maxAge'')"
    and "(if \<not> not_nullish (option_value opts ''path'')
          then opts(''path'' \<mapsto> JStr (lit ''/'')) else opts)
         = options(''maxAge'' := None, ''expires'' \<mapsto> JDate (Fin 1),
                   ''path'' \<mapsto> (if not_nullish (option_value options ''path'')
                                  then option_value options ''path''
                                  else JStr (lit ''/'')))"
proof -
  have m: "opts = (\<lambda>k. if k = ''maxAge'' then None
               else if k = ''expires'' then Some (JDate (Fin 1))
               else if k = ''path'' then
                 (case options ''path'' of None \<Rightarrow> Some (JStr (lit ''/'')) | Some v \<Rightarrow> Some v)
               else options k)"
    unfolding assms by (rule ext) (auto simp add: map_add_def split: option.split)
  show "option_value opts ''signed'' = option_value options ''signed''"
    by (simp add: m option_value_def)
  show "\<not> not_nullish (option_value opts ''maxAge'')"
    by (simp add: m option_value_def)
  show "(if \<not> not_nullish (option_value opts ''path'')
          then opts(''path'' \<mapsto> JStr (lit ''/'')) else opts)
         = options(''maxAge'' := None, ''expires'' \<mapsto> JDate (Fin 1),
                   ''path'' \<mapsto> (if not_nullish (option_value options ''path'')
                                  then option_value options ''path''
                                  else JStr (lit ''/'')))"
    unfolding m by (cases "options ''path''") (auto simp add: option_value_def fun_eq_iff)
qed

lemma clearCookie_eq:
  "clearCookie E r name options =
     (if truthy (option_value options ''signed'') \<and> \<not> truthy (req_secret E) then
        Thrown (new_error Error
             [Txt ''cookieParser('', Txt [CHR 0x22], Txt ''secret'', Txt [CHR 0x22],
              Txt '') required for signed cookies'']) r
      else
        (case (if truthy (option_value options ''signed'') then
                 (case cookie_sign E [] (req_secret E) of
                    Inl e \<Rightarrow> Inl e
                  | Inr s \<Rightarrow> Inr (lit ''s:'' @ s))
               else Inr []) of
           Inl e \<Rightarrow> Thrown e r
         | Inr val \<Rightarrow>
             (case cookie_serialize E name val
                     (options(''maxAge'' := None, ''expires'' \<mapsto> JDate (Fin 1),
                        ''path'' \<mapsto> (if not_nullish (option_value options ''path'')
                                       then option_value options ''path''
                                       else JStr (lit ''/'')))) of
                Inl e \<Rightarrow> Thrown e r
              | Inr entry \<Rightarrow> append_header E r ''Set-Cookie'' (JStr entry))))"
proof -
  define opts where "opts = (([''path'' \<mapsto> JStr (lit ''/'')] ++ options)
                    (''expires'' \<mapsto> new_Date (Fin 1)))(''maxAge'' := None)"
  note o = clearCookie_options [OF opts_def]
  have "clearCookie E r name options = cookie E r name (JStr []) opts"
    by (simp only: clearCookie_def Let_def opts_def)
  also have "\<dots> =
     (if truthy (option_value options ''signed'') \<and> \<not> truthy (req_secret E) then
        Thrown (new_error Error
             [Txt ''cookieParser('', Txt [CHR 0x22], Txt ''secret'', Txt [CHR 0x22],
              Txt '') required for signed cookies'']) r
      else
        (case (if truthy (option_value options ''signed'') then
                 (case cookie_sign E [] (req_secret E) of
                    Inl e \<Rightarrow> Inl e
                  | Inr s \<Rightarrow> Inr (lit ''s:'' @ s))
               else Inr []) of
           Inl e \<Rightarrow> Thrown e r
         | Inr val \<Rightarrow>
             (case cookie_serialize E name val
                     (if \<not> not_nullish (option_value opts ''path'')
                      then opts(''path'' \<mapsto> JStr (lit ''/'')) else opts) of
                Inl e \<Rightarrow> Thrown e r
              | Inr entry \<Rightarrow> append_header E r ''Set-Cookie'' (JStr entry))))"
    unfolding cookie_def Let_def o(1) using o(2) by simp
  finally show ?thesis unfolding o(3) .
qed

text \<open>
  C9, as amended. Let \<open>opts\<close> be these options: no \<^verbatim>\<open>maxAge\<close>, whatever the caller gave;
  \<^verbatim>\<open>expires\<close> the date with time value 1, one millisecond after the epoch; \<^verbatim>\<open>path\<close> the
  caller's if it is neither undefined nor null, and \<^verbatim>\<open>/\<close> otherwise; every other option
  as the caller gave it. When the option \<^verbatim>\<open>signed\<close> of the caller is not truthy and
  \<^verbatim>\<open>cookie.serialize\<close> accepts the name, the empty value and \<open>opts\<close>,
  \<^verbatim>\<open>clearCookie(name, options)\<close> appends the entry it returns to the header Set-Cookie
  (after the values the header has, if any), and changes no other header, nor the status,
  nor what was written; when \<^verbatim>\<open>cookie.serialize\<close> throws (an invalid name or option),
  \<^verbatim>\<open>clearCookie\<close> throws the same error and the context is as it was. When \<^verbatim>\<open>signed\<close> is
  truthy and the request has a secret, the same holds with the value \<^verbatim>\<open>s:\<close> followed by
  the signature of the empty string in place of the empty value, and what \<^verbatim>\<open>sign\<close> throws
  is thrown by \<^verbatim>\<open>clearCookie\<close> too; when \<^verbatim>\<open>signed\<close> is truthy and there is no secret,
  \<^verbatim>\<open>clearCookie\<close> throws an Error and the context is as it was.
\<close>

theorem clearCookie_entry:
  assumes "opts = options(''maxAge'' := None, ''expires'' \<mapsto> JDate (Fin 1),
                    ''path'' \<mapsto> (if not_nullish (option_value options ''path'')
                                   then option_value options ''path''
                                   else JStr (lit ''/'')))"
    and "is_signed = truthy (option_value options ''signed'')"
  shows "opts ''maxAge'' = None
     \<and> opts ''expires'' = Some (JDate (Fin 1))
     \<and> opts ''path'' = Some (if not_nullish (option_value options ''path'')
                             then option_value options ''path'' else JStr (lit ''/''))
     \<and> (\<forall>k. k \<noteq> ''maxAge'' \<and> k \<noteq> ''expires'' \<and> k \<noteq> ''path'' \<longrightarrow> opts k = options k)
     \<and> (\<not> is_signed \<longrightarrow>
          (\<forall>entry. cookie_serialize E name [] opts = Inr entry \<longrightarrow>
             (\<exists>r'. clearCookie E r name options = Returned () r'
                \<and> headers r' ''set-cookie''
                    = Some (if truthy (get r ''Set-Cookie'') then
                              (case get r ''Set-Cookie'' of
                                 JArr ps \<Rightarrow> JArr (map (\<lambda>v. JStr (js_String E v)) ps @ [JStr entry])
                               | prev \<Rightarrow> JArr [JStr (js_String E prev), JStr entry])
                            else JStr entry)
                \<and> (\<forall>h. h \<noteq> ''set-cookie'' \<longrightarrow> headers r' h = headers r h)
                \<and> statusCode r' = statusCode r \<and> ended r' = ended r))
          \<and> (\<forall>e. cookie_serialize E name [] opts = Inl e \<longrightarrow>
                clearCookie E r name options = Thrown e r))
     \<and> (is_signed \<and> truthy (req_secret E) \<longrightarrow>
          (\<forall>e. cookie_sign E [] (req_secret E) = Inl e \<longrightarrow>
              clearCookie E r name options = Thrown e r)
          \<and> (\<forall>s entry. cookie_sign E [] (req_secret E) = Inr s
                \<and> cookie_serialize E name (lit ''s:'' @ s) opts = Inr entry \<longrightarrow>
             (\<exists>r'. clearCookie E r name options = Returned () r'
                \<and> headers r' ''set-cookie''
                    = Some (if truthy (get r ''Set-Cookie'') then
                              (case get r ''Set-Cookie'' of
                                 JArr ps \<Rightarrow> JArr (map (\<lambda>v. JStr (js_String E v)) ps @ [JStr entry])
                               | prev \<Rightarrow> JArr [JStr (js_String E prev), JStr entry])
                            else JStr entry)
                \<and> (\<forall>h. h \<noteq> ''set-cookie'' \<longrightarrow> headers r' h = headers r h)
                \<and> statusCode r' = statusCode r \<and> ended r' = ended r))
          \<and> (\<forall>s e. cookie_sign E [] (req_secret E) = Inr s
                \<and> cookie_serialize E name (lit ''s:'' @ s) opts = Inl e \<longrightarrow>
                clearCookie E r name options = Thrown e r))
     \<and> (is_signed \<and> \<not> truthy (req_secret E) \<longrightarrow>
          clearCookie E r name options
            = Thrown (new_error Error
                [Txt ''cookieParser('', Txt [CHR 0x22], Txt ''secret'', Txt [CHR 0x22],
                 Txt '') required for signed cookies'']) r)"
proof -
  have o: "opts ''maxAge'' = None" "opts ''expires'' = Some (JDate (Fin 1))"
    "opts ''path'' = Some (if not_nullish (option_value options ''path'')
                                 then option_value options ''path'' else JStr (lit ''/''))"
    "\<forall>k. k \<noteq> ''maxAge'' \<and> k \<noteq> ''expires'' \<and> k \<noteq> ''path'' \<longrightarrow> opts k = options k"
    by (simp_all add: assms(1))
  have app: "\<And>entry. \<exists>r'. append_header E r ''Set-Cookie'' (JStr entry) = Returned () r'
         \<and> headers r' ''set-cookie''
             = Some (if truthy (get r ''Set-Cookie'') then
                       (case get r ''Set-Cookie'' of
                          JArr ps \<Rightarrow> JArr (map (\<lambda>v. JStr (js_String E v)) ps @ [JStr entry])
                        | prev \<Rightarrow> JArr [JStr (js_String E prev), JStr entry])
                     else JStr entry)
         \<and> (\<forall>h. h \<noteq> ''set-cookie'' \<longrightarrow> headers r' h = headers r h)
         \<and> statusCode r' = statusCode r \<and> ended r' = ended r"
    by (simp only: append_set_cookie) (simp add: setHeader_def lower_names)
  have eq: "clearCookie E r name options =
     (if is_signed \<and> \<not> truthy (req_secret E) then
        Thrown (new_error Error
             [Txt ''cookieParser('', Txt [CHR 0x22], Txt ''secret'', Txt [CHR 0x22],
              Txt '') required for signed cookies'']) r
      else
        (case (if is_signed then
                 (case cookie_sign E [] (req_secret E) of
                    Inl e \<Rightarrow> Inl e
                  | Inr s \<Rightarrow> Inr (lit ''s:'' @ s))
               else Inr []) of
           Inl e \<Rightarrow> Thrown e r
         | Inr val \<Rightarrow>
             (case cookie_serialize E name val opts of
                Inl e \<Rightarrow> Thrown e r
              | Inr entry \<Rightarrow> append_header E r ''Set-Cookie'' (JStr entry))))"
    unfolding assms by (rule clearCookie_eq)
  have 1: "\<not> is_signed \<longrightarrow>
          (\<forall>entry. cookie_serialize E name [] opts = Inr entry \<longrightarrow>
             clearCookie E r name options = append_header E r ''Set-Cookie'' (JStr entry))
          \<and> (\<forall>e. cookie_serialize E name [] opts = Inl e \<longrightarrow>
                clearCookie E r name options = Thrown e r)"
    by (simp add: eq)
  have 2: "is_signed \<and> truthy (req_secret E) \<longrightarrow>
          (\<forall>e. cookie_sign E [] (req_secret E) = Inl e \<longrightarrow>
              clearCookie E r name options = Thrown e r)
          \<and> (\<forall>s entry. cookie_sign E [] (req_secret E) = Inr s
                \<and> cookie_serialize E name (lit ''s:'' @ s) opts = Inr entry \<longrightarrow>
                clearCookie E r name options = append_header E r ''Set-Cookie'' (JStr entry))
          \<and> (\<forall>s e. cookie_sign E [] (req_secret E) = Inr s
                \<and> cookie_serialize E name (lit ''s:'' @ s) opts = Inl e \<longrightarrow>
                clearCookie E r name options = Thrown e r)"
    by (simp add: eq)
  have 3: "is_signed \<and> \<not> truthy (req_secret E) \<longrightarrow>
          clearCookie E r name options
            = Thrown (new_error Error
                [Txt ''cookieParser('', Txt [CHR 0x22], Txt ''secret'', Txt [CHR 0x22],
                 Txt '') required for signed cookies'']) r"
    by (simp add: eq)
  have a1: "\<not> is_signed \<longrightarrow>
          (\<forall>entry. cookie_serialize E name [] opts = Inr entry \<longrightarrow>
             (\<exists>r'. clearCookie E r name options = Returned () r'
                \<and> headers r' ''set-cookie''
                    = Some (if truthy (get r ''Set-Cookie'') then
                              (case get r ''Set-Cookie'' of
                                 JArr ps \<Rightarrow> JArr (map (\<lambda>v. JStr (js_String E v)) ps @ [JStr entry])
                               | prev \<Rightarrow> JArr [JStr (js_String E prev), JStr entry])
                            else JStr entry)
                \<and> (\<forall>h. h \<noteq> ''set-cookie'' \<longrightarrow> headers r' h = headers r h)
                \<and> statusCode r' = statusCode r \<and> ended r' = ended r))
          \<and> (\<forall>e. cookie_serialize E name [] opts = Inl e \<longrightarrow>
                clearCookie E r name options = Thrown e r)"
  proof (intro impI conjI allI)
    fix entry assume "\<not> is_signed" "cookie_serialize E name [] opts = Inr entry"
    then have "clearCookie E r name options = append_header E r ''Set-Cookie'' (JStr entry)"
      using 1 by blast
    then show "\<exists>r'. clearCookie E r name options = Returned () r'
                \<and> headers r' ''set-cookie''
                    = Some (if truthy (get r ''Set-Cookie'') then
                              (case get r ''Set-Cookie'' of
                                 JArr ps \<Rightarrow> JArr (map (\<lambda>v. JStr (js_String E v)) ps @ [JStr entry])
                               | prev \<Rightarrow> JArr [JStr (js_String E prev), JStr entry])
                            else JStr entry)
                \<and> (\<forall>h. h \<noteq> ''set-cookie'' \<longrightarrow> headers r' h = headers r h)
                \<and> statusCode r' = statusCode r \<and> ended r' = ended r"
      using app [of entry] by simp
  next
    fix e assume "\<not> is_signed" "cookie_serialize E name [] opts = Inl e"
    then show "clearCookie E r name options = Thrown e r" using 1 by blast
  qed
  have a2: "is_signed \<and> truthy (req_secret E) \<longrightarrow>
          (\<forall>e. cookie_sign E [] (req_secret E) = Inl e \<longrightarrow>
              clearCookie E r name options = Thrown e r)
          \<and> (\<forall>s entry. cookie_sign E [] (req_secret E) = Inr s
                \<and> cookie_serialize E name (lit ''s:'' @ s) opts = Inr entry \<longrightarrow>
             (\<exists>r'. clearCookie E r name options = Returned () r'
                \<and> headers r' ''set-cookie''
                    = Some (if truthy (get r ''Set-Cookie'') then
                              (case get r ''Set-Cookie'' of
                                 JArr ps \<Rightarrow> JArr (map (\<lambda>v. JStr (js_String E v)) ps @ [JStr entry])
                               | prev \<Rightarrow> JArr [JStr (js_String E prev), JStr entry])
                            else JStr entry)
                \<and> (\<forall>h. h \<noteq> ''set-cookie'' \<longrightarrow> headers r' h = headers r h)
                \<and> statusCode r' = statusCode r \<and> ended r' = ended r))
          \<and> (\<forall>s e. cookie_sign E [] (req_secret E) = Inr s
                \<and> cookie_serialize E name (lit ''s:'' @ s) opts = Inl e \<longrightarrow>
                clearCookie E r name options = Thrown e r)"
  proof (intro impI conjI allI)
    fix e assume "is_signed \<and> truthy (req_secret E)" "cookie_sign E [] (req_secret E) = Inl e"
    then show "clearCookie E r name options = Thrown e r" using 2 by blast
  next
    fix s entry assume "is_signed \<and> truthy (req_secret E)"
      "cookie_sign E [] (req_secret E) = Inr s
                \<and> cookie_serialize E name (lit ''s:'' @ s) opts = Inr entry"
    then have "clearCookie E r name options = append_header E r ''Set-Cookie'' (JStr entry)"
      using 2 by blast
    then show "\<exists>r'. clearCookie E r name options = Returned () r'
                \<and> headers r' ''set-cookie''
                    = Some (if truthy (get r ''Set-Cookie'') then
                              (case get r ''Set-Cookie'' of
                                 JArr ps \<Rightarrow> JArr (map (\<lambda>v. JStr (js_String E v)) ps @ [JStr entry])
                               | prev \<Rightarrow> JArr [JStr (js_String E prev), JStr entry])
                            else JStr entry)
                \<and> (\<forall>h. h \<noteq> ''set-cookie'' \<longrightarrow> headers r' h = headers r h)
                \<and> statusCode r' = statusCode r \<and> ended r' = ended r"
      using app [of entry] by simp
  next
    fix s e assume "is_signed \<and> truthy (req_secret E)"
      "cookie_sign E [] (req_secret E) = Inr s
                \<and> cookie_serialize E name (lit ''s:'' @ s) opts = Inl e"
    then show "clearCookie E r name options = Thrown e r" using 2 by blast
  qed
  from o a1 a2 3 show ?thesis by blast
qed

theorem clearCookie_entry_witness:
  "(\<exists>r'. clearCookie example_env new_response (lit ''sid'')
            [''maxAge'' \<mapsto> JNum (Fin 60000)] = Returned () r'
       \<and> headers r' ''set-cookie'' = Some (JStr (lit ''sid=; path=/; expires=1''))
       \<and> statusCode r' = 200 \<and> ended r' = [])
   \<and> clearCookie example_env new_response (lit ''bad name'') [''maxAge'' \<mapsto> JNum (Fin 60000)]
       = Thrown (new_error TypeError [Txt ''argument name is invalid'']) new_response
   \<and> (\<exists>r'. clearCookie (example_env\<lparr>req_secret := JStr (lit ''key'')\<rparr>) new_response
            (lit ''sid'') [''signed'' \<mapsto> JBool True] = Returned () r'
       \<and> headers r' ''set-cookie''
           = Some (JStr (lit ''sid=s:.signature; path=/; expires=1'')))
   \<and> clearCookie (example_env\<lparr>req_secret := JBool True\<rparr>) new_response
            (lit ''sid'') [''signed'' \<mapsto> JBool True]
       = Thrown (new_error TypeError [Txt ''The key argument must be of type string''])
           new_response
   \<and> clearCookie example_env new_response (lit ''sid'') [''signed'' \<mapsto> JBool True]
       = Thrown (new_error Error
           [Txt ''cookieParser('', Txt [CHR 0x22], Txt ''secret'', Txt [CHR 0x22],
            Txt '') required for signed cookies''])
           new_response"
proof -
  define o1 :: "string \<Rightarrow> jsval option" where "o1 = [''maxAge'' \<mapsto> JNum (Fin 60000)]"
  define o2 :: "string \<Rightarrow> jsval option" where "o2 = [''signed'' \<mapsto> JBool True]"
  define p1 where "p1 = o1(''maxAge'' := None, ''expires'' \<mapsto> JDate (Fin 1),
                    ''path'' \<mapsto> (if not_nullish (option_value o1 ''path'')
                                   then option_value o1 ''path''
                                   else JStr (lit ''/'')))"
  define p2 where "p2 = o2(''maxAge'' := None, ''expires'' \<mapsto> JDate (Fin 1),
                    ''path'' \<mapsto> (if not_nullish (option_value o2 ''path'')
                                   then option_value o2 ''path''
                                   else JStr (lit ''/'')))"
  define s1 where "s1 = truthy (option_value o1 ''signed'')"
  define s2 where "s2 = truthy (option_value o2 ''signed'')"
  define E2 where "E2 = example_env\<lparr>req_secret := JStr (lit ''key'')\<rparr>"
  define E3 where "E3 = example_env\<lparr>req_secret := JBool True\<rparr>"
  define sid where "sid = lit ''sid''"
  define bad where "bad = lit ''bad name''"
  have sg: "\<not> s1" "s2" by (simp_all add: s1_def s2_def o1_def o2_def option_value_def)
  have k: "\<not> truthy (req_secret example_env)" "truthy (req_secret E2)" "truthy (req_secret E3)"
    by (simp_all add: example_env_def example_builtins_def E2_def E3_def lit_def)
  have g: "\<not> truthy (get new_response ''Set-Cookie'')" "statusCode new_response = 200"
    "ended new_response = []"
    by (simp_all add: get_def new_response_def)
  have ser1: "cookie_serialize example_env sid [] p1 = Inr (lit ''sid=; path=/; expires=1'')"
    by (simp add: example_env_def example_builtins_def example_serialize_def
        example_attribute_def example_name_char_def p1_def o1_def option_value_def sid_def
        lit_def decimal.simps)
  have ser2: "cookie_serialize example_env bad [] p1
       = Inl (new_error TypeError [Txt ''argument name is invalid''])"
    by (simp add: example_env_def example_builtins_def example_serialize_def
        example_name_char_def bad_def lit_def)
  have sig: "cookie_sign E2 [] (req_secret E2) = Inr (lit ''.signature'')"
    "cookie_sign E3 [] (req_secret E3)
       = Inl (new_error TypeError [Txt ''The key argument must be of type string''])"
    by (simp_all add: example_env_def example_builtins_def example_sign_def E2_def E3_def)
  have ser3: "cookie_serialize E2 sid (lit ''s:'' @ lit ''.signature'') p2
       = Inr (lit ''sid=s:.signature; path=/; expires=1'')"
    by (simp add: example_env_def example_builtins_def example_serialize_def E2_def
        example_attribute_def example_name_char_def p2_def o2_def option_value_def sid_def
        lit_def decimal.simps)
  note T1 = clearCookie_entry [OF p1_def s1_def, where E = example_env and r = new_response]
  note B1 = T1 [where name = sid, THEN conjunct2, THEN conjunct2, THEN conjunct2,
      THEN conjunct2, THEN conjunct1, THEN mp, OF sg(1)]
  note B2 = T1 [where name = bad, THEN conjunct2, THEN conjunct2, THEN conjunct2,
      THEN conjunct2, THEN conjunct1, THEN mp, OF sg(1)]
  obtain r1 where r1: "clearCookie example_env new_response sid o1 = Returned () r1"
    "headers r1 ''set-cookie''
       = Some (if truthy (get new_response ''Set-Cookie'') then
                 (case get new_response ''Set-Cookie'' of
                    JArr ps \<Rightarrow> JArr (map (\<lambda>v. JStr (js_String example_env v)) ps
                                    @ [JStr (lit ''sid=; path=/; expires=1'')])
                  | prev \<Rightarrow> JArr [JStr (js_String example_env prev),
                                  JStr (lit ''sid=; path=/; expires=1'')])
               else JStr (lit ''sid=; path=/; expires=1''))"
    "statusCode r1 = statusCode new_response" "ended r1 = ended new_response"
    using B1 [THEN conjunct1, THEN spec, THEN mp, OF ser1]
    by (elim exE conjE)
  have 1: "\<exists>r'. clearCookie example_env new_response sid o1 = Returned () r'
       \<and> headers r' ''set-cookie'' = Some (JStr (lit ''sid=; path=/; expires=1''))
       \<and> statusCode r' = 200 \<and> ended r' = []"
    using r1(1) r1(2) [unfolded if_not_P [OF g(1)]] r1(3,4) [unfolded g(2,3)]
    by (intro exI [of _ r1] conjI)
  have 2: "clearCookie example_env new_response bad o1
       = Thrown (new_error TypeError [Txt ''argument name is invalid'']) new_response"
    by (rule B2 [THEN conjunct2, THEN spec, THEN mp, OF ser2])
  note T2 = clearCookie_entry [OF p2_def s2_def, where name = sid and r = new_response]
  note U2 = T2 [where E = E2, THEN conjunct2, THEN conjunct2, THEN conjunct2, THEN conjunct2,
      THEN conjunct2, THEN conjunct1, THEN mp, OF conjI [OF sg(2) k(2)]]
  note U3 = T2 [where E = E3, THEN conjunct2, THEN conjunct2, THEN conjunct2, THEN conjunct2,
      THEN conjunct2, THEN conjunct1, THEN mp, OF conjI [OF sg(2) k(3)]]
  note U4 = T2 [where E = example_env, THEN conjunct2, THEN conjunct2, THEN conjunct2,
      THEN conjunct2, THEN conjunct2, THEN conjunct2, THEN mp, OF conjI [OF sg(2) k(1)]]
  obtain r3 where r3: "clearCookie E2 new_response sid o2 = Returned () r3"
    "headers r3 ''set-cookie''
       = Some (if truthy (get new_response ''Set-Cookie'') then
                 (case get new_response ''Set-Cookie'' of
                    JArr ps \<Rightarrow> JArr (map (\<lambda>v. JStr (js_String E2 v)) ps
                                    @ [JStr (lit ''sid=s:.signature; path=/; expires=1'')])
                  | prev \<Rightarrow> JArr [JStr (js_String E2 prev),
                                  JStr (lit ''sid=s:.signature; path=/; expires=1'')])
               else JStr (lit ''sid=s:.signature; path=/; expires=1''))"
    using U2 [THEN conjunct2, THEN conjunct1, THEN spec, THEN spec, THEN mp,
        OF conjI [OF sig(1) ser3]]
    by (elim exE conjE)
  have 3: "\<exists>r'. clearCookie E2 new_response sid o2 = Returned () r'
       \<and> headers r' ''set-cookie''
           = Some (JStr (lit ''sid=s:.signature; path=/; expires=1''))"
    using r3(1) r3(2) [unfolded if_not_P [OF g(1)]]
    by (intro exI [of _ r3] conjI)
  have 4: "clearCookie E3 new_response sid o2
       = Thrown (new_error TypeError [Txt ''The key argument must be of type string''])
           new_response"
    by (rule U3 [THEN conjunct1, THEN spec, THEN mp, OF sig(2)])
  have 5: "clearCookie example_env new_response sid o2
       = Thrown (new_error Error
           [Txt ''cookieParser('', Txt [CHR 0x22], Txt ''secret'', Txt [CHR 0x22],
            Txt '') required for signed cookies''])
           new_response"
    by (rule U4)
  from 1 2 3 4 5 show ?thesis
    unfolding o1_def o2_def E2_def E3_def sid_def bad_def by (intro conjI)
qed

text \<open>
  The claim C9 as it stands fails on options with \<^verbatim>\<open>signed\<close> and on a name that is not
  valid: with a secret the cookie that clears \<^verbatim>\<open>sid\<close> carries the signed value and not
  the empty one, without a secret no cookie is appended at all, and for the name
  \<^verbatim>\<open>bad name\<close> the serializer throws and no cookie is appended.
\<close>

theorem clearCookie_entry_counterexample:
  "clearCookie (example_env\<lparr>req_secret := JStr (lit ''key'')\<rparr>) new_response (lit ''sid'')
      [''signed'' \<mapsto> JBool True]
     = Returned ()
         (new_response\<lparr>headers :=
            [''set-cookie'' \<mapsto> JStr (lit ''sid=s:.signature; path=/; expires=1'')]\<rparr>)
   \<and> clearCookie example_env new_response (lit ''sid'') [''signed'' \<mapsto> JBool True]
     = Thrown (new_error Error
          [Txt ''cookieParser('', Txt [CHR 0x22], Txt ''secret'', Txt [CHR 0x22],
           Txt '') required for signed cookies''])
         new_response
   \<and> clearCookie example_env new_response (lit ''bad name'') (\<lambda>k. None)
     = Thrown (new_error TypeError [Txt ''argument name is invalid'']) new_response"
  by (simp add: clearCookie_eq append_set_cookie option_value_def get_def new_response_def
      example_env_def example_builtins_def example_serialize_def example_attribute_def
      example_name_char_def example_sign_def setHeader_def lower_names lit_def decimal.simps)

lemma clearCookie_example:
  "clearCookie example_env new_response (lit ''sid'') [''maxAge'' \<mapsto> JNum (Fin 60000)]
     = Returned ()
         (new_response\<lparr>headers := [''set-cookie'' \<mapsto> JStr (lit ''sid=; path=/; expires=1'')]\<rparr>)"
  by (simp add: clearCookie_eq append_set_cookie option_value_def get_def new_response_def
      example_env_def example_builtins_def example_serialize_def example_attribute_def
      example_name_char_def setHeader_def lower_names lit_def decimal.simps)

subsection \<open>Runs of the methods on the examples\<close>

lemma sendStatus_example:
  "sendStatus example_env new_response (JNum (Fin 404))
     = Returned ()
         \<lparr>statusCode = 404,
          headers = [''content-type'' \<mapsto> JStr (lit ''text/plain; charset=utf-8''),
                     ''content-length'' \<mapsto> JStr (lit ''9'')],
          ended = [End_with (CStr (lit ''Not Found'')) (Some Utf8)]\<rparr>"
  by (simp add: sendStatus_def status_def example_statuses_def default_type_def get_def
      lower_names new_response_def type_def example_env_def example_builtins_def
      example_mime_def lit_def set_header_def header_def coerce_def send_chunk_def
      send_encode_def send_length_etag_def send_measure_def genETag_def
      content_type_value_def setHeader_def send_status_def send_end_def decimal.simps
      fun_upd_twist)

lemma jsonp_example:
  "jsonp (example_env\<lparr>req_query := (\<lambda>k. if k = lit ''callback'' then JStr (lit ''cb'')
                                           else JUndefined)\<rparr>)
      new_response example_object
     = Returned ()
         \<lparr>statusCode = 200,
          headers = [''x-content-type-options'' \<mapsto> JStr (lit ''nosniff''),
                     ''content-type'' \<mapsto> JStr (lit ''text/javascript; charset=utf-8''),
                     ''content-length'' \<mapsto> JStr (lit ''41'')],
          ended = [End_with (CStr (lit ''/**/ typeof cb==='' @ [0x27] @ lit ''function'' @ [0x27]
                     @ lit ''&&cb('' @ example_json @ lit '');'')) (Some Utf8)]\<rparr>"
  by (simp add: jsonp_def jsonp_body_def callback_char_def escape_line_separators_def
      stringify_def default_type_def get_def lower_names new_response_def
      type_def example_env_def example_builtins_def example_mime_def lit_def set_header_def
      header_def coerce_def send_chunk_def send_encode_def send_length_etag_def send_measure_def
      genETag_def content_type_value_def setHeader_def send_status_def send_end_def
      decimal.simps fun_upd_twist string_or_undefined_def example_json_def example_object_def)

end
